theory Spec2Isabelle
  imports Complex_Main "HOL-Library.Word"
begin

unbundle bit_operations_syntax

section \<open>Results, channels, outcomes\<close>

text \<open>
  \<^verbatim>\<open>transcribe.Result\<close> (service.go). The two float32 confidences that matter to the
  properties below, 0.0 and 1.0, are exact; 0.9 and 0.8 stand for their float32 roundings.
\<close>

type_synonym byte = "8 word"
type_synonym path = string

record Result =
  Text :: string
  Confidence :: rat
  Final :: bool
  AudioFile :: string
  TextFile :: string

text \<open>\<^verbatim>\<open>transcribe.StreamOptions\<close> (service.go).\<close>

record StreamOptions =
  Language :: string
  Transcribe :: bool

text \<open>
  A Go call either returns, panics, or blocks for ever (a send on a full channel that
  nobody reads, a receive on an open empty channel that nobody writes).
\<close>

datatype 'a outcome = Return 'a | Panic string | Blocked

text \<open>
  A Go channel of \<^verbatim>\<open>Result\<close>: its buffer, its capacity and whether it was closed.
  Sending on a closed channel and closing a closed channel panic.
\<close>

record chan =
  chan_buf :: "Result list"
  chan_cap :: nat
  chan_closed :: bool

definition make_chan :: "nat \<Rightarrow> chan" where
  "make_chan n = \<lparr>chan_buf = [], chan_cap = n, chan_closed = False\<rparr>"

section \<open>The environment: file system, clock, recognizer, trace of calls\<close>

text \<open>
  Messages handed to a WebSocket connection. The JSON envelope and the base64 coding are
  not modelled: a message is its kind and the raw audio it wraps.
\<close>

datatype ws_message =
    XunfeiFrame nat "byte list"
  | AzureSpeechConfig
  | AzureAudio "byte list"
  | BaiduAudio "byte list"
  | AudioEnd

text \<open>
  Messages read from a WebSocket connection, as far as the listeners look at them:
  \<^verbatim>\<open>azureSpeechResponse\<close> with its type, the display text and the confidence of its
  recognition, and its status; \<^verbatim>\<open>baiduSpeechResponse\<close> with its type, the text of its
  result and its error code. One \<^verbatim>\<open>ReadMessage\<close> of a listener yields a message that
  unmarshals into the response struct, a message that does not, or an error.
\<close>

record azureSpeechResponse =
  ar_Type :: string
  ar_DisplayText :: string
  ar_Confidence :: rat
  ar_Status :: string

record baiduSpeechResponse =
  br_Type :: string
  br_Text :: string
  br_Error :: int

datatype 'r ws_read = Received 'r | Garbled | ReadFailed

text \<open>
  Every call the program makes on something outside itself is appended to the trace:
  calls on the open file, on the file system, on the result channel, on the socket, on
  the recognizer executable and on the data channel. A call is recorded whether or not
  it succeeds; a run of the recognizer is recorded with its exit error. Log output is
  not recorded.
\<close>

datatype event =
    FileWrite path nat "byte list"
  | FileSync path
  | FileStat path
  | FileSeek path nat
  | FileClose path
  | OsMkdirAll path
  | OsCreate path
  | OsRemove path
  | OsReadFile path
  | Exec string "string list" "string option"
  | ChanSend Result
  | ChanClose
  | HttpPostForm
  | WsDial
  | WsWrite ws_message
  | WsClose
  | DcSend string
  | DcClose

record world =
  fs :: "path \<rightharpoonup> byte list"
  trace :: "event list"

text \<open>\<^verbatim>\<open>time.Now()\<close>, as far as the layout \<^verbatim>\<open>20060102_150405\<close> reads it.\<close>

record tstamp =
  year :: nat
  month :: nat
  day :: nat
  hour :: nat
  minute :: nat
  second :: nat

text \<open>
  What the outside decides. \<open>io_fails n\<close>: the fallible call made when the trace has
  length \<open>n\<close> fails. \<open>short_count n\<close>: how many bytes a failing \<^verbatim>\<open>File.Write\<close> made
  at that moment still wrote. \<open>clock\<close>: the wall clock. \<open>run_exec\<close>: the recognizer
  executable, given its path, its arguments and the files it finds: its exit error (if
  any), its combined output and the files it leaves behind. \<open>new_decoder\<close> and
  \<open>opus_decode\<close>: the Opus decoder (\<^verbatim>\<open>newDecoder\<close>, \<^verbatim>\<open>decoder.decode\<close>), an error or
  the PCM bytes of one payload. \<open>json_Marshal\<close>: \<^verbatim>\<open>json.Marshal\<close> of a \<^verbatim>\<open>Result\<close>,
  \<open>None\<close> when it fails. \<open>select_errs_first\<close>: which of two ready cases a
  \<^verbatim>\<open>select\<close> takes when both a read error and the closed audio channel are ready.
  \<open>azure_inbox n\<close> and \<open>baidu_inbox n\<close>: what the listener goroutine of an Azure or
  Baidu stream has read from the socket, read after read, between the previous call of
  the stream's owner and the call the owner makes when the trace has length \<open>n\<close>.
\<close>

record env =
  io_fails :: "nat \<Rightarrow> bool"
  short_count :: "nat \<Rightarrow> nat"
  clock :: "nat \<Rightarrow> tstamp"
  run_exec :: "string \<Rightarrow> string list \<Rightarrow> (path \<rightharpoonup> byte list)
                 \<Rightarrow> string option \<times> string \<times> (path \<rightharpoonup> byte list)"
  new_decoder :: "string option"
  opus_decode :: "byte list \<Rightarrow> string + byte list"
  json_Marshal :: "Result \<Rightarrow> string option"
  select_errs_first :: bool
  azure_inbox :: "nat \<Rightarrow> azureSpeechResponse ws_read list"
  baidu_inbox :: "nat \<Rightarrow> baiduSpeechResponse ws_read list"

definition emit :: "event \<Rightarrow> world \<Rightarrow> world" where
  "emit e w = w\<lparr>trace := trace w @ [e]\<rparr>"

definition fails_now :: "env \<Rightarrow> world \<Rightarrow> bool" where
  "fails_now en w = io_fails en (length (trace w))"

subsection \<open>Channel operations\<close>

definition chan_send :: "chan \<Rightarrow> Result \<Rightarrow> world \<Rightarrow> unit outcome \<times> chan \<times> world" where
  "chan_send c r w =
     (let w1 = emit (ChanSend r) w in
      if chan_closed c then (Panic ''send on closed channel'', c, w1)
      else if length (chan_buf c) < chan_cap c
        then (Return (), c\<lparr>chan_buf := chan_buf c @ [r]\<rparr>, w1)
      else (Blocked, c, w1))"

definition chan_close :: "chan \<Rightarrow> world \<Rightarrow> unit outcome \<times> chan \<times> world" where
  "chan_close c w =
     (let w1 = emit ChanClose w in
      if chan_closed c then (Panic ''close of closed channel'', c, w1)
      else (Return (), c\<lparr>chan_closed := True\<rparr>, w1))"

text \<open>
  The send in a \<^verbatim>\<open>select\<close> that has a \<^verbatim>\<open>default\<close> case: on a full channel nothing
  is sent and the \<^verbatim>\<open>default\<close> case is taken; on a closed channel the send panics.
\<close>

definition chan_try_send :: "chan \<Rightarrow> Result \<Rightarrow> world \<Rightarrow> unit outcome \<times> chan \<times> world" where
  "chan_try_send c r w =
     (if chan_closed c then (Panic ''send on closed channel'', c, emit (ChanSend r) w)
      else if length (chan_buf c) < chan_cap c
        then (Return (), c\<lparr>chan_buf := chan_buf c @ [r]\<rparr>, emit (ChanSend r) w)
      else (Return (), c, w))"

subsection \<open>An open file (\<^verbatim>\<open>*os.File\<close>)\<close>

text \<open>
  The handle knows its path, its offset and whether it was closed. A call on a closed
  handle, or on a path that is no longer in the file system, fails and changes nothing.
  A write at an offset overwrites what is there and extends the file (with zeros in
  between when the offset lies beyond the end).
\<close>

record os_File =
  f_path :: path
  f_pos :: nat
  f_closed :: bool

definition write_at :: "nat \<Rightarrow> byte list \<Rightarrow> byte list \<Rightarrow> byte list" where
  "write_at off bs c =
     take off c @ replicate (off - length c) 0 @ bs @ drop (off + length bs) c"

definition File_Write ::
  "env \<Rightarrow> os_File \<Rightarrow> byte list \<Rightarrow> world \<Rightarrow> (nat \<times> string option) \<times> os_File \<times> world" where
  "File_Write en f bs w =
     (let w1 = emit (FileWrite (f_path f) (f_pos f) bs) w in
      if f_closed f then ((0, Some ''file already closed''), f, w1)
      else case fs w (f_path f) of
        None \<Rightarrow> ((0, Some ''no such file''), f, w1)
      | Some c \<Rightarrow>
          if fails_now en w then
            (let k = min (short_count en (length (trace w))) (length bs) in
             ((k, Some ''write error''), f\<lparr>f_pos := f_pos f + k\<rparr>,
              w1\<lparr>fs := (fs w)(f_path f \<mapsto> write_at (f_pos f) (take k bs) c)\<rparr>))
          else
            ((length bs, None), f\<lparr>f_pos := f_pos f + length bs\<rparr>,
             w1\<lparr>fs := (fs w)(f_path f \<mapsto> write_at (f_pos f) bs c)\<rparr>))"

definition File_Sync :: "env \<Rightarrow> os_File \<Rightarrow> world \<Rightarrow> string option \<times> world" where
  "File_Sync en f w =
     (let w1 = emit (FileSync (f_path f)) w in
      if f_closed f then (Some ''file already closed'', w1)
      else if fails_now en w then (Some ''sync error'', w1)
      else (None, w1))"

definition File_Stat :: "env \<Rightarrow> os_File \<Rightarrow> world \<Rightarrow> (string + nat) \<times> world" where
  "File_Stat en f w =
     (let w1 = emit (FileStat (f_path f)) w in
      if f_closed f then (Inl ''file already closed'', w1)
      else case fs w (f_path f) of
        None \<Rightarrow> (Inl ''no such file'', w1)
      | Some c \<Rightarrow> if fails_now en w then (Inl ''stat error'', w1) else (Inr (length c), w1))"

definition File_Seek ::
  "env \<Rightarrow> os_File \<Rightarrow> nat \<Rightarrow> world \<Rightarrow> string option \<times> os_File \<times> world" where
  "File_Seek en f off w =
     (let w1 = emit (FileSeek (f_path f) off) w in
      if f_closed f then (Some ''file already closed'', f, w1)
      else if fails_now en w then (Some ''seek error'', f, w1)
      else (None, f\<lparr>f_pos := off\<rparr>, w1))"

text \<open>A failing \<^verbatim>\<open>Close\<close> still leaves the handle closed.\<close>

definition File_Close :: "env \<Rightarrow> os_File \<Rightarrow> world \<Rightarrow> string option \<times> os_File \<times> world" where
  "File_Close en f w =
     (let w1 = emit (FileClose (f_path f)) w in
      if f_closed f then (Some ''file already closed'', f, w1)
      else if fails_now en w then (Some ''close error'', f\<lparr>f_closed := True\<rparr>, w1)
      else (None, f\<lparr>f_closed := True\<rparr>, w1))"

subsection \<open>The file system\<close>

text \<open>
  \<^verbatim>\<open>os.Remove\<close> takes the path out of the file system; it fails only when the path is
  not there. Every caller in the program ignores or only logs its error.
\<close>

definition os_Remove :: "path \<Rightarrow> world \<Rightarrow> string option \<times> world" where
  "os_Remove p w =
     (let w1 = emit (OsRemove p) w in
      case fs w p of
        None \<Rightarrow> (Some ''no such file'', w1)
      | Some c \<Rightarrow> (None, w1\<lparr>fs := (fs w)(p := None)\<rparr>))"

definition os_MkdirAll :: "env \<Rightarrow> path \<Rightarrow> world \<Rightarrow> string option \<times> world" where
  "os_MkdirAll en p w =
     (let w1 = emit (OsMkdirAll p) w in
      if fails_now en w then (Some ''mkdir error'', w1) else (None, w1))"

text \<open>\<^verbatim>\<open>os.Create\<close> creates the file or truncates it, and opens it at offset 0.\<close>

definition os_Create :: "env \<Rightarrow> path \<Rightarrow> world \<Rightarrow> (string + os_File) \<times> world" where
  "os_Create en p w =
     (let w1 = emit (OsCreate p) w in
      if fails_now en w then (Inl ''create error'', w1)
      else (Inr \<lparr>f_path = p, f_pos = 0, f_closed = False\<rparr>, w1\<lparr>fs := (fs w)(p \<mapsto> [])\<rparr>))"

definition os_ReadFile :: "env \<Rightarrow> path \<Rightarrow> world \<Rightarrow> (string + byte list) \<times> world" where
  "os_ReadFile en p w =
     (let w1 = emit (OsReadFile p) w in
      case fs w p of
        None \<Rightarrow> (Inl ''no such file'', w1)
      | Some c \<Rightarrow> if fails_now en w then (Inl ''read error'', w1) else (Inr c, w1))"

text \<open>
  \<^verbatim>\<open>filepath.Join\<close> of a directory and a file name, without the normalisation of
  \<^verbatim>\<open>filepath.Clean\<close>: paths are only compared for identity here. \<^verbatim>\<open>filepath.Base\<close>
  is the last element of a path.
\<close>

definition filepath_Join :: "path \<Rightarrow> string \<Rightarrow> path" where
  "filepath_Join dir name = (if dir = [] then name else dir @ ''/'' @ name)"

fun strip_slashes :: "string \<Rightarrow> string" where
  "strip_slashes [] = []"
| "strip_slashes (c # cs) = (if c = CHR ''/'' then strip_slashes cs else c # cs)"

definition filepath_Base :: "path \<Rightarrow> string" where
  "filepath_Base p =
     (if p = [] then ''.''
      else let q = rev (strip_slashes (rev p)) in
        if q = [] then ''/''
        else rev (takeWhile (\<lambda>c. c \<noteq> CHR ''/'') (rev q)))"

section \<open>Little-endian fields and the WAV header\<close>

definition le16 :: "16 word \<Rightarrow> byte list" where
  "le16 v = [ucast v, ucast (drop_bit 8 v)]"

definition le32 :: "32 word \<Rightarrow> byte list" where
  "le32 v = [ucast v, ucast (drop_bit 8 v), ucast (drop_bit 16 v), ucast (drop_bit 24 v)]"

definition u32_of :: "byte list \<Rightarrow> 32 word" where
  "u32_of bs = (case bs of
       [b0, b1, b2, b3] \<Rightarrow>
         ucast b0 OR push_bit 8 (ucast b1) OR push_bit 16 (ucast b2) OR push_bit 24 (ucast b3)
     | _ \<Rightarrow> 0)"

text \<open>The 32-bit little-endian field a parser reads at a byte offset of a file.\<close>

definition u32_at :: "nat \<Rightarrow> byte list \<Rightarrow> 32 word" where
  "u32_at off c = u32_of (take 4 (drop off c))"

text \<open>\<^verbatim>\<open>wavHeader\<close> (recorder.go), and the header both batch backends start a file with.\<close>

record wavHeader =
  ChunkID :: "byte list"
  ChunkSize :: "32 word"
  Format :: "byte list"
  Subchunk1ID :: "byte list"
  Subchunk1Size :: "32 word"
  AudioFormat :: "16 word"
  NumChannels :: "16 word"
  SampleRate :: "32 word"
  ByteRate :: "32 word"
  BlockAlign :: "16 word"
  BitsPerSample :: "16 word"
  Subchunk2ID :: "byte list"
  Subchunk2Size :: "32 word"

definition initial_header :: wavHeader where
  "initial_header =
     (let h = \<lparr>ChunkID = [0x52, 0x49, 0x46, 0x46],
               ChunkSize = 0,
               Format = [0x57, 0x41, 0x56, 0x45],
               Subchunk1ID = [0x66, 0x6D, 0x74, 0x20],
               Subchunk1Size = 16,
               AudioFormat = 1,
               NumChannels = 1,
               SampleRate = 48000,
               ByteRate = 0,
               BlockAlign = 0,
               BitsPerSample = 16,
               Subchunk2ID = [0x64, 0x61, 0x74, 0x61],
               Subchunk2Size = 0\<rparr>
      in h\<lparr>ByteRate := SampleRate h * ucast (NumChannels h) * ucast (BitsPerSample h) div 8,
            BlockAlign := NumChannels h * BitsPerSample h div 8\<rparr>)"

text \<open>The thirteen header writes, in the order of the source, each with the name its
  error message carries.\<close>

definition header_fields :: "wavHeader \<Rightarrow> (string \<times> byte list) list" where
  "header_fields h =
     [(''ChunkID'', ChunkID h),
      (''ChunkSize'', le32 (ChunkSize h)),
      (''Format'', Format h),
      (''Subchunk1ID'', Subchunk1ID h),
      (''Subchunk1Size'', le32 (Subchunk1Size h)),
      (''AudioFormat'', le16 (AudioFormat h)),
      (''NumChannels'', le16 (NumChannels h)),
      (''SampleRate'', le32 (SampleRate h)),
      (''ByteRate'', le32 (ByteRate h)),
      (''BlockAlign'', le16 (BlockAlign h)),
      (''BitsPerSample'', le16 (BitsPerSample h)),
      (''Subchunk2ID'', Subchunk2ID h),
      (''Subchunk2Size'', le32 (Subchunk2Size h))]"

fun write_header ::
  "env \<Rightarrow> os_File \<Rightarrow> (string \<times> byte list) list \<Rightarrow> world \<Rightarrow> string option \<times> os_File \<times> world" where
  "write_header en f [] w = (None, f, w)"
| "write_header en f ((name, bs) # rest) w =
     (case File_Write en f bs w of
        ((n, Some e), f1, w1) \<Rightarrow> (Some (''failed to write '' @ name @ '': '' @ e), f1, w1)
      | ((n, None), f1, w1) \<Rightarrow> write_header en f1 rest w1)"

text \<open>The clean-up every failing branch runs: close the file, remove it.\<close>

definition close_and_remove :: "env \<Rightarrow> os_File \<Rightarrow> path \<Rightarrow> world \<Rightarrow> os_File \<times> world" where
  "close_and_remove en f p w =
     (case File_Close en f w of (ce, f1, w1) \<Rightarrow>
      case os_Remove p w1 of (re, w2) \<Rightarrow> (f1, w2))"

subsection \<open>Formatting file names\<close>

definition digit_char :: "nat \<Rightarrow> char" where
  "digit_char d = ''0123456789'' ! (d mod 10)"

function itoa :: "nat \<Rightarrow> string" where
  "itoa n = (if n < 10 then [digit_char n] else itoa (n div 10) @ [digit_char n])"
  by pat_completeness auto
termination
  by (relation "measure id") auto

declare itoa.simps [simp del]

definition zero_pad :: "nat \<Rightarrow> string \<Rightarrow> string" where
  "zero_pad k s = replicate (k - length s) (CHR ''0'') @ s"

text \<open>The layout \<^verbatim>\<open>20060102_150405\<close>.\<close>

definition format_stamp :: "tstamp \<Rightarrow> string" where
  "format_stamp t =
     zero_pad 4 (itoa (year t)) @ zero_pad 2 (itoa (month t)) @ zero_pad 2 (itoa (day t))
     @ ''_'' @ zero_pad 2 (itoa (hour t)) @ zero_pad 2 (itoa (minute t))
     @ zero_pad 2 (itoa (second t))"

section \<open>Finalizing a WAV file\<close>

text \<open>
  Both batch backends finalize their file with the same statements
  (\<^verbatim>\<open>RecorderStream.Close\<close>, \<^verbatim>\<open>WhisperStream.Close\<close>): sync, stat, the size as
  \<^verbatim>\<open>uint32\<close>, the check against the 44 header bytes, the two size fields rewritten at
  offsets 4 and 40, sync, close. Every failing branch closes and removes the file and
  returns its error; a failing sync is only logged. On success the \<^verbatim>\<open>uint32\<close> file
  size is handed on.
\<close>

definition finalize_wav ::
  "env \<Rightarrow> os_File \<Rightarrow> path \<Rightarrow> world \<Rightarrow> (string + 32 word) \<times> os_File \<times> world" where
  "finalize_wav en file filePath w =
     (case File_Sync en file w of (se, w1) \<Rightarrow>
      case File_Stat en file w1 of
        (Inl e, w2) \<Rightarrow>
          (case close_and_remove en file filePath w2 of (f3, w3) \<Rightarrow>
             (Inl (''failed to get file info: '' @ e), f3, w3))
      | (Inr sz, w2) \<Rightarrow>
     (let fileSize = (of_nat sz :: 32 word) in
      if fileSize < 44 then
        (case close_and_remove en file filePath w2 of (f3, w3) \<Rightarrow>
           (Inl (''file too small for WAV header: '' @ itoa (unat fileSize) @ '' bytes''), f3, w3))
      else
     (let audioDataSize = fileSize - 44;
          chunkSize = fileSize - 8 in
      case File_Seek en file 4 w2 of
        (Some e, f3, w3) \<Rightarrow>
          (case close_and_remove en f3 filePath w3 of (f4, w4) \<Rightarrow>
             (Inl (''failed to seek to ChunkSize position: '' @ e), f4, w4))
      | (None, f3, w3) \<Rightarrow>
      case File_Write en f3 (le32 chunkSize) w3 of
        ((n, Some e), f4, w4) \<Rightarrow>
          (case close_and_remove en f4 filePath w4 of (f5, w5) \<Rightarrow>
             (Inl (''failed to update chunk size: '' @ e), f5, w5))
      | ((n, None), f4, w4) \<Rightarrow>
      case File_Seek en f4 40 w4 of
        (Some e, f5, w5) \<Rightarrow>
          (case close_and_remove en f5 filePath w5 of (f6, w6) \<Rightarrow>
             (Inl (''failed to seek to Subchunk2Size: '' @ e), f6, w6))
      | (None, f5, w5) \<Rightarrow>
      case File_Write en f5 (le32 audioDataSize) w5 of
        ((n, Some e), f6, w6) \<Rightarrow>
          (case close_and_remove en f6 filePath w6 of (f7, w7) \<Rightarrow>
             (Inl (''failed to update Subchunk2Size: '' @ e), f7, w7))
      | ((n, None), f6, w6) \<Rightarrow>
      case File_Sync en f6 w6 of (se2, w7) \<Rightarrow>
      case File_Close en f6 w7 of
        (Some e, f8, w8) \<Rightarrow>
          (case os_Remove filePath w8 of (re, w9) \<Rightarrow>
             (Inl (''failed to close file: '' @ e), f8, w9))
      | (None, f8, w8) \<Rightarrow> (Inr fileSize, f8, w8))))"

text \<open>Sequencing channel operations: a panic or a block ends the call.\<close>

definition and_then ::
  "unit outcome \<times> chan \<times> world \<Rightarrow> (chan \<Rightarrow> world \<Rightarrow> 'a outcome \<times> chan \<times> world)
     \<Rightarrow> 'a outcome \<times> chan \<times> world" where
  "and_then x k =
     (case x of
        (Return u, c, w) \<Rightarrow> k c w
      | (Panic p, c, w) \<Rightarrow> (Panic p, c, w)
      | (Blocked, c, w) \<Rightarrow> (Blocked, c, w))"

section \<open>The recorder backend (recorder.go)\<close>

record RecorderTranscriber =
  rt_outputDir :: string
  rt_counter :: nat

record RecorderStream =
  rs_file :: os_File
  rs_results :: chan
  rs_fileName :: string
  rs_filePath :: string
  rs_isClosed :: bool

definition RecorderTranscriber_CreateStream ::
  "env \<Rightarrow> RecorderTranscriber \<Rightarrow> world
     \<Rightarrow> (string + RecorderStream) \<times> RecorderTranscriber \<times> world" where
  "RecorderTranscriber_CreateStream en r w =
     (let r1 = r\<lparr>rt_counter := rt_counter r + 1\<rparr>;
          counter = rt_counter r1;
          timestamp = format_stamp (clock en (length (trace w)));
          fileName = ''recording_'' @ timestamp @ ''_'' @ zero_pad 3 (itoa counter) @ ''.wav'';
          filePath = filepath_Join (rt_outputDir r) fileName
      in
      case os_MkdirAll en (rt_outputDir r) w of
        (Some e, w1) \<Rightarrow> (Inl (''failed to create output directory: '' @ e), r1, w1)
      | (None, w1) \<Rightarrow>
      case os_Create en filePath w1 of
        (Inl e, w2) \<Rightarrow> (Inl (''failed to create WAV file: '' @ e), r1, w2)
      | (Inr file, w2) \<Rightarrow>
      case write_header en file (header_fields initial_header) w2 of
        (Some e, f3, w3) \<Rightarrow>
          (case close_and_remove en f3 filePath w3 of (f4, w4) \<Rightarrow> (Inl e, r1, w4))
      | (None, f3, w3) \<Rightarrow>
          (Inr \<lparr>rs_file = f3, rs_results = make_chan 1, rs_fileName = fileName,
                rs_filePath = filePath, rs_isClosed = False\<rparr>, r1, w3))"

definition RecorderStream_Results :: "RecorderStream \<Rightarrow> chan" where
  "RecorderStream_Results rs = rs_results rs"

text \<open>
  \<^verbatim>\<open>RecorderStream.Close\<close>. The validation pass after the channel is closed reopens
  the file read-only and only logs what it finds; it is left out.
\<close>

definition RecorderStream_Close ::
  "env \<Rightarrow> RecorderStream \<Rightarrow> world \<Rightarrow> string option outcome \<times> RecorderStream \<times> world" where
  "RecorderStream_Close en rs w =
     (if rs_isClosed rs then (Return None, rs, w)
      else
       (let rs1 = rs\<lparr>rs_isClosed := True\<rparr> in
        case finalize_wav en (rs_file rs1) (rs_filePath rs1) w of
          (Inl e, f1, w1) \<Rightarrow> (Return (Some e), rs1\<lparr>rs_file := f1\<rparr>, w1)
        | (Inr fileSize, f1, w1) \<Rightarrow>
           (case and_then
                   (chan_send (rs_results rs1)
                      \<lparr>Text = rs_fileName rs1, Confidence = 1, Final = True,
                       AudioFile = [], TextFile = []\<rparr> w1)
                   (\<lambda>c2 w2. and_then (chan_close c2 w2) (\<lambda>c3 w3. (Return None, c3, w3)))
            of (out, c, w4) \<Rightarrow> (out, rs1\<lparr>rs_file := f1, rs_results := c\<rparr>, w4))))"

definition RecorderStream_Write ::
  "env \<Rightarrow> RecorderStream \<Rightarrow> byte list \<Rightarrow> world
     \<Rightarrow> (nat \<times> string option) \<times> RecorderStream \<times> world" where
  "RecorderStream_Write en rs buffer w =
     (if rs_isClosed rs then ((0, Some ''stream is closed''), rs, w)
      else
        case File_Write en (rs_file rs) buffer w of
          ((written, Some e), f1, w1) \<Rightarrow>
            ((written, Some (''failed to write audio data: '' @ e)), rs\<lparr>rs_file := f1\<rparr>, w1)
        | ((written, None), f1, w1) \<Rightarrow>
            (if written > 0 then
               (case File_Sync en f1 w1 of (se, w2) \<Rightarrow>
                  ((written, None), rs\<lparr>rs_file := f1\<rparr>, w2))
             else ((written, None), rs\<lparr>rs_file := f1\<rparr>, w1)))"

definition NewRecorderTranscriber ::
  "env \<Rightarrow> string \<Rightarrow> world \<Rightarrow> (string + RecorderTranscriber) \<times> world" where
  "NewRecorderTranscriber en outputDir w =
     (let dir = (if outputDir = [] then ''./recordings'' else outputDir) in
      case os_MkdirAll en dir w of
        (Some e, w1) \<Rightarrow> (Inl (''failed to create output directory: '' @ e), w1)
      | (None, w1) \<Rightarrow> (Inr \<lparr>rt_outputDir = dir, rt_counter = 0\<rparr>, w1))"

section \<open>The Whisper backend\<close>

record WhisperTranscriber =
  wt_modelPath :: string
  wt_whisperPath :: string
  wt_tempDir :: string
  wt_language :: string
  wt_counter :: nat
  wt_keepWav :: bool
  wt_keepTxt :: bool

text \<open>The stream reads its transcriber's configuration only; it carries a copy.\<close>

record WhisperStream =
  ws_filePath :: string
  ws_file :: os_File
  ws_results :: chan
  ws_transcriber :: WhisperTranscriber
  ws_language :: string
  ws_transcribe :: bool
  ws_isClosed :: bool

definition WhisperTranscriber_CreateStreamWithOptions ::
  "env \<Rightarrow> WhisperTranscriber \<Rightarrow> StreamOptions \<Rightarrow> world
     \<Rightarrow> (string + WhisperStream) \<times> WhisperTranscriber \<times> world" where
  "WhisperTranscriber_CreateStreamWithOptions en wt opts w =
     (let w0 = wt\<lparr>wt_counter := wt_counter wt + 1\<rparr>;
          streamID = wt_counter w0;
          language = (if Language opts = [] then wt_language wt else Language opts);
          transcribe = Transcribe opts;
          fileName = ''whisper_audio_'' @ itoa streamID @ ''_''
                       @ format_stamp (clock en (length (trace w))) @ ''.wav'';
          filePath = filepath_Join (wt_tempDir wt) fileName
      in
      case os_MkdirAll en (wt_tempDir wt) w of
        (Some e, w1) \<Rightarrow> (Inl (''failed to create output directory: '' @ e), w0, w1)
      | (None, w1) \<Rightarrow>
      case os_Create en filePath w1 of
        (Inl e, w2) \<Rightarrow> (Inl (''failed to create WAV file: '' @ e), w0, w2)
      | (Inr file, w2) \<Rightarrow>
      case write_header en file (header_fields initial_header) w2 of
        (Some e, f3, w3) \<Rightarrow>
          (case close_and_remove en f3 filePath w3 of (f4, w4) \<Rightarrow> (Inl e, w0, w4))
      | (None, f3, w3) \<Rightarrow>
          (Inr \<lparr>ws_filePath = filePath, ws_file = f3, ws_results = make_chan 10,
                ws_transcriber = w0, ws_language = language, ws_transcribe = transcribe,
                ws_isClosed = False\<rparr>, w0, w3))"

definition WhisperTranscriber_CreateStream ::
  "env \<Rightarrow> WhisperTranscriber \<Rightarrow> world
     \<Rightarrow> (string + WhisperStream) \<times> WhisperTranscriber \<times> world" where
  "WhisperTranscriber_CreateStream en wt w =
     WhisperTranscriber_CreateStreamWithOptions en wt
       \<lparr>Language = wt_language wt, Transcribe = True\<rparr> w"

definition WhisperStream_Results :: "WhisperStream \<Rightarrow> chan" where
  "WhisperStream_Results ws = ws_results ws"

definition string_of_bytes :: "byte list \<Rightarrow> string" where
  "string_of_bytes bs = map (\<lambda>b. char_of (unat b)) bs"

text \<open>
  \<^verbatim>\<open>transcribeAudio\<close> returns the text, the text file and the error. The slice
  \<^verbatim>\<open>audioPath[:len(audioPath)-4]\<close> panics on a path shorter than four bytes.
\<close>

definition WhisperStream_transcribeAudio ::
  "env \<Rightarrow> WhisperStream \<Rightarrow> path \<Rightarrow> world
     \<Rightarrow> (string \<times> string \<times> string option) outcome \<times> world" where
  "WhisperStream_transcribeAudio en ws audioPath w =
     (if wt_whisperPath (ws_transcriber ws) = [] then
        (Return ([], [], Some (''whisper executable not found, ''
            @ ''please install whisper-ctranslate2 or set WHISPER_PATH'')), w)
      else
       (let language = (if ws_language ws = [] then wt_language (ws_transcriber ws)
                        else ws_language ws);
            args = [''--model'', wt_modelPath (ws_transcriber ws),
                    ''--output_dir'', wt_tempDir (ws_transcriber ws),
                    ''--output_format'', ''txt'',
                    ''--task'', ''transcribe'',
                    ''--temperature'', ''0.0'']
                   @ (if language \<noteq> [] \<and> language \<noteq> ''auto''
                      then [''--language'', language] else [])
                   @ [audioPath];
            cmd = run_exec en (wt_whisperPath (ws_transcriber ws)) args (fs w);
            w1 = (emit (Exec (wt_whisperPath (ws_transcriber ws)) args (fst cmd)) w)
                   \<lparr>fs := snd (snd cmd)\<rparr>
        in
        case cmd of
          (Some e, output, fs1) \<Rightarrow>
            (Return ([], [], Some (''whisper execution failed: '' @ e @ '', output: '' @ output)),
             w1)
        | (None, output, fs1) \<Rightarrow>
           (if length audioPath < 4 then (Panic ''slice bounds out of range'', w1)
            else
             (let outputFile = take (length audioPath - 4) audioPath @ ''.txt'' in
              case os_ReadFile en outputFile w1 of
                (Inl e, w2) \<Rightarrow>
                  (Return ([], [], Some (''failed to read transcription output: '' @ e)), w2)
              | (Inr content, w2) \<Rightarrow>
                 (let w3 = (if \<not> wt_keepTxt (ws_transcriber ws)
                            then snd (os_Remove outputFile w2) else w2);
                      text = string_of_bytes content
                  in if text = []
                     then (Return ([], outputFile, Some ''transcription result is empty''), w3)
                     else (Return (text, outputFile, None), w3))))))"

definition WhisperStream_Close ::
  "env \<Rightarrow> WhisperStream \<Rightarrow> world \<Rightarrow> string option outcome \<times> WhisperStream \<times> world" where
  "WhisperStream_Close en ws w =
     (if ws_isClosed ws then (Return None, ws, w)
      else
       (let ws1 = ws\<lparr>ws_isClosed := True\<rparr> in
        case finalize_wav en (ws_file ws1) (ws_filePath ws1) w of
          (Inl e, f1, w1) \<Rightarrow> (Return (Some e), ws1\<lparr>ws_file := f1\<rparr>, w1)
        | (Inr fileSize, f1, w1) \<Rightarrow>
           (let ws2 = ws1\<lparr>ws_file := f1\<rparr> in
            if fileSize = 44 then
              (case os_Remove (ws_filePath ws2) w1 of (re, w2) \<Rightarrow>
               case and_then (chan_close (ws_results ws2) w2) (\<lambda>c3 w3. (Return None, c3, w3))
               of (out, c, w4) \<Rightarrow> (out, ws2\<lparr>ws_results := c\<rparr>, w4))
            else if \<not> ws_transcribe ws2 then
              (case and_then
                      (chan_send (ws_results ws2)
                         \<lparr>Text = ''Recording saved (transcription disabled)'', Confidence = 1,
                          Final = True, AudioFile = ws_filePath ws2, TextFile = []\<rparr> w1)
                      (\<lambda>c2 w2. and_then (chan_close c2 w2) (\<lambda>c3 w3. (Return None, c3, w3)))
               of (out, c, w4) \<Rightarrow> (out, ws2\<lparr>ws_results := c\<rparr>, w4))
            else
              (case WhisperStream_transcribeAudio en ws2 (ws_filePath ws2) w1 of
                 (Panic p, w2) \<Rightarrow> (Panic p, ws2, w2)
               | (Blocked, w2) \<Rightarrow> (Blocked, ws2, w2)
               | (Return (text, textFile, err), w2) \<Rightarrow>
                  (let r = (case err of
                              Some e \<Rightarrow>
                                \<lparr>Text = ''Transcription error: '' @ e, Confidence = 0,
                                 Final = True, AudioFile = ws_filePath ws2, TextFile = []\<rparr>
                            | None \<Rightarrow>
                                \<lparr>Text = text, Confidence = 9 / 10,
                                 Final = True, AudioFile = ws_filePath ws2, TextFile = textFile\<rparr>)
                   in
                   case and_then (chan_send (ws_results ws2) r w2)
                          (\<lambda>c3 w3.
                             (let w4 = (if \<not> wt_keepWav (ws_transcriber ws2)
                                        then snd (os_Remove (ws_filePath ws2) w3) else w3)
                              in and_then (chan_close c3 w4) (\<lambda>c5 w5. (Return None, c5, w5))))
                   of (out, c, w6) \<Rightarrow> (out, ws2\<lparr>ws_results := c\<rparr>, w6))))))"

definition WhisperStream_Write ::
  "env \<Rightarrow> WhisperStream \<Rightarrow> byte list \<Rightarrow> world
     \<Rightarrow> (nat \<times> string option) \<times> WhisperStream \<times> world" where
  "WhisperStream_Write en ws buffer w =
     (if ws_isClosed ws then ((0, Some ''stream is closed''), ws, w)
      else
        case File_Write en (ws_file ws) buffer w of
          ((written, Some e), f1, w1) \<Rightarrow>
            ((written, Some (''failed to write audio data: '' @ e)), ws\<lparr>ws_file := f1\<rparr>, w1)
        | ((written, None), f1, w1) \<Rightarrow>
            (case File_Sync en f1 w1 of (se, w2) \<Rightarrow>
               ((written, None), ws\<lparr>ws_file := f1\<rparr>, w2)))"

section \<open>The WebSocket backends (iflytek.go and the Azure and Baidu backends)\<close>

text \<open>
  A connection of the WebSocket library: the messages it has sent and whether it was
  closed. After \<^verbatim>\<open>Close\<close> the network connection is gone: a later write, read or
  close fails and sends nothing.

  Every \<^verbatim>\<open>CreateStream\<close> starts a goroutine \<^verbatim>\<open>listenForResults\<close> that reads the
  socket and sends results on the result channel, concurrently with the stream's owner.
  The owner sees of it what is in the channel, so the listener's steps are placed at the
  owner's calls: each \<^verbatim>\<open>Write\<close> and each \<^verbatim>\<open>Close\<close> begins with the reads the
  listener has made since the owner's previous call, as the environment gives them. A
  read that the listener makes while the owner is inside \<^verbatim>\<open>Close\<close> either sends
  before the channel is closed, which is a read placed at the beginning of that
  \<^verbatim>\<open>Close\<close>, or sends on the closed channel and panics, which the listener's deferred
  \<^verbatim>\<open>recover\<close> swallows and which ends the listener. The context of a stream is that
  of the process and is not cancelled while streams are in use. Whether the goroutine
  still runs is kept in the stream (\<open>as_listening\<close>, \<open>bs_listening\<close>).

  The Xunfei listener sends with a plain send on an unbuffered channel, which completes
  only when a receiver is waiting. The one receiver, the drain of \<^verbatim>\<open>handleAudioTrack\<close>,
  starts after \<^verbatim>\<open>Close\<close> has closed the channel, so a send of this listener blocks
  until the channel is closed and then panics in the listener, where it is recovered:
  the channel of a Xunfei stream never holds a result, and its listener changes nothing
  that the owner sees.
\<close>

record ws_conn =
  conn_sent :: "ws_message list"
  conn_closed :: bool

definition ws_WriteMessage ::
  "env \<Rightarrow> ws_conn \<Rightarrow> ws_message \<Rightarrow> world \<Rightarrow> string option \<times> ws_conn \<times> world" where
  "ws_WriteMessage en c m w =
     (let w1 = emit (WsWrite m) w in
      if conn_closed c then (Some ''use of closed network connection'', c, w1)
      else if fails_now en w then (Some ''write error'', c, w1)
      else (None, c\<lparr>conn_sent := conn_sent c @ [m]\<rparr>, w1))"

definition ws_Close :: "env \<Rightarrow> ws_conn \<Rightarrow> world \<Rightarrow> string option \<times> ws_conn \<times> world" where
  "ws_Close en c w =
     (let w1 = emit WsClose w in
      if conn_closed c then (Some ''use of closed network connection'', c, w1)
      else if fails_now en w then (Some ''close error'', c\<lparr>conn_closed := True\<rparr>, w1)
      else (None, c\<lparr>conn_closed := True\<rparr>, w1))"

definition ws_Dial :: "env \<Rightarrow> world \<Rightarrow> (string + ws_conn) \<times> world" where
  "ws_Dial en w =
     (let w1 = emit WsDial w in
      if fails_now en w then (Inl ''dial error'', w1)
      else (Inr \<lparr>conn_sent = [], conn_closed = False\<rparr>, w1))"

subsection \<open>Xunfei\<close>

record IflyTekTranscriber =
  it_appID :: string
  it_apiKey :: string
  it_apiSecret :: string
  it_appUrl :: string

record IflyTekStream =
  st_conn :: ws_conn
  st_results :: chan
  st_transcriber :: IflyTekTranscriber

text \<open>\<^verbatim>\<open>generateAuthURL\<close> never fails; the URL it builds is not modelled.\<close>

definition IflyTekTranscriber_CreateStream ::
  "env \<Rightarrow> IflyTekTranscriber \<Rightarrow> world \<Rightarrow> (string + IflyTekStream) \<times> world" where
  "IflyTekTranscriber_CreateStream en t w =
     (case ws_Dial en w of
        (Inl e, w1) \<Rightarrow> (Inl (''failed to connect to WebSocket: '' @ e), w1)
      | (Inr conn, w1) \<Rightarrow>
      case ws_WriteMessage en conn (XunfeiFrame 0 []) w1 of
        (Some e, c2, w2) \<Rightarrow>
          (case ws_Close en c2 w2 of (ce, c3, w3) \<Rightarrow> (Inl (''failed to send config: '' @ e), w3))
      | (None, c2, w2) \<Rightarrow>
          (Inr \<lparr>st_conn = c2, st_results = make_chan 0, st_transcriber = t\<rparr>, w2))"

definition IflyTekStream_Results :: "IflyTekStream \<Rightarrow> chan" where
  "IflyTekStream_Results st = st_results st"

text \<open>
  \<^verbatim>\<open>IflyTekStream.Close\<close>: the end marker is sent and its error dropped, the connection
  is closed and its error logged, the result channel is closed, nil is returned.
\<close>

definition IflyTekStream_Close ::
  "env \<Rightarrow> IflyTekStream \<Rightarrow> world \<Rightarrow> string option outcome \<times> IflyTekStream \<times> world" where
  "IflyTekStream_Close en st w =
     (case ws_WriteMessage en (st_conn st) (XunfeiFrame 2 []) w of (we, c1, w1) \<Rightarrow>
      case ws_Close en c1 w1 of (ce, c2, w2) \<Rightarrow>
      case and_then (chan_close (st_results st) w2) (\<lambda>c3 w3. (Return None, c3, w3))
      of (out, c, w4) \<Rightarrow> (out, st\<lparr>st_conn := c2, st_results := c\<rparr>, w4))"

definition IflyTekStream_Write ::
  "env \<Rightarrow> IflyTekStream \<Rightarrow> byte list \<Rightarrow> world
     \<Rightarrow> (nat \<times> string option) \<times> IflyTekStream \<times> world" where
  "IflyTekStream_Write en st buffer w =
     (case ws_WriteMessage en (st_conn st) (XunfeiFrame 1 buffer) w of
        (Some e, c1, w1) \<Rightarrow>
          ((0, Some (''failed to send audio data: '' @ e)), st\<lparr>st_conn := c1\<rparr>, w1)
      | (None, c1, w1) \<Rightarrow> ((length buffer, None), st\<lparr>st_conn := c1\<rparr>, w1))"

subsection \<open>Azure\<close>

record AzureTranscriber =
  az_subscriptionKey :: string
  az_region :: string

record AzureStream =
  as_conn :: ws_conn
  as_results :: chan
  as_listening :: bool

text \<open>
  \<^verbatim>\<open>AzureStream.listenForResults\<close>, on the reads it makes one after the other. A read
  on the closed connection fails, and a failing read ends the listener; a message that
  does not unmarshal is skipped; a recognition with a text is sent if the channel has
  room and dropped if it is full; the message \<^verbatim>\<open>end\<close> ends the listener.
\<close>

fun AzureStream_listenForResults ::
  "azureSpeechResponse ws_read list \<Rightarrow> AzureStream \<Rightarrow> world \<Rightarrow> AzureStream \<times> world" where
  "AzureStream_listenForResults [] st w = (st, w)"
| "AzureStream_listenForResults (m # ms) st w =
     (if \<not> as_listening st then (st, w)
      else if conn_closed (as_conn st) then (st\<lparr>as_listening := False\<rparr>, w)
      else case m of
        ReadFailed \<Rightarrow> (st\<lparr>as_listening := False\<rparr>, w)
      | Garbled \<Rightarrow> AzureStream_listenForResults ms st w
      | Received response \<Rightarrow>
          if ar_Type response = ''recognition'' then
            (if ar_DisplayText response \<noteq> [] then
               (case chan_try_send (as_results st)
                       \<lparr>Text = ar_DisplayText response, Confidence = ar_Confidence response,
                        Final = (ar_Status response = ''success''),
                        AudioFile = [], TextFile = []\<rparr> w of
                  (Return u, c, w1) \<Rightarrow> AzureStream_listenForResults ms (st\<lparr>as_results := c\<rparr>) w1
                | (out, c, w1) \<Rightarrow> (st\<lparr>as_results := c, as_listening := False\<rparr>, w1))
             else AzureStream_listenForResults ms st w)
          else if ar_Type response = ''end'' then (st\<lparr>as_listening := False\<rparr>, w)
          else AzureStream_listenForResults ms st w)"

definition AzureTranscriber_CreateStream ::
  "env \<Rightarrow> AzureTranscriber \<Rightarrow> world \<Rightarrow> (string + AzureStream) \<times> world" where
  "AzureTranscriber_CreateStream en a w =
     (case ws_Dial en w of
        (Inl e, w1) \<Rightarrow> (Inl (''failed to connect to Azure Speech Service: '' @ e), w1)
      | (Inr conn, w1) \<Rightarrow>
      case ws_WriteMessage en conn AzureSpeechConfig w1 of
        (Some e, c2, w2) \<Rightarrow>
          (case ws_Close en c2 w2 of (ce, c3, w3) \<Rightarrow> (Inl (''failed to send config: '' @ e), w3))
      | (None, c2, w2) \<Rightarrow>
          (Inr \<lparr>as_conn = c2, as_results = make_chan 10, as_listening = True\<rparr>, w2))"

definition AzureStream_Results :: "AzureStream \<Rightarrow> chan" where
  "AzureStream_Results st = as_results st"

definition AzureStream_Close ::
  "env \<Rightarrow> AzureStream \<Rightarrow> world \<Rightarrow> string option outcome \<times> AzureStream \<times> world" where
  "AzureStream_Close en st0 w0 =
     (case AzureStream_listenForResults (azure_inbox en (length (trace w0))) st0 w0 of (st, w) \<Rightarrow>
      case ws_WriteMessage en (as_conn st) AudioEnd w of (we, c1, w1) \<Rightarrow>
      case ws_Close en c1 w1 of (ce, c2, w2) \<Rightarrow>
      case and_then (chan_close (as_results st) w2) (\<lambda>c3 w3. (Return None, c3, w3))
      of (out, c, w4) \<Rightarrow> (out, st\<lparr>as_conn := c2, as_results := c\<rparr>, w4))"

definition AzureStream_Write ::
  "env \<Rightarrow> AzureStream \<Rightarrow> byte list \<Rightarrow> world
     \<Rightarrow> (nat \<times> string option) \<times> AzureStream \<times> world" where
  "AzureStream_Write en st0 buffer w0 =
     (case AzureStream_listenForResults (azure_inbox en (length (trace w0))) st0 w0 of (st, w) \<Rightarrow>
      case ws_WriteMessage en (as_conn st) (AzureAudio buffer) w of
        (Some e, c1, w1) \<Rightarrow>
          ((0, Some (''failed to send audio data: '' @ e)), st\<lparr>as_conn := c1\<rparr>, w1)
      | (None, c1, w1) \<Rightarrow> ((length buffer, None), st\<lparr>as_conn := c1\<rparr>, w1))"

subsection \<open>Baidu\<close>

record BaiduTranscriber =
  bd_appID :: string
  bd_apiKey :: string
  bd_secretKey :: string

record BaiduStream =
  bs_conn :: ws_conn
  bs_results :: chan
  bs_listening :: bool

text \<open>
  \<^verbatim>\<open>BaiduStream.listenForResults\<close>, on the reads it makes one after the other: as on
  Azure, with the message type \<^verbatim>\<open>result\<close> and a fixed confidence.
\<close>

fun BaiduStream_listenForResults ::
  "baiduSpeechResponse ws_read list \<Rightarrow> BaiduStream \<Rightarrow> world \<Rightarrow> BaiduStream \<times> world" where
  "BaiduStream_listenForResults [] st w = (st, w)"
| "BaiduStream_listenForResults (m # ms) st w =
     (if \<not> bs_listening st then (st, w)
      else if conn_closed (bs_conn st) then (st\<lparr>bs_listening := False\<rparr>, w)
      else case m of
        ReadFailed \<Rightarrow> (st\<lparr>bs_listening := False\<rparr>, w)
      | Garbled \<Rightarrow> BaiduStream_listenForResults ms st w
      | Received response \<Rightarrow>
          if br_Type response = ''result'' then
            (if br_Text response \<noteq> [] then
               (case chan_try_send (bs_results st)
                       \<lparr>Text = br_Text response, Confidence = 9 / 10, Final = True,
                        AudioFile = [], TextFile = []\<rparr> w of
                  (Return u, c, w1) \<Rightarrow> BaiduStream_listenForResults ms (st\<lparr>bs_results := c\<rparr>) w1
                | (out, c, w1) \<Rightarrow> (st\<lparr>bs_results := c, bs_listening := False\<rparr>, w1))
             else BaiduStream_listenForResults ms st w)
          else if br_Type response = ''end'' then (st\<lparr>bs_listening := False\<rparr>, w)
          else BaiduStream_listenForResults ms st w)"

text \<open>
  \<^verbatim>\<open>getAccessToken\<close> is an HTTP exchange: it yields a token or fails, as the outside
  decides. The token only goes into the URL that is dialled.
\<close>

definition BaiduTranscriber_getAccessToken :: "env \<Rightarrow> world \<Rightarrow> string option \<times> world" where
  "BaiduTranscriber_getAccessToken en w =
     (let w1 = emit HttpPostForm w in
      if fails_now en w then (Some ''failed to request access token'', w1) else (None, w1))"

definition BaiduTranscriber_CreateStream ::
  "env \<Rightarrow> BaiduTranscriber \<Rightarrow> world \<Rightarrow> (string + BaiduStream) \<times> world" where
  "BaiduTranscriber_CreateStream en b w =
     (case BaiduTranscriber_getAccessToken en w of
        (Some e, w0) \<Rightarrow> (Inl (''failed to get access token: '' @ e), w0)
      | (None, w0) \<Rightarrow>
      case ws_Dial en w0 of
        (Inl e, w1) \<Rightarrow> (Inl (''failed to connect to Baidu Speech API: '' @ e), w1)
      | (Inr conn, w1) \<Rightarrow>
          (Inr \<lparr>bs_conn = conn, bs_results = make_chan 10, bs_listening = True\<rparr>, w1))"

definition BaiduStream_Results :: "BaiduStream \<Rightarrow> chan" where
  "BaiduStream_Results st = bs_results st"

definition BaiduStream_Close ::
  "env \<Rightarrow> BaiduStream \<Rightarrow> world \<Rightarrow> string option outcome \<times> BaiduStream \<times> world" where
  "BaiduStream_Close en st0 w0 =
     (case BaiduStream_listenForResults (baidu_inbox en (length (trace w0))) st0 w0 of (st, w) \<Rightarrow>
      case ws_WriteMessage en (bs_conn st) AudioEnd w of (we, c1, w1) \<Rightarrow>
      case ws_Close en c1 w1 of (ce, c2, w2) \<Rightarrow>
      case and_then (chan_close (bs_results st) w2) (\<lambda>c3 w3. (Return None, c3, w3))
      of (out, c, w4) \<Rightarrow> (out, st\<lparr>bs_conn := c2, bs_results := c\<rparr>, w4))"

text \<open>The frame carries a digest of the buffer; the message stands for that frame.\<close>

definition BaiduStream_Write ::
  "env \<Rightarrow> BaiduStream \<Rightarrow> byte list \<Rightarrow> world
     \<Rightarrow> (nat \<times> string option) \<times> BaiduStream \<times> world" where
  "BaiduStream_Write en st0 buffer w0 =
     (case BaiduStream_listenForResults (baidu_inbox en (length (trace w0))) st0 w0 of (st, w) \<Rightarrow>
      case ws_WriteMessage en (bs_conn st) (BaiduAudio buffer) w of
        (Some e, c1, w1) \<Rightarrow>
          ((0, Some (''failed to send audio data: '' @ e)), st\<lparr>bs_conn := c1\<rparr>, w1)
      | (None, c1, w1) \<Rightarrow> ((length buffer, None), st\<lparr>bs_conn := c1\<rparr>, w1))"

section \<open>The interfaces \<^verbatim>\<open>Stream\<close> and \<^verbatim>\<open>Service\<close> (service.go)\<close>

text \<open>
  An interface value is one of the concrete types behind it; a method call goes to that
  type's method. The Google backend is not among the sources.
\<close>

datatype Stream =
    Recorder RecorderStream
  | Whisper WhisperStream
  | IflyTek IflyTekStream
  | Azure AzureStream
  | Baidu BaiduStream

datatype Service =
    RecorderService RecorderTranscriber
  | WhisperService WhisperTranscriber
  | IflyTekService IflyTekTranscriber
  | AzureService AzureTranscriber
  | BaiduService BaiduTranscriber

fun Stream_Write ::
  "env \<Rightarrow> Stream \<Rightarrow> byte list \<Rightarrow> world \<Rightarrow> (nat \<times> string option) \<times> Stream \<times> world" where
  "Stream_Write en (Recorder s) b w =
     (case RecorderStream_Write en s b w of (r, s1, w1) \<Rightarrow> (r, Recorder s1, w1))"
| "Stream_Write en (Whisper s) b w =
     (case WhisperStream_Write en s b w of (r, s1, w1) \<Rightarrow> (r, Whisper s1, w1))"
| "Stream_Write en (IflyTek s) b w =
     (case IflyTekStream_Write en s b w of (r, s1, w1) \<Rightarrow> (r, IflyTek s1, w1))"
| "Stream_Write en (Azure s) b w =
     (case AzureStream_Write en s b w of (r, s1, w1) \<Rightarrow> (r, Azure s1, w1))"
| "Stream_Write en (Baidu s) b w =
     (case BaiduStream_Write en s b w of (r, s1, w1) \<Rightarrow> (r, Baidu s1, w1))"

fun Stream_Close ::
  "env \<Rightarrow> Stream \<Rightarrow> world \<Rightarrow> string option outcome \<times> Stream \<times> world" where
  "Stream_Close en (Recorder s) w =
     (case RecorderStream_Close en s w of (r, s1, w1) \<Rightarrow> (r, Recorder s1, w1))"
| "Stream_Close en (Whisper s) w =
     (case WhisperStream_Close en s w of (r, s1, w1) \<Rightarrow> (r, Whisper s1, w1))"
| "Stream_Close en (IflyTek s) w =
     (case IflyTekStream_Close en s w of (r, s1, w1) \<Rightarrow> (r, IflyTek s1, w1))"
| "Stream_Close en (Azure s) w =
     (case AzureStream_Close en s w of (r, s1, w1) \<Rightarrow> (r, Azure s1, w1))"
| "Stream_Close en (Baidu s) w =
     (case BaiduStream_Close en s w of (r, s1, w1) \<Rightarrow> (r, Baidu s1, w1))"

fun Stream_Results :: "Stream \<Rightarrow> chan" where
  "Stream_Results (Recorder s) = RecorderStream_Results s"
| "Stream_Results (Whisper s) = WhisperStream_Results s"
| "Stream_Results (IflyTek s) = IflyTekStream_Results s"
| "Stream_Results (Azure s) = AzureStream_Results s"
| "Stream_Results (Baidu s) = BaiduStream_Results s"

fun Service_CreateStream ::
  "env \<Rightarrow> Service \<Rightarrow> world \<Rightarrow> (string + Stream) \<times> Service \<times> world" where
  "Service_CreateStream en (RecorderService r) w =
     (case RecorderTranscriber_CreateStream en r w of
        (x, r1, w1) \<Rightarrow> (map_sum id Recorder x, RecorderService r1, w1))"
| "Service_CreateStream en (WhisperService t) w =
     (case WhisperTranscriber_CreateStream en t w of
        (x, t1, w1) \<Rightarrow> (map_sum id Whisper x, WhisperService t1, w1))"
| "Service_CreateStream en (IflyTekService t) w =
     (case IflyTekTranscriber_CreateStream en t w of
        (x, w1) \<Rightarrow> (map_sum id IflyTek x, IflyTekService t, w1))"
| "Service_CreateStream en (AzureService t) w =
     (case AzureTranscriber_CreateStream en t w of
        (x, w1) \<Rightarrow> (map_sum id Azure x, AzureService t, w1))"
| "Service_CreateStream en (BaiduService t) w =
     (case BaiduTranscriber_CreateStream en t w of
        (x, w1) \<Rightarrow> (map_sum id Baidu x, BaiduService t, w1))"

section \<open>The audio pump (pion.go, \<^verbatim>\<open>handleAudioTrack\<close>)\<close>

text \<open>
  What \<^verbatim>\<open>track.ReadRTP()\<close> yields, call after call: a packet with its payload, an
  error, or nothing for longer than the five seconds of the idle timer. After the last
  element of the list the track has ended and the read returns \<^verbatim>\<open>io.EOF\<close>.
\<close>

datatype rtp_read = Packet "byte list" | ReadError string | Stall

text \<open>
  The pump is two goroutines. The reader reads one packet, resets the timer, sends the
  payload on \<^verbatim>\<open>audioStream\<close> and then waits for one token on \<^verbatim>\<open>response\<close> (or for the
  context to end) before it reads again. The main loop takes the payload, decodes it,
  puts one token on \<^verbatim>\<open>response\<close> and writes the PCM to the stream. So at most one
  payload is in flight, the two goroutines take strict turns, and the run is the
  sequence below, one step for each read:

  \<^item> end of track: the reader returns and its deferred call closes \<^verbatim>\<open>audioStream\<close>;
    the main loop receives \<^verbatim>\<open>!ok\<close> and returns nil;
  \<^item> read error: the reader puts the error on \<^verbatim>\<open>errs\<close>, returns and closes
    \<^verbatim>\<open>audioStream\<close>; of the two ready cases the \<^verbatim>\<open>select\<close> takes one, and the main
    loop returns the error or nil;
  \<^item> no packet within five seconds: the timer fires, the main loop cancels the context
    and returns nil;
  \<^item> a packet whose payload does not decode: the main loop logs and takes
    \<^verbatim>\<open>continue\<close>, before the statement that puts the token on \<^verbatim>\<open>response\<close>. The reader
    is still waiting for that token and reads no further packet; \<^verbatim>\<open>audioStream\<close> and
    \<^verbatim>\<open>errs\<close> stay empty, so the next case of the \<^verbatim>\<open>select\<close> to become ready is the
    timer, five seconds after the packet was read: the main loop cancels the context
    and returns nil;
  \<^item> a packet whose payload decodes: the token is put on \<^verbatim>\<open>response\<close>, the PCM is
    written; a failing write returns its error, otherwise the reader, unblocked by the
    token, reads on.
\<close>

fun pump_loop ::
  "env \<Rightarrow> rtp_read list \<Rightarrow> Stream \<Rightarrow> world \<Rightarrow> string option \<times> Stream \<times> world" where
  "pump_loop en [] trStream w = (None, trStream, w)"
| "pump_loop en (ReadError e # rest) trStream w =
     ((if select_errs_first en then Some e else None), trStream, w)"
| "pump_loop en (Stall # rest) trStream w = (None, trStream, w)"
| "pump_loop en (Packet audioChunk # rest) trStream w =
     (case opus_decode en audioChunk of
        Inl e \<Rightarrow> (None, trStream, w)
      | Inr payload \<Rightarrow>
         (case Stream_Write en trStream payload w of
            ((n, Some e), s1, w1) \<Rightarrow> (Some e, s1, w1)
          | ((n, None), s1, w1) \<Rightarrow> pump_loop en rest s1 w1))"

text \<open>
  The deferred call. It closes the stream; when that fails it logs and returns. Otherwise
  it ranges over the result channel: each result is marshalled (a result that does not
  marshal is skipped) and sent on the data channel (a failing send is only printed);
  the range ends when the channel is closed and empty, and blocks on a channel that is
  empty and still open. Then the data channel is closed.
\<close>

fun relay :: "env \<Rightarrow> Result list \<Rightarrow> world \<Rightarrow> world" where
  "relay en [] w = w"
| "relay en (result # rest) w =
     (case json_Marshal en result of
        None \<Rightarrow> relay en rest w
      | Some msg \<Rightarrow> relay en rest (emit (DcSend msg) w))"

definition close_and_drain :: "env \<Rightarrow> Stream \<Rightarrow> world \<Rightarrow> unit outcome \<times> Stream \<times> world" where
  "close_and_drain en trStream w =
     (case Stream_Close en trStream w of
        (Panic p, s1, w1) \<Rightarrow> (Panic p, s1, w1)
      | (Blocked, s1, w1) \<Rightarrow> (Blocked, s1, w1)
      | (Return (Some err), s1, w1) \<Rightarrow> (Return (), s1, w1)
      | (Return None, s1, w1) \<Rightarrow>
         (let w2 = relay en (chan_buf (Stream_Results s1)) w1 in
          if chan_closed (Stream_Results s1) then (Return (), s1, emit DcClose w2)
          else (Blocked, s1, w2)))"

record PionRtcService =
  pi_stunServer :: string
  pi_transcriber :: "Service option"

text \<open>
  \<^verbatim>\<open>handleAudioTrack\<close>. A nil track, data channel or transcriber is \<open>None\<close>. The
  stream the session ended with is returned next to the world, for inspection.
\<close>

definition handleAudioTrack ::
  "env \<Rightarrow> PionRtcService \<Rightarrow> rtp_read list option \<Rightarrow> unit option \<Rightarrow> world
     \<Rightarrow> string option outcome \<times> Stream option \<times> world" where
  "handleAudioTrack en rtc track dc w =
     (case track of None \<Rightarrow> (Return (Some ''track is nil''), None, w) | Some reads \<Rightarrow>
      case dc of None \<Rightarrow> (Return (Some ''dataChannel is nil''), None, w) | Some d \<Rightarrow>
      case pi_transcriber rtc of
        None \<Rightarrow> (Return (Some ''transcriber service is nil''), None, w)
      | Some svc \<Rightarrow>
      case new_decoder en of Some e \<Rightarrow> (Return (Some e), None, w) | None \<Rightarrow>
      case Service_CreateStream en svc w of
        (Inl e, svc1, w1) \<Rightarrow> (Return (Some e), None, w1)
      | (Inr trStream, svc1, w1) \<Rightarrow>
      case pump_loop en reads trStream w1 of (ret, s2, w2) \<Rightarrow>
      case close_and_drain en s2 w2 of
        (Return u, s3, w3) \<Rightarrow> (Return ret, Some s3, w3)
      | (Panic p, s3, w3) \<Rightarrow> (Panic p, Some s3, w3)
      | (Blocked, s3, w3) \<Rightarrow> (Blocked, Some s3, w3))"

section \<open>Observing a run\<close>

text \<open>Writing a sequence of chunks, one \<^verbatim>\<open>Write\<close> after the other, whatever each returns.\<close>

fun Stream_WriteAll ::
  "env \<Rightarrow> Stream \<Rightarrow> byte list list \<Rightarrow> world
     \<Rightarrow> (nat \<times> string option) list \<times> Stream \<times> world" where
  "Stream_WriteAll en s [] w = ([], s, w)"
| "Stream_WriteAll en s (b # bs) w =
     (case Stream_Write en s b w of (r, s1, w1) \<Rightarrow>
      case Stream_WriteAll en s1 bs w1 of (rs, s2, w2) \<Rightarrow> (r # rs, s2, w2))"


text \<open>The results pushed on the result channel, the calls on the result channel, the
  runs of the recognizer and the calls on the data channel, read off a trace.\<close>

fun pushed :: "event list \<Rightarrow> Result list" where
  "pushed [] = []"
| "pushed (ChanSend r # es) = r # pushed es"
| "pushed (e # es) = pushed es"

fun is_chan_event :: "event \<Rightarrow> bool" where
  "is_chan_event (ChanSend r) = True"
| "is_chan_event ChanClose = True"
| "is_chan_event e = False"

fun is_exec :: "event \<Rightarrow> bool" where
  "is_exec (Exec prog args err) = True"
| "is_exec e = False"

fun is_dc_event :: "event \<Rightarrow> bool" where
  "is_dc_event (DcSend m) = True"
| "is_dc_event DcClose = True"
| "is_dc_event e = False"

text \<open>The events of a run: what the trace gained between two worlds.\<close>

definition since :: "world \<Rightarrow> world \<Rightarrow> event list" where
  "since w w' = drop (length (trace w)) (trace w')"

text \<open>Calls on files and on the file system.\<close>

fun is_file_event :: "event \<Rightarrow> bool" where
  "is_file_event (FileWrite p off bs) = True"
| "is_file_event (FileSync p) = True"
| "is_file_event (FileStat p) = True"
| "is_file_event (FileSeek p off) = True"
| "is_file_event (FileClose p) = True"
| "is_file_event (OsMkdirAll p) = True"
| "is_file_event (OsCreate p) = True"
| "is_file_event (OsRemove p) = True"
| "is_file_event (OsReadFile p) = True"
| "is_file_event e = False"

text \<open>\<open>grows w evs w'\<close>: from \<open>w\<close> to \<open>w'\<close> the trace gained exactly \<open>evs\<close>.\<close>

definition grows :: "world \<Rightarrow> event list \<Rightarrow> world \<Rightarrow> bool" where
  "grows w evs w' \<longleftrightarrow> trace w' = trace w @ evs"

definition file_step :: "world \<Rightarrow> world \<Rightarrow> bool" where
  "file_step w w' \<longleftrightarrow> (\<exists>evs. grows w evs w' \<and> list_all is_file_event evs)"

text \<open>
  The state of a batch stream between its creation and its \<^verbatim>\<open>Close\<close>: the handle is
  open on the stream's path and stands at the end of the file, the file holds the 44
  header bytes and \<open>n\<close> bytes of audio.
\<close>

definition file_len :: "world \<Rightarrow> path \<Rightarrow> nat" where
  "file_len w p = (case fs w p of None \<Rightarrow> 0 | Some c \<Rightarrow> length c)"

definition at_end :: "os_File \<Rightarrow> path \<Rightarrow> world \<Rightarrow> bool" where
  "at_end f p w \<longleftrightarrow> \<not> f_closed f \<and> f_path f = p \<and> fs w p \<noteq> None \<and> f_pos f = file_len w p"

definition wav_open :: "os_File \<Rightarrow> path \<Rightarrow> world \<Rightarrow> nat \<Rightarrow> bool" where
  "wav_open f p w n \<longleftrightarrow> at_end f p w \<and> file_len w p = 44 + n"

fun batch_ready :: "Stream \<Rightarrow> world \<Rightarrow> nat \<Rightarrow> bool" where
  "batch_ready (Recorder s) w n \<longleftrightarrow>
     \<not> rs_isClosed s \<and> rs_results s = make_chan 1 \<and> wav_open (rs_file s) (rs_filePath s) w n"
| "batch_ready (Whisper s) w n \<longleftrightarrow>
     \<not> ws_isClosed s \<and> ws_results s = make_chan 10 \<and> wav_open (ws_file s) (ws_filePath s) w n"
| "batch_ready s w n \<longleftrightarrow> False"


text \<open>What the two rewrites of the size fields make of a file, given the \<^verbatim>\<open>uint32\<close>
  file size.\<close>

definition patched :: "32 word \<Rightarrow> byte list \<Rightarrow> byte list" where
  "patched fileSize c = write_at 40 (le32 (fileSize - 44)) (write_at 4 (le32 (fileSize - 8)) c)"

text \<open>What a \<^verbatim>\<open>Write\<close> leaves as it is: everything of a stream but its open handle and
  its connection.\<close>

fun forget_sink :: "Stream \<Rightarrow> Stream" where
  "forget_sink (Recorder s) = Recorder (s\<lparr>rs_file := \<lparr>f_path = [], f_pos = 0, f_closed = False\<rparr>\<rparr>)"
| "forget_sink (Whisper s) = Whisper (s\<lparr>ws_file := \<lparr>f_path = [], f_pos = 0, f_closed = False\<rparr>\<rparr>)"
| "forget_sink (IflyTek s) = IflyTek (s\<lparr>st_conn := \<lparr>conn_sent = [], conn_closed = False\<rparr>\<rparr>)"
| "forget_sink (Azure s) = Azure (s\<lparr>as_conn := \<lparr>conn_sent = [], conn_closed = False\<rparr>\<rparr>)"
| "forget_sink (Baidu s) = Baidu (s\<lparr>bs_conn := \<lparr>conn_sent = [], conn_closed = False\<rparr>\<rparr>)"

subsection \<open>Sample surroundings\<close>

text \<open>
  An outside where nothing fails: every call succeeds, the recognizer exits cleanly
  and leaves the files alone, the decoder hands the payload on as PCM except for the
  payload \<open>[0xFF]\<close>, which it rejects, and no message arrives on a socket.
\<close>

definition quiet_env :: env where
  "quiet_env =
     \<lparr>io_fails = (\<lambda>n. False),
      short_count = (\<lambda>n. 0),
      clock = (\<lambda>n. \<lparr>year = 2025, month = 1, day = 2, hour = 3, minute = 4, second = 5\<rparr>),
      run_exec = (\<lambda>prog args files. (None, [], files)),
      new_decoder = None,
      opus_decode = (\<lambda>p. if p = [0xFF] then Inl ''corrupted stream'' else Inr p),
      json_Marshal = (\<lambda>r. Some (Text r)),
      select_errs_first = True,
      azure_inbox = (\<lambda>n. []),
      baidu_inbox = (\<lambda>n. [])\<rparr>"

definition world0 :: world where
  "world0 = \<lparr>fs = Map.empty, trace = []\<rparr>"

definition recorder0 :: RecorderTranscriber where
  "recorder0 = \<lparr>rt_outputDir = ''rec'', rt_counter = 0\<rparr>"

definition whisper0 :: WhisperTranscriber where
  "whisper0 =
     \<lparr>wt_modelPath = ''small'', wt_whisperPath = ''/usr/bin/whisper'', wt_tempDir = ''out'',
      wt_language = ''auto'', wt_counter = 0, wt_keepWav = True, wt_keepTxt = True\<rparr>"

definition iflytek0 :: IflyTekTranscriber where
  "iflytek0 = \<lparr>it_appID = ''app'', it_apiKey = ''key'', it_apiSecret = ''secret'', it_appUrl = []\<rparr>"

text \<open>A recorder stream created, written twice and closed, where nothing fails.\<close>

definition sample_created ::
  "(string + RecorderStream) \<times> RecorderTranscriber \<times> world" where
  "sample_created = RecorderTranscriber_CreateStream quiet_env recorder0 world0"

definition sample_written :: "(nat \<times> string option) list \<times> Stream \<times> world" where
  "sample_written =
     Stream_WriteAll quiet_env (Recorder (projr (fst sample_created))) [[1, 2], [3, 4]]
       (snd (snd sample_created))"

definition sample_closed :: "string option outcome \<times> Stream \<times> world" where
  "sample_closed = Stream_Close quiet_env (fst (snd sample_written)) (snd (snd sample_written))"

text \<open>A Xunfei stream created and closed, then closed again.\<close>

definition iflytek_created :: "(string + IflyTekStream) \<times> world" where
  "iflytek_created = IflyTekTranscriber_CreateStream quiet_env iflytek0 world0"

definition iflytek_closed :: "string option outcome \<times> IflyTekStream \<times> world" where
  "iflytek_closed =
     IflyTekStream_Close quiet_env (projr (fst iflytek_created)) (snd iflytek_created)"

definition iflytek_closed_again :: "string option outcome \<times> IflyTekStream \<times> world" where
  "iflytek_closed_again =
     IflyTekStream_Close quiet_env (fst (snd iflytek_closed)) (snd (snd iflytek_closed))"


text \<open>
  Sessions of the pump on the recorder backend: three packets of which the second does
  not decode; the same with a second packet that decodes; and a track that ends at once
  while the \<^verbatim>\<open>Stat\<close> of the stream's \<^verbatim>\<open>Close\<close> (the call made when the trace has
  length 16) fails.
\<close>

definition recorder_rtc :: PionRtcService where
  "recorder_rtc = \<lparr>pi_stunServer = [], pi_transcriber = Some (RecorderService recorder0)\<rparr>"

definition session_with_bad_packet :: "string option outcome \<times> Stream option \<times> world" where
  "session_with_bad_packet =
     handleAudioTrack quiet_env recorder_rtc
       (Some [Packet [1, 2], Packet [0xFF], Packet [3, 4]]) (Some ()) world0"

definition session_all_good :: "string option outcome \<times> Stream option \<times> world" where
  "session_all_good =
     handleAudioTrack quiet_env recorder_rtc
       (Some [Packet [1, 2], Packet [5, 6], Packet [3, 4]]) (Some ()) world0"

definition session_close_fails :: "string option outcome \<times> Stream option \<times> world" where
  "session_close_fails =
     handleAudioTrack (quiet_env\<lparr>io_fails := (\<lambda>n. n = 16)\<rparr>) recorder_rtc
       (Some []) (Some ()) world0"

text \<open>The audio a WAV file holds after its header.\<close>

definition audio_of :: "world \<Rightarrow> path \<Rightarrow> byte list option" where
  "audio_of w p = map_option (drop 44) (fs w p)"

text \<open>What a parser of the WAV file reads: the size of the file, the data-subchunk size
  at offset 40, the RIFF chunk size at offset 4.\<close>

definition file_size :: "world \<Rightarrow> path \<Rightarrow> nat option" where
  "file_size w p = map_option length (fs w p)"



text \<open>The recorder stream of the sample closed without a write.\<close>

definition sample_closed_empty :: "string option outcome \<times> RecorderStream \<times> world" where
  "sample_closed_empty =
     RecorderStream_Close quiet_env (projr (fst sample_created)) (snd (snd sample_created))"

text \<open>One chunk of \<open>2^32\<close> bytes, written to a recorder stream and to a Whisper stream
  in record-only mode, where nothing fails.\<close>

definition big_chunk :: "byte list" where
  "big_chunk = replicate 4294967296 0"



definition record_only :: StreamOptions where
  "record_only = \<lparr>Language = [], Transcribe = False\<rparr>"

definition whisper_created :: "(string + WhisperStream) \<times> WhisperTranscriber \<times> world" where
  "whisper_created = WhisperTranscriber_CreateStreamWithOptions quiet_env whisper0 record_only world0"

definition whisper_written :: "(nat \<times> string option) list \<times> Stream \<times> world" where
  "whisper_written =
     Stream_WriteAll quiet_env (Whisper (projr (fst whisper_created))) [[1, 2], [3, 4]]
       (snd (snd whisper_created))"

definition whisper_closed :: "string option outcome \<times> Stream \<times> world" where
  "whisper_closed = Stream_Close quiet_env (fst (snd whisper_written)) (snd (snd whisper_written))"

definition whisper_big_written :: "(nat \<times> string option) list \<times> Stream \<times> world" where
  "whisper_big_written =
     Stream_WriteAll quiet_env (Whisper (projr (fst whisper_created))) [big_chunk]
       (snd (snd whisper_created))"

definition whisper_big_closed :: "string option outcome \<times> Stream \<times> world" where
  "whisper_big_closed =
     Stream_Close quiet_env (fst (snd whisper_big_written)) (snd (snd whisper_big_written))"

text \<open>A Whisper stream closed without a write.\<close>

definition whisper_empty_written :: "(nat \<times> string option) list \<times> Stream \<times> world" where
  "whisper_empty_written =
     Stream_WriteAll quiet_env (Whisper (projr (fst whisper_created))) []
       (snd (snd whisper_created))"

definition whisper_empty_closed :: "string option outcome \<times> Stream \<times> world" where
  "whisper_empty_closed =
     Stream_Close quiet_env (fst (snd whisper_empty_written)) (snd (snd whisper_empty_written))"

text \<open>An outside whose recognizer exits with an error, and a transcribing Whisper stream
  written to and closed there.\<close>

definition failing_env :: env where
  "failing_env = quiet_env\<lparr>run_exec := (\<lambda>prog args files. (Some ''exit status 1'', ''boom'', files))\<rparr>"

definition transcribing :: StreamOptions where
  "transcribing = \<lparr>Language = ''en'', Transcribe = True\<rparr>"

definition failing_created :: "(string + WhisperStream) \<times> WhisperTranscriber \<times> world" where
  "failing_created =
     WhisperTranscriber_CreateStreamWithOptions failing_env whisper0 transcribing world0"

definition failing_written :: "(nat \<times> string option) list \<times> Stream \<times> world" where
  "failing_written =
     Stream_WriteAll failing_env (Whisper (projr (fst failing_created))) [[1, 2, 3, 4]]
       (snd (snd failing_created))"

definition failing_closed :: "string option outcome \<times> Stream \<times> world" where
  "failing_closed =
     Stream_Close failing_env (fst (snd failing_written)) (snd (snd failing_written))"

text \<open>The closed flag of a stream; the WebSocket streams have none.\<close>

fun closed_flag :: "Stream \<Rightarrow> bool" where
  "closed_flag (Recorder s) = rs_isClosed s"
| "closed_flag (Whisper s) = ws_isClosed s"
| "closed_flag s = False"

text \<open>The messages a stream has sent on its socket; a batch stream has no socket.\<close>

fun socket_sent :: "Stream \<Rightarrow> ws_message list" where
  "socket_sent (IflyTek s) = conn_sent (st_conn s)"
| "socket_sent (Azure s) = conn_sent (as_conn s)"
| "socket_sent (Baidu s) = conn_sent (bs_conn s)"
| "socket_sent s = []"

text \<open>
  A session on the Azure backend, step by step. Two packets are written. Before the
  first write the service has sent two recognitions with a message between them that
  does not unmarshal, before the second write a recognition without text and one with
  a text. Then the track ends and the stream is closed. After that, a write on the
  closed stream.
\<close>

definition azure_heard :: "string \<Rightarrow> azureSpeechResponse ws_read" where
  "azure_heard t =
     Received \<lparr>ar_Type = ''recognition'', ar_DisplayText = t, ar_Confidence = 9 / 10,
               ar_Status = ''success''\<rparr>"

definition azure_env :: env where
  "azure_env =
     quiet_env\<lparr>azure_inbox :=
       (\<lambda>n. if n = 2 then [azure_heard ''hello'', Garbled, azure_heard ''world'']
            else if n = 5 then [azure_heard [], azure_heard ''again'']
            else [])\<rparr>"

definition azure0 :: AzureTranscriber where
  "azure0 = \<lparr>az_subscriptionKey = ''key'', az_region = ''westus''\<rparr>"

definition azure_rtc :: PionRtcService where
  "azure_rtc = \<lparr>pi_stunServer = [], pi_transcriber = Some (AzureService azure0)\<rparr>"

definition azure_reads :: "rtp_read list" where
  "azure_reads = [Packet [1, 2], Packet [3, 4]]"

definition azure_created :: "(string + Stream) \<times> Service \<times> world" where
  "azure_created = Service_CreateStream azure_env (AzureService azure0) world0"

definition azure_looped :: "string option \<times> Stream \<times> world" where
  "azure_looped =
     pump_loop azure_env azure_reads (projr (fst azure_created)) (snd (snd azure_created))"

definition azure_closed :: "string option outcome \<times> Stream \<times> world" where
  "azure_closed = Stream_Close azure_env (fst (snd azure_looped)) (snd (snd azure_looped))"

definition session_azure :: "string option outcome \<times> Stream option \<times> world" where
  "session_azure = handleAudioTrack azure_env azure_rtc (Some azure_reads) (Some ()) world0"

definition azure_written_after :: "(nat \<times> string option) \<times> Stream \<times> world" where
  "azure_written_after =
     Stream_Write azure_env (fst (snd azure_closed)) [9] (snd (snd azure_closed))"

text \<open>
  A recorder stream that received \<open>2^32 - 44\<close> bytes of audio in one chunk, closed, and
  closed again, where nothing fails.
\<close>

definition short_chunk :: "byte list" where
  "short_chunk = replicate 4294967252 0"

definition wrapped_written :: "(nat \<times> string option) list \<times> Stream \<times> world" where
  "wrapped_written =
     Stream_WriteAll quiet_env (Recorder (projr (fst sample_created))) [short_chunk]
       (snd (snd sample_created))"

definition wrapped_closed :: "string option outcome \<times> Stream \<times> world" where
  "wrapped_closed = Stream_Close quiet_env (fst (snd wrapped_written)) (snd (snd wrapped_written))"

definition wrapped_closed_again :: "string option outcome \<times> Stream \<times> world" where
  "wrapped_closed_again =
     Stream_Close quiet_env (fst (snd wrapped_closed)) (snd (snd wrapped_closed))"

section \<open>Bytes and fields\<close>

lemma length_le32 [simp]: "length (le32 v) = 4"
  by (simp add: le32_def)

lemma length_le16 [simp]: "length (le16 v) = 2"
  by (simp add: le16_def)

lemma u32_of_le32 [simp]: "u32_of (le32 v) = v"
  unfolding u32_of_def le32_def
  apply simp
  apply (rule bit_word_eqI)
  subgoal for n
    apply (cases "n < 8"; cases "n < 16"; cases "n < 24")
    apply (auto simp add: bit_simps)
    done
  done

lemma length_write_at [simp]: "length (write_at off bs c) = max (length c) (off + length bs)"
  by (auto simp add: write_at_def)

lemma write_at_end [simp]: "write_at (length c) bs c = c @ bs"
  by (simp add: write_at_def)

lemma u32_at_write_same: "off + 4 \<le> length c \<Longrightarrow> u32_at off (write_at off (le32 v) c) = v"
  by (simp add: u32_at_def write_at_def)

lemma u32_at_write_before:
  "off + 4 \<le> off' \<Longrightarrow> off' + length bs \<le> length c \<Longrightarrow>
     u32_at off (write_at off' bs c) = u32_at off c"
  by (simp add: u32_at_def write_at_def drop_take)

lemma header_length: "length (concat (map snd (header_fields initial_header))) = 44"
  by (simp add: header_fields_def initial_header_def Let_def)

lemma unat_of_nat32: "unat (of_nat n :: 32 word) = n mod 4294967296"
  by (simp add: unat_of_nat)

lemma of_nat_ge_44: "\<not> (of_nat n :: 32 word) < 44 \<Longrightarrow> 44 \<le> n"
proof -
  assume "\<not> (of_nat n :: 32 word) < 44"
  then have "44 \<le> n mod 4294967296"
    by (simp add: word_less_nat_alt unat_of_nat32)
  moreover have "n mod 4294967296 \<le> n"
    by (rule mod_less_eq_dividend)
  ultimately show ?thesis by linarith
qed

lemma small_file_sizes:
  assumes "44 + n < 4294967296"
  shows "unat ((of_nat (44 + n) :: 32 word) - 44) = n"
    and "unat ((of_nat (44 + n) :: 32 word) - 8) = 36 + n"
    and "\<not> (of_nat (44 + n) :: 32 word) < 44"
    and "((of_nat (44 + n) :: 32 word) = 44) = (n = 0)"
proof -
  have a: "(of_nat (44 + n) :: 32 word) - 44 = of_nat n" by simp
  have b: "(of_nat (44 + n) :: 32 word) - 8 = of_nat (36 + n)" by simp
  show "unat ((of_nat (44 + n) :: 32 word) - 44) = n"
    using assms by (simp only: a unat_of_nat32) simp
  show "unat ((of_nat (44 + n) :: 32 word) - 8) = 36 + n"
    using assms by (simp only: b unat_of_nat32) simp
  have c: "unat (of_nat (44 + n) :: 32 word) = 44 + n"
    using assms by (simp only: unat_of_nat32) simp
  show "\<not> (of_nat (44 + n) :: 32 word) < 44"
    using c by (simp add: word_less_nat_alt)
  show "((of_nat (44 + n) :: 32 word) = 44) = (n = 0)"
  proof
    assume "(of_nat (44 + n) :: 32 word) = 44"
    then have "unat (of_nat (44 + n) :: 32 word) = unat (44 :: 32 word)" by simp
    with c show "n = 0" by simp
  next
    assume "n = 0" then show "(of_nat (44 + n) :: 32 word) = 44" by simp
  qed
qed

section \<open>Traces\<close>

lemma grows_refl [simp]: "grows w [] w"
  by (simp add: grows_def)

lemma grows_trans: "grows w a w' \<Longrightarrow> grows w' b w'' \<Longrightarrow> grows w (a @ b) w''"
  by (simp add: grows_def)

lemma grows_since: "grows w evs w' \<Longrightarrow> since w w' = evs"
  by (simp add: grows_def since_def)

lemma grows_emit [simp]: "grows w [e] (emit e w)"
  by (simp add: grows_def emit_def)

lemma fs_emit [simp]: "fs (emit e w) = fs w"
  by (simp add: emit_def)

lemma trace_emit [simp]: "trace (emit e w) = trace w @ [e]"
  by (simp add: emit_def)

lemma file_step_refl [simp]: "file_step w w"
  unfolding file_step_def by (rule exI [of _ "[]"]) simp

lemma file_step_trans: "file_step w w' \<Longrightarrow> file_step w' w'' \<Longrightarrow> file_step w w''"
  unfolding file_step_def
  by (metis grows_trans list_all_append)

lemma file_step_emit: "is_file_event e \<Longrightarrow> grows w [e] w' \<Longrightarrow> file_step w w'"
  unfolding file_step_def by (rule exI [of _ "[e]"]) simp

lemma pushed_append [simp]: "pushed (a @ b) = pushed a @ pushed b"
  by (induction a rule: pushed.induct) auto

lemma pushed_file_events: "list_all is_file_event evs \<Longrightarrow> pushed evs = []"
  by (induction evs rule: pushed.induct) auto

lemma filter_file_events:
  "list_all is_file_event evs \<Longrightarrow>
     filter is_chan_event evs = [] \<and> filter is_exec evs = [] \<and> filter is_dc_event evs = []"
proof (induction evs)
  case Nil then show ?case by simp
next
  case (Cons e evs) then show ?case by (cases e) auto
qed

section \<open>Calls on an open file\<close>

lemma File_Sync_step: "File_Sync en f w = (se, w') \<Longrightarrow>
   grows w [FileSync (f_path f)] w' \<and> fs w' = fs w"
  by (auto simp: File_Sync_def Let_def split: if_splits)

lemma File_Stat_Inr: "File_Stat en f w = (Inr n, w') \<Longrightarrow>
   \<not> f_closed f \<and> fs w (f_path f) \<noteq> None \<and> n = file_len w (f_path f)
   \<and> w' = emit (FileStat (f_path f)) w"
  by (auto simp: File_Stat_def file_len_def Let_def split: if_splits option.splits)

lemma File_Stat_step: "File_Stat en f w = (r, w') \<Longrightarrow>
   grows w [FileStat (f_path f)] w' \<and> fs w' = fs w"
  by (auto simp: File_Stat_def Let_def split: if_splits option.splits)

lemma File_Seek_None: "File_Seek en f off w = (None, f', w') \<Longrightarrow>
   \<not> f_closed f \<and> f' = f\<lparr>f_pos := off\<rparr> \<and> w' = emit (FileSeek (f_path f) off) w"
  by (auto simp: File_Seek_def Let_def split: if_splits)

lemma File_Seek_step: "File_Seek en f off w = (r, f', w') \<Longrightarrow>
   grows w [FileSeek (f_path f) off] w' \<and> fs w' = fs w \<and> f_path f' = f_path f
   \<and> f_closed f' = f_closed f"
  by (auto simp: File_Seek_def Let_def split: if_splits)

lemma File_Write_None: "File_Write en f bs w = ((n, None), f', w') \<Longrightarrow>
   \<not> f_closed f \<and> fs w (f_path f) \<noteq> None \<and> n = length bs
   \<and> f' = f\<lparr>f_pos := f_pos f + length bs\<rparr>
   \<and> w' = (emit (FileWrite (f_path f) (f_pos f) bs) w)
            \<lparr>fs := (fs w)(f_path f \<mapsto> write_at (f_pos f) bs (the (fs w (f_path f))))\<rparr>"
  by (auto simp: File_Write_def Let_def split: if_splits option.splits)

lemma File_Write_step: "File_Write en f bs w = (r, f', w') \<Longrightarrow>
   grows w [FileWrite (f_path f) (f_pos f) bs] w' \<and> f_path f' = f_path f
   \<and> f_closed f' = f_closed f \<and> (\<forall>q. q \<noteq> f_path f \<longrightarrow> fs w' q = fs w q)
   \<and> (fs w' (f_path f) = None) = (fs w (f_path f) = None)"
  by (auto simp: File_Write_def Let_def grows_def emit_def split: if_splits option.splits)

lemma File_Close_None: "File_Close en f w = (None, f', w') \<Longrightarrow>
   \<not> f_closed f \<and> f' = f\<lparr>f_closed := True\<rparr> \<and> w' = emit (FileClose (f_path f)) w"
  by (auto simp: File_Close_def Let_def split: if_splits)

lemma File_Close_step: "File_Close en f w = (r, f', w') \<Longrightarrow>
   grows w [FileClose (f_path f)] w' \<and> fs w' = fs w \<and> f_path f' = f_path f \<and> f_closed f'"
  by (auto simp: File_Close_def Let_def split: if_splits)

lemma os_Remove_step: "os_Remove p w = (r, w') \<Longrightarrow>
   grows w [OsRemove p] w' \<and> fs w' = (fs w)(p := None)"
  by (auto simp: os_Remove_def Let_def grows_def emit_def split: option.splits)

lemma close_and_remove_step: "close_and_remove en f p w = (f', w') \<Longrightarrow>
   grows w [FileClose (f_path f), OsRemove p] w' \<and> fs w' = (fs w)(p := None) \<and> f_closed f'"
  unfolding close_and_remove_def
  by (auto simp: grows_def split: prod.splits dest!: File_Close_step os_Remove_step)

text \<open>A write at the end of the file appends what it wrote.\<close>

lemma File_Write_at_end:
  assumes "at_end f p w" and "File_Write en f bs w = ((k, e), f', w')"
  shows "at_end f' p w' \<and> file_len w' p = file_len w p + k \<and> k \<le> length bs
         \<and> (e = None \<longrightarrow> k = length bs)
         \<and> (\<exists>c. fs w p = Some c \<and> fs w' p = Some (c @ take k bs))"
  using assms
  by (auto simp: at_end_def file_len_def File_Write_def Let_def split: if_splits option.splits)

section \<open>Creating a batch stream\<close>

lemma os_Create_Inr: "os_Create en p w = (Inr f, w') \<Longrightarrow>
   at_end f p w' \<and> file_len w' p = 0 \<and> grows w [OsCreate p] w'"
  by (auto simp: os_Create_def at_end_def file_len_def Let_def grows_def emit_def split: if_splits)

lemma os_MkdirAll_step: "os_MkdirAll en p w = (r, w') \<Longrightarrow>
   grows w [OsMkdirAll p] w' \<and> fs w' = fs w"
  by (auto simp: os_MkdirAll_def Let_def split: if_splits)

lemma write_header_ok:
  "at_end f p w \<Longrightarrow> write_header en f flds w = (None, f', w') \<Longrightarrow>
     at_end f' p w' \<and> file_len w' p = file_len w p + length (concat (map snd flds))
     \<and> file_step w w'"
proof (induction flds arbitrary: f w)
  case Nil
  then show ?case by simp
next
  case (Cons fld flds)
  obtain name bs where fld: "fld = (name, bs)" by (cases fld)
  obtain k e f1 w1 where fw: "File_Write en f bs w = ((k, e), f1, w1)"
    by (metis prod.exhaust)
  from Cons.prems(2) fld fw have e: "e = None" and rest: "write_header en f1 flds w1 = (None, f', w')"
    by (auto split: option.splits)
  from File_Write_at_end [OF Cons.prems(1) fw] e
  have a1: "at_end f1 p w1" and l1: "file_len w1 p = file_len w p + length bs"
    by auto
  from File_Write_step [OF fw] have s1: "file_step w w1"
    by (auto simp: file_step_def grows_def)
  from Cons.IH [OF a1 rest] l1 s1 fld show ?case
    by (auto intro: file_step_trans)
qed

lemma RecorderTranscriber_CreateStream_ready:
  assumes "RecorderTranscriber_CreateStream en r w = (Inr rs, r', w0)"
  shows "batch_ready (Recorder rs) w0 0 \<and> file_step w w0
     \<and> rs_filePath rs = filepath_Join (rt_outputDir r) (rs_fileName rs)
     \<and> rs_fileName rs = ''recording_'' @ format_stamp (clock en (length (trace w))) @ ''_''
          @ zero_pad 3 (itoa (rt_counter r + 1)) @ ''.wav''"
  using assms unfolding RecorderTranscriber_CreateStream_def
  apply (simp add: Let_def split: prod.splits sum.splits option.splits)
  apply (elim conjE)
  apply (drule os_MkdirAll_step)
  apply (drule os_Create_Inr)
  apply (elim conjE)
  apply (drule (1) write_header_ok)
  apply (auto simp: wav_open_def header_length grows_def file_step_def)
  done

lemma WhisperTranscriber_CreateStreamWithOptions_ready:
  assumes "WhisperTranscriber_CreateStreamWithOptions en t opts w = (Inr ws, t', w0)"
  shows "batch_ready (Whisper ws) w0 0 \<and> file_step w w0
     \<and> ws_transcribe ws = Transcribe opts
     \<and> ws_language ws = (if Language opts = [] then wt_language t else Language opts)
     \<and> ws_transcriber ws = t\<lparr>wt_counter := wt_counter t + 1\<rparr>
     \<and> ws_filePath ws = filepath_Join (wt_tempDir t)
          (''whisper_audio_'' @ itoa (wt_counter t + 1) @ ''_''
             @ format_stamp (clock en (length (trace w))) @ ''.wav'')"
  using assms unfolding WhisperTranscriber_CreateStreamWithOptions_def
  apply (simp add: Let_def split: prod.splits sum.splits option.splits)
  apply (elim conjE)
  apply (drule os_MkdirAll_step)
  apply (drule os_Create_Inr)
  apply (elim conjE)
  apply (drule (1) write_header_ok)
  apply (auto simp: wav_open_def header_length grows_def file_step_def)
  done

section \<open>Writing to a batch stream\<close>

lemma at_end_same_fs: "at_end f p w \<Longrightarrow> fs w' = fs w \<Longrightarrow> at_end f p w'"
  by (simp add: at_end_def file_len_def)

lemma file_len_same_fs: "fs w' = fs w \<Longrightarrow> file_len w' p = file_len w p"
  by (simp add: file_len_def)

lemma RecorderStream_Write_ready:
  assumes "batch_ready (Recorder s) w n" and "RecorderStream_Write en s b w = ((k, e), s', w')"
  shows "batch_ready (Recorder s') w' (n + k) \<and> file_step w w' \<and> (e = None \<longrightarrow> k = length b)
         \<and> s' = s\<lparr>rs_file := rs_file s'\<rparr>"
proof -
  obtain k0 e0 f1 w1 where fw: "File_Write en (rs_file s) b w = ((k0, e0), f1, w1)"
    by (metis prod.exhaust)
  from assms(1) have ae: "at_end (rs_file s) (rs_filePath s) w"
    and fl: "file_len w (rs_filePath s) = 44 + n" and nc: "\<not> rs_isClosed s"
    and ch: "rs_results s = make_chan 1"
    by (simp_all add: wav_open_def)
  note A = File_Write_at_end [OF ae fw]
  note B = File_Write_step [OF fw]
  show ?thesis
  proof (cases "e0 = None \<and> 0 < k0")
    case True
    obtain se w2 where sy: "File_Sync en f1 w1 = (se, w2)" by (metis prod.exhaust)
    note C = File_Sync_step [OF sy]
    from True have e0: "e0 = None" and k0: "0 < k0" by simp_all
    from assms(2) nc have "((k0, None), s\<lparr>rs_file := f1\<rparr>, w2) = ((k, e), s', w')"
      by (simp add: RecorderStream_Write_def fw e0 k0 sy)
    then have r: "k = k0" "e = None" "s' = s\<lparr>rs_file := f1\<rparr>" "w' = w2"
      by simp_all
    from C have same: "fs w2 = fs w1" by simp
    from A have a1: "at_end f1 (rs_filePath s) w1" by simp
    from A fl have "file_len w1 (rs_filePath s) = 44 + n + k0" by simp
    with at_end_same_fs [OF a1 same] file_len_same_fs [OF same]
    have "at_end f1 (rs_filePath s) w2" "file_len w2 (rs_filePath s) = 44 + n + k0"
      by simp_all
    moreover from B C have "file_step w w2"
      by (auto simp: file_step_def grows_def)
    ultimately show ?thesis using r nc ch A True
      by (auto simp: wav_open_def)
  next
    case False
    from assms(2) nc False have r: "k = k0" "s' = s\<lparr>rs_file := f1\<rparr>" "w' = w1"
        "e = None \<longrightarrow> e0 = None"
      by (cases e0; auto simp add: RecorderStream_Write_def fw split: if_splits)+
    from B have "file_step w w1"
      by (auto simp: file_step_def grows_def)
    then show ?thesis using r nc ch A fl
      by (auto simp: wav_open_def)
  qed
qed

lemma WhisperStream_Write_ready:
  assumes "batch_ready (Whisper s) w n" and "WhisperStream_Write en s b w = ((k, e), s', w')"
  shows "batch_ready (Whisper s') w' (n + k) \<and> file_step w w' \<and> (e = None \<longrightarrow> k = length b)
         \<and> s' = s\<lparr>ws_file := ws_file s'\<rparr>"
proof -
  obtain k0 e0 f1 w1 where fw: "File_Write en (ws_file s) b w = ((k0, e0), f1, w1)"
    by (metis prod.exhaust)
  from assms(1) have ae: "at_end (ws_file s) (ws_filePath s) w"
    and fl: "file_len w (ws_filePath s) = 44 + n" and nc: "\<not> ws_isClosed s"
    and ch: "ws_results s = make_chan 10"
    by (simp_all add: wav_open_def)
  note A = File_Write_at_end [OF ae fw]
  note B = File_Write_step [OF fw]
  show ?thesis
  proof (cases "e0 = None")
    case True
    obtain se w2 where sy: "File_Sync en f1 w1 = (se, w2)" by (metis prod.exhaust)
    note C = File_Sync_step [OF sy]
    from assms(2) nc have "((k0, None), s\<lparr>ws_file := f1\<rparr>, w2) = ((k, e), s', w')"
      by (simp add: WhisperStream_Write_def fw True sy)
    then have r: "k = k0" "e = None" "s' = s\<lparr>ws_file := f1\<rparr>" "w' = w2"
      by simp_all
    from C have same: "fs w2 = fs w1" by simp
    from A have a1: "at_end f1 (ws_filePath s) w1" by simp
    from A fl have "file_len w1 (ws_filePath s) = 44 + n + k0" by simp
    with at_end_same_fs [OF a1 same] file_len_same_fs [OF same]
    have "at_end f1 (ws_filePath s) w2" "file_len w2 (ws_filePath s) = 44 + n + k0"
      by simp_all
    moreover from B C have "file_step w w2"
      by (auto simp: file_step_def grows_def)
    ultimately show ?thesis using r nc ch A True
      by (auto simp: wav_open_def)
  next
    case False
    from False obtain x where e0: "e0 = Some x" by (cases e0) auto
    from assms(2) nc have "((k0, Some (''failed to write audio data: '' @ x)), s\<lparr>ws_file := f1\<rparr>, w1)
        = ((k, e), s', w')"
      by (simp add: WhisperStream_Write_def fw e0)
    then have r: "k = k0" "s' = s\<lparr>ws_file := f1\<rparr>" "w' = w1" "e \<noteq> None"
      by auto
    from B have "file_step w w1"
      by (auto simp: file_step_def grows_def)
    then show ?thesis using r nc ch A fl
      by (auto simp: wav_open_def)
  qed
qed

lemma Stream_Write_ready:
  assumes "batch_ready st w n" and "Stream_Write en st b w = ((k, e), st', w')"
  shows "batch_ready st' w' (n + k) \<and> file_step w w' \<and> (e = None \<longrightarrow> k = length b)
         \<and> forget_sink st' = forget_sink st"
proof (cases st)
  case (Recorder s)
  with assms(2) obtain s' where w: "RecorderStream_Write en s b w = ((k, e), s', w')"
    and st': "st' = Recorder s'"
    by (auto split: prod.splits)
  from RecorderStream_Write_ready [OF assms(1) [unfolded Recorder] w] st' Recorder
  show ?thesis
    by (metis forget_sink.simps(1) RecorderStream.update_convs(1) RecorderStream.surjective)
next
  case (Whisper s)
  with assms(2) obtain s' where w: "WhisperStream_Write en s b w = ((k, e), s', w')"
    and st': "st' = Whisper s'"
    by (auto split: prod.splits)
  from WhisperStream_Write_ready [OF assms(1) [unfolded Whisper] w] st' Whisper
  show ?thesis 
    by (metis forget_sink.simps(2) WhisperStream.update_convs(2) WhisperStream.surjective)
next
  case (IflyTek s) with assms(1) show ?thesis by simp
next
  case (Azure s) with assms(1) show ?thesis by simp
next
  case (Baidu s) with assms(1) show ?thesis by simp
qed

lemma Stream_WriteAll_ready:
  "batch_ready st w n \<Longrightarrow> Stream_WriteAll en st bs w = (rets, st', w') \<Longrightarrow>
     batch_ready st' w' (n + sum_list (map fst rets)) \<and> file_step w w'
     \<and> forget_sink st' = forget_sink st
     \<and> ((\<forall>r\<in>set rets. snd r = None) \<longrightarrow> map fst rets = map length bs)"
proof (induction bs arbitrary: st w n rets)
  case Nil
  then show ?case by auto
next
  case (Cons b bs)
  obtain k e s1 w1 where w1: "Stream_Write en st b w = ((k, e), s1, w1)"
    by (metis prod.exhaust)
  obtain rs s2 w2 where w2': "Stream_WriteAll en s1 bs w1 = (rs, s2, w2)"
    by (metis prod.exhaust)
  from Cons.prems(2) w1 w2' have r: "rets = (k, e) # rs" "st' = s2" "w' = w2"
    by auto
  from w2' r have w2: "Stream_WriteAll en s1 bs w1 = (rs, st', w')" by simp
  note A = Stream_Write_ready [OF Cons.prems(1) w1]
  from A have rdy: "batch_ready s1 w1 (n + k)" by simp
  note B = Cons.IH [OF rdy w2]
  from A B r show ?case
    by (auto intro: file_step_trans simp: add.assoc)
qed

section \<open>Finalizing\<close>

lemma finalize_wav_ok:
  assumes "finalize_wav en f p w = (Inr fsz, f', w')" and "f_path f = p"
  shows "\<exists>c. fs w p = Some c \<and> \<not> f_closed f \<and> fsz = of_nat (length c) \<and> 44 \<le> length c
     \<and> fs w' = (fs w)(p \<mapsto> write_at 40 (le32 (fsz - 44)) (write_at 4 (le32 (fsz - 8)) c))
     \<and> f_closed f' \<and> f_path f' = p
     \<and> trace w' = trace w @ [FileSync p, FileStat p, FileSeek p 4, FileWrite p 4 (le32 (fsz - 8)),
          FileSeek p 40, FileWrite p 40 (le32 (fsz - 44)), FileSync p, FileClose p]"
  using assms
  unfolding finalize_wav_def
  apply (simp add: Let_def split: prod.splits sum.splits option.splits if_splits)
  apply (drule File_Sync_step File_Stat_Inr File_Seek_None File_Write_None File_Close_None)+
  apply (auto simp: emit_def grows_def file_len_def dest: of_nat_ge_44)
  done

lemma finalize_wav_Inr:
  assumes "wav_open f p w n" and "finalize_wav en f p w = (Inr fsz, f', w')"
  shows "fsz = of_nat (44 + n) \<and> file_step w w' \<and> f_closed f'
     \<and> (\<exists>c. fs w p = Some c \<and> length c = 44 + n
           \<and> fs w' = (fs w)(p \<mapsto> write_at 40 (le32 (fsz - 44)) (write_at 4 (le32 (fsz - 8)) c)))"
proof -
  from assms(1) have p: "f_path f = p" and l: "file_len w p = 44 + n"
    by (simp_all add: wav_open_def at_end_def)
  from finalize_wav_ok [OF assms(2) p] l show ?thesis
    by (auto simp: file_len_def file_step_def grows_def)
qed

lemma finalize_wav_Inl:
  assumes "finalize_wav en f p w = (Inl e, f', w')" and "f_path f = p"
  shows "file_step w w' \<and> fs w' p = None \<and> (\<forall>q. q \<noteq> p \<longrightarrow> fs w' q = fs w q)"
  using assms
  unfolding finalize_wav_def
  apply (simp add: Let_def split: prod.splits sum.splits option.splits if_splits)
  apply (elim disjE conjE exE)
  apply (auto simp: grows_def file_step_def
      dest!: File_Sync_step File_Stat_step File_Seek_step File_Write_step File_Close_step
            close_and_remove_step os_Remove_step)
  done

lemma patched_props:
  assumes "44 \<le> length c"
  shows "length (patched v c) = length c" and "u32_at 40 (patched v c) = v - 44"
    and "u32_at 4 (patched v c) = v - 8" and "drop 44 (patched v c) = drop 44 c"
  using assms
  by (simp_all add: patched_def u32_at_write_same u32_at_write_before) (simp add: write_at_def)

section \<open>Closing a batch stream\<close>

lemma push_close_fresh:
  "0 < k \<Longrightarrow>
   and_then (chan_send (make_chan k) r w)
      (\<lambda>c2 w2. and_then (chan_close c2 w2) (\<lambda>c3 w3. (Return None, c3, w3)))
   = (Return None, \<lparr>chan_buf = [r], chan_cap = k, chan_closed = True\<rparr>,
      emit ChanClose (emit (ChanSend r) w))"
  by (simp add: and_then_def chan_send_def chan_close_def make_chan_def Let_def)

lemma close_fresh:
  "and_then (chan_close (make_chan k) w) (\<lambda>c3 w3. (Return None, c3, w3))
   = (Return None, \<lparr>chan_buf = [], chan_cap = k, chan_closed = True\<rparr>, emit ChanClose w)"
  by (simp add: and_then_def chan_close_def make_chan_def Let_def)

lemma RecorderStream_Close_ready:
  assumes rdy: "batch_ready (Recorder s) w n" and cl: "RecorderStream_Close en s w = (out, s', w')"
  shows "(\<exists>e. out = Return (Some e) \<and> file_step w w' \<and> fs w' (rs_filePath s) = None)
       \<or> (out = Return None \<and> rs_isClosed s' \<and> chan_closed (rs_results s')
          \<and> (\<exists>evs. grows w (evs @ [ChanSend \<lparr>Text = rs_fileName s, Confidence = 1, Final = True,
                                       AudioFile = [], TextFile = []\<rparr>, ChanClose]) w'
                \<and> list_all is_file_event evs)
          \<and> (\<exists>c. fs w (rs_filePath s) = Some c \<and> length c = 44 + n
                \<and> fs w' = (fs w)(rs_filePath s \<mapsto> patched (of_nat (44 + n)) c)))"
proof -
  from rdy have nc: "\<not> rs_isClosed s" and ch: "rs_results s = make_chan 1"
    and wo: "wav_open (rs_file s) (rs_filePath s) w n"
    by simp_all
  from wo have fp: "f_path (rs_file s) = rs_filePath s"
    by (simp add: wav_open_def at_end_def)
  obtain r f1 w1 where fin: "finalize_wav en (rs_file s) (rs_filePath s) w = (r, f1, w1)"
    by (metis prod.exhaust)
  show ?thesis
  proof (cases r)
    case (Inl e)
    from cl nc fin Inl have "out = Return (Some e)" "w' = w1"
      by (simp_all add: RecorderStream_Close_def)
    with finalize_wav_Inl [OF fin [unfolded Inl] fp] show ?thesis by simp
  next
    case (Inr fsz)
    note F = finalize_wav_Inr [OF wo fin [unfolded Inr]]
    let ?r = "\<lparr>Text = rs_fileName s, Confidence = 1, Final = True, AudioFile = [], TextFile = []\<rparr>"
    from cl nc fin Inr ch
    have res: "out = Return None" "w' = emit ChanClose (emit (ChanSend ?r) w1)"
      "s' = s\<lparr>rs_isClosed := True, rs_file := f1,
              rs_results := \<lparr>chan_buf = [?r], chan_cap = 1, chan_closed = True\<rparr>\<rparr>"
      by (simp_all add: RecorderStream_Close_def push_close_fresh)
    from F obtain evs where evs: "grows w evs w1" "list_all is_file_event evs"
      by (auto simp: file_step_def)
    from evs(1) res(2) have "grows w (evs @ [ChanSend ?r, ChanClose]) w'"
      by (simp add: grows_def)
    with evs(2) F res show ?thesis
      by (auto simp: patched_def)
  qed
qed

section \<open>File names\<close>

lemma digit_char_no_slash: "digit_char d \<noteq> CHR ''/''"
proof -
  have "d mod 10 < length ''0123456789''" by simp
  then have "''0123456789'' ! (d mod 10) \<in> set ''0123456789''" by (rule nth_mem)
  then show ?thesis by (auto simp: digit_char_def)
qed

lemma itoa_no_slash: "CHR ''/'' \<notin> set (itoa n)"
proof (induction n rule: itoa.induct)
  case (1 n)
  show ?case
  proof (cases "n < 10")
    case True
    then show ?thesis using digit_char_no_slash [of n] by (subst itoa.simps) auto
  next
    case False
    with 1 show ?thesis using digit_char_no_slash [of n] by (subst itoa.simps) auto
  qed
qed

lemma zero_pad_no_slash: "CHR ''/'' \<notin> set s \<Longrightarrow> CHR ''/'' \<notin> set (zero_pad k s)"
  by (auto simp: zero_pad_def)

lemma format_stamp_no_slash: "CHR ''/'' \<notin> set (format_stamp t)"
  by (simp add: format_stamp_def zero_pad_no_slash itoa_no_slash)

lemma strip_slashes_id: "xs \<noteq> [] \<Longrightarrow> hd xs \<noteq> CHR ''/'' \<Longrightarrow> strip_slashes xs = xs"
  by (cases xs) auto

lemma filepath_Base_Join:
  assumes "name \<noteq> []" and "CHR ''/'' \<notin> set name"
  shows "filepath_Base (filepath_Join dir name) = name"
proof -
  let ?p = "filepath_Join dir name"
  have rp: "rev ?p = rev name @ (if dir = [] then [] else ''/'' @ rev dir)"
    by (simp add: filepath_Join_def)
  from assms have hd: "rev name \<noteq> []" "hd (rev name) \<noteq> CHR ''/''"
    by (auto simp: hd_rev) (metis last_in_set)
  then have "rev ?p \<noteq> []" "hd (rev ?p) \<noteq> CHR ''/''"
    unfolding rp by auto
  then have ss: "strip_slashes (rev ?p) = rev ?p" by (rule strip_slashes_id)
  have tw: "takeWhile (\<lambda>c. c \<noteq> CHR ''/'') (rev ?p) = rev name"
    unfolding rp using assms(2) by (auto simp: takeWhile_append2 takeWhile_tail)
  from assms(1) have ne: "?p \<noteq> []" by (simp add: filepath_Join_def)
  show ?thesis
    using ne ss tw by (simp add: filepath_Base_def Let_def)
qed

lemma recorder_name_base:
  "filepath_Base (filepath_Join dir (''recording_'' @ format_stamp t @ ''_''
       @ zero_pad 3 (itoa c) @ ''.wav''))
   = ''recording_'' @ format_stamp t @ ''_'' @ zero_pad 3 (itoa c) @ ''.wav''"
  by (rule filepath_Base_Join) (simp_all add: format_stamp_no_slash zero_pad_no_slash itoa_no_slash)

section \<open>What a sequence of writes keeps\<close>

lemma forget_sink_Recorder:
  "forget_sink st = forget_sink (Recorder s) \<Longrightarrow>
     \<exists>s1. st = Recorder s1 \<and> rs_fileName s1 = rs_fileName s \<and> rs_filePath s1 = rs_filePath s"
  apply (cases st; simp)
  apply (metis RecorderStream.select_convs(3,4) RecorderStream.update_convs(1) RecorderStream.surjective)
  done

lemma forget_sink_Whisper:
  "forget_sink st = forget_sink (Whisper s) \<Longrightarrow>
     \<exists>s1. st = Whisper s1 \<and> ws_filePath s1 = ws_filePath s \<and> ws_transcribe s1 = ws_transcribe s
        \<and> ws_transcriber s1 = ws_transcriber s \<and> ws_language s1 = ws_language s"
  apply (cases st; simp)
  apply (metis WhisperStream.select_convs(1,4,5,6) WhisperStream.update_convs(2) WhisperStream.surjective)
  done

section \<open>The result of a recording\<close>

text \<open>
  A recorder stream is created and written to, whatever the writes return. When its
  \<^verbatim>\<open>Close\<close> returns nil, the calls on the result channel since the stream was created
  are one send followed by the close of the channel, and the text of the result sent,
  the stream's \<^verbatim>\<open>fileName\<close>, is the base name of the path of the WAV file.
\<close>

lemma created_recorder_pushes_base_name:
  assumes created: "RecorderTranscriber_CreateStream en r w = (Inr rs, r', w0)"
      and written: "Stream_WriteAll en (Recorder rs) chunks w0 = (rets, st1, w1)"
      and closed: "Stream_Close en st1 w1 = (Return None, st2, w2)"
  shows "filter is_chan_event (since w w2)
           = [ChanSend \<lparr>Text = filepath_Base (rs_filePath rs), Confidence = 1, Final = True,
                        AudioFile = [], TextFile = []\<rparr>, ChanClose]
         \<and> chan_closed (Stream_Results st2)"
proof -
  note C = RecorderTranscriber_CreateStream_ready [OF created]
  note rdy0 = C [THEN conjunct1]
  note W = Stream_WriteAll_ready [OF rdy0 written]
  from W obtain s1 where st1: "st1 = Recorder s1" and nm: "rs_fileName s1 = rs_fileName rs"
    using forget_sink_Recorder by blast
  from W [THEN conjunct1] st1 have rdy1: "batch_ready (Recorder s1) w1 (sum_list (map fst rets))"
    by (simp del: batch_ready.simps)
  from closed st1 obtain s2 where cl: "RecorderStream_Close en s1 w1 = (Return None, s2, w2)"
    and st2: "st2 = Recorder s2"
    by (auto split: prod.splits)
  let ?r = "\<lparr>Text = rs_fileName rs, Confidence = 1, Final = True, AudioFile = [], TextFile = []\<rparr>"
  from RecorderStream_Close_ready [OF rdy1 cl] nm
  obtain evs where ev: "grows w1 (evs @ [ChanSend ?r, ChanClose]) w2" "list_all is_file_event evs"
    and cc: "chan_closed (rs_results s2)"
    by auto
  from C W obtain e0 e1 where e: "grows w e0 w0" "list_all is_file_event e0"
      "grows w0 e1 w1" "list_all is_file_event e1"
    by (auto simp: file_step_def)
  from e ev have "since w w2 = (e0 @ e1 @ evs) @ [ChanSend ?r, ChanClose]"
    by (simp add: grows_def since_def)
  moreover from e ev have "filter is_chan_event (e0 @ e1 @ evs) = []"
    using filter_file_events [of "e0 @ e1 @ evs"] by simp
  ultimately have "filter is_chan_event (since w w2) = [ChanSend ?r, ChanClose]"
    by simp
  moreover from C have "filepath_Base (rs_filePath rs) = rs_fileName rs"
    using recorder_name_base by metis
  ultimately show ?thesis using cc st2
    by (simp add: RecorderStream_Results_def)
qed

section \<open>Closing twice, writing after the close\<close>

lemma RecorderStream_Close_sets_closed:
  "RecorderStream_Close en s w = (out, s', w') \<Longrightarrow> rs_isClosed s'"
  by (auto simp: RecorderStream_Close_def Let_def split: if_splits prod.splits sum.splits)

lemma WhisperStream_Close_sets_closed:
  "WhisperStream_Close en s w = (out, s', w') \<Longrightarrow> ws_isClosed s'"
  by (auto simp: WhisperStream_Close_def Let_def
           split: if_splits prod.splits sum.splits outcome.splits option.splits)

text \<open>On the two batch backends a \<^verbatim>\<open>Close\<close> after a \<^verbatim>\<open>Close\<close> returns nil and does
  nothing, and a \<^verbatim>\<open>Write\<close> after a \<^verbatim>\<open>Close\<close> is refused before any call is made.\<close>

lemma RecorderStream_Close_again:
  "RecorderStream_Close en s w = (out, s', w') \<Longrightarrow>
     RecorderStream_Close en2 s' w2 = (Return None, s', w2)"
  by (drule RecorderStream_Close_sets_closed) (simp add: RecorderStream_Close_def)

lemma WhisperStream_Close_again:
  "WhisperStream_Close en s w = (out, s', w') \<Longrightarrow>
     WhisperStream_Close en2 s' w2 = (Return None, s', w2)"
  by (drule WhisperStream_Close_sets_closed) (simp add: WhisperStream_Close_def)

lemma RecorderStream_Write_after_Close:
  "RecorderStream_Close en s w = (out, s', w') \<Longrightarrow>
     RecorderStream_Write en2 s' b w2 = ((0, Some ''stream is closed''), s', w2)"
  by (drule RecorderStream_Close_sets_closed) (simp add: RecorderStream_Write_def)

lemma WhisperStream_Write_after_Close:
  "WhisperStream_Close en s w = (out, s', w') \<Longrightarrow>
     WhisperStream_Write en2 s' b w2 = ((0, Some ''stream is closed''), s', w2)"
  by (drule WhisperStream_Close_sets_closed) (simp add: WhisperStream_Write_def)

text \<open>On a WebSocket backend the channel a first \<^verbatim>\<open>Close\<close> has closed is closed again.\<close>

lemma and_then_close_closed:
  "and_then (chan_close c w) (\<lambda>c3 w3. (Return x, c3, w3)) = (Return y, c', w') \<Longrightarrow> chan_closed c'"
  by (auto simp: and_then_def chan_close_def Let_def split: if_splits)

lemma and_then_close_of_closed:
  "chan_closed c \<Longrightarrow>
     and_then (chan_close c w) k = (Panic ''close of closed channel'', c, emit ChanClose w)"
  by (simp add: and_then_def chan_close_def Let_def)

lemma IflyTekStream_Close_again:
  assumes "IflyTekStream_Close en st w = (Return e, st', w')"
  shows "fst (IflyTekStream_Close en2 st' w2) = Panic ''close of closed channel''"
proof -
  from assms have "chan_closed (st_results st')"
    by (auto simp: IflyTekStream_Close_def split: prod.splits dest: and_then_close_closed)
  then show ?thesis
    by (simp add: IflyTekStream_Close_def and_then_close_of_closed split: prod.splits)
qed

text \<open>A listener leaves the connection and the files alone, and neither closes nor
  reopens the result channel; on a closed connection it does nothing.\<close>

lemma chan_try_send_keeps:
  "chan_try_send c r w = (out, c', w') \<Longrightarrow>
     chan_closed c' = chan_closed c \<and> chan_cap c' = chan_cap c \<and> fs w' = fs w"
  by (auto simp: chan_try_send_def split: if_splits)

lemma AzureStream_listenForResults_keeps:
  "AzureStream_listenForResults ms st w = (st', w') \<Longrightarrow>
     as_conn st' = as_conn st \<and> fs w' = fs w
     \<and> chan_closed (as_results st') = chan_closed (as_results st)"
proof (induction ms arbitrary: st w)
  case Nil
  then show ?case by simp
next
  case (Cons m ms)
  show ?case
  proof (cases "as_listening st \<and> \<not> conn_closed (as_conn st)")
    case False
    with Cons.prems show ?thesis by (auto split: if_splits)
  next
    case True
    show ?thesis
    proof (cases m)
      case ReadFailed
      with True Cons.prems show ?thesis by auto
    next
      case Garbled
      with True Cons.prems have "AzureStream_listenForResults ms st w = (st', w')" by simp
      from Cons.IH [OF this] show ?thesis .
    next
      case (Received r)
      show ?thesis
      proof (cases "ar_Type r = ''recognition'' \<and> ar_DisplayText r \<noteq> []")
        case False
        with True Received Cons.prems
        have "AzureStream_listenForResults ms st w = (st', w')
            \<or> (st' = st\<lparr>as_listening := False\<rparr> \<and> w' = w)"
          by (auto split: if_splits)
        with Cons.IH [of st w] show ?thesis by auto
      next
        case rec: True
        obtain out c w1 where ts: "chan_try_send (as_results st)
             \<lparr>Text = ar_DisplayText r, Confidence = ar_Confidence r,
              Final = (ar_Status r = ''success''), AudioFile = [], TextFile = []\<rparr> w = (out, c, w1)"
          by (metis prod.exhaust)
        note k = chan_try_send_keeps [OF ts]
        show ?thesis
        proof (cases out)
          case (Return u)
          with True Received rec ts Cons.prems
          have "AzureStream_listenForResults ms (st\<lparr>as_results := c\<rparr>) w1 = (st', w')"
            by simp
          from Cons.IH [OF this] k show ?thesis by simp
        next
          case (Panic p)
          with True Received rec ts Cons.prems k show ?thesis by auto
        next
          case Blocked
          with True Received rec ts Cons.prems k show ?thesis by auto
        qed
      qed
    qed
  qed
qed

lemma AzureStream_listenForResults_closed_conn:
  "conn_closed (as_conn st) \<Longrightarrow> AzureStream_listenForResults ms st w = (st', w') \<Longrightarrow>
     w' = w \<and> as_conn st' = as_conn st \<and> as_results st' = as_results st"
  by (cases ms) (auto split: if_splits)

lemma BaiduStream_listenForResults_keeps:
  "BaiduStream_listenForResults ms st w = (st', w') \<Longrightarrow>
     bs_conn st' = bs_conn st \<and> fs w' = fs w
     \<and> chan_closed (bs_results st') = chan_closed (bs_results st)"
proof (induction ms arbitrary: st w)
  case Nil
  then show ?case by simp
next
  case (Cons m ms)
  show ?case
  proof (cases "bs_listening st \<and> \<not> conn_closed (bs_conn st)")
    case False
    with Cons.prems show ?thesis by (auto split: if_splits)
  next
    case True
    show ?thesis
    proof (cases m)
      case ReadFailed
      with True Cons.prems show ?thesis by auto
    next
      case Garbled
      with True Cons.prems have "BaiduStream_listenForResults ms st w = (st', w')" by simp
      from Cons.IH [OF this] show ?thesis .
    next
      case (Received r)
      show ?thesis
      proof (cases "br_Type r = ''result'' \<and> br_Text r \<noteq> []")
        case False
        with True Received Cons.prems
        have "BaiduStream_listenForResults ms st w = (st', w')
            \<or> (st' = st\<lparr>bs_listening := False\<rparr> \<and> w' = w)"
          by (auto split: if_splits)
        with Cons.IH [of st w] show ?thesis by auto
      next
        case rec: True
        obtain out c w1 where ts: "chan_try_send (bs_results st)
             \<lparr>Text = br_Text r, Confidence = 9 / 10, Final = True,
              AudioFile = [], TextFile = []\<rparr> w = (out, c, w1)"
          by (metis prod.exhaust)
        note k = chan_try_send_keeps [OF ts]
        show ?thesis
        proof (cases out)
          case (Return u)
          with True Received rec ts Cons.prems
          have "BaiduStream_listenForResults ms (st\<lparr>bs_results := c\<rparr>) w1 = (st', w')"
            by simp
          from Cons.IH [OF this] k show ?thesis by simp
        next
          case (Panic p)
          with True Received rec ts Cons.prems k show ?thesis by auto
        next
          case Blocked
          with True Received rec ts Cons.prems k show ?thesis by auto
        qed
      qed
    qed
  qed
qed

lemma BaiduStream_listenForResults_closed_conn:
  "conn_closed (bs_conn st) \<Longrightarrow> BaiduStream_listenForResults ms st w = (st', w') \<Longrightarrow>
     w' = w \<and> bs_conn st' = bs_conn st \<and> bs_results st' = bs_results st"
  by (cases ms) (auto split: if_splits)

lemma AzureStream_Close_closes:
  assumes "AzureStream_Close en st w = (Return e, st', w')"
  shows "chan_closed (as_results st') \<and> conn_closed (as_conn st')"
proof -
  obtain s0 w0 where l: "AzureStream_listenForResults (azure_inbox en (length (trace w))) st w = (s0, w0)"
    by (metis prod.exhaust)
  with assms show ?thesis
    by (auto simp: AzureStream_Close_def ws_Close_def Let_def
             split: prod.splits if_splits dest: and_then_close_closed)
qed

lemma AzureStream_Close_again:
  assumes "AzureStream_Close en st w = (Return e, st', w')"
  shows "fst (AzureStream_Close en2 st' w2) = Panic ''close of closed channel''"
proof -
  from AzureStream_Close_closes [OF assms] have c: "chan_closed (as_results st')" ..
  obtain s0 w0 where l: "AzureStream_listenForResults (azure_inbox en2 (length (trace w2))) st' w2 = (s0, w0)"
    by (metis prod.exhaust)
  from AzureStream_listenForResults_keeps [OF l] c have "chan_closed (as_results s0)" by simp
  with l show ?thesis
    by (simp add: AzureStream_Close_def and_then_close_of_closed split: prod.splits)
qed

lemma BaiduStream_Close_closes:
  assumes "BaiduStream_Close en st w = (Return e, st', w')"
  shows "chan_closed (bs_results st') \<and> conn_closed (bs_conn st')"
proof -
  obtain s0 w0 where l: "BaiduStream_listenForResults (baidu_inbox en (length (trace w))) st w = (s0, w0)"
    by (metis prod.exhaust)
  with assms show ?thesis
    by (auto simp: BaiduStream_Close_def ws_Close_def Let_def
             split: prod.splits if_splits dest: and_then_close_closed)
qed

lemma BaiduStream_Close_again:
  assumes "BaiduStream_Close en st w = (Return e, st', w')"
  shows "fst (BaiduStream_Close en2 st' w2) = Panic ''close of closed channel''"
proof -
  from BaiduStream_Close_closes [OF assms] have c: "chan_closed (bs_results st')" ..
  obtain s0 w0 where l: "BaiduStream_listenForResults (baidu_inbox en2 (length (trace w2))) st' w2 = (s0, w0)"
    by (metis prod.exhaust)
  from BaiduStream_listenForResults_keeps [OF l] c have "chan_closed (bs_results s0)" by simp
  with l show ?thesis
    by (simp add: BaiduStream_Close_def and_then_close_of_closed split: prod.splits)
qed

text \<open>
  Claim C1, at the input where it fails. A Xunfei stream is created and closed; the
  close returns nil. The second \<^verbatim>\<open>Close\<close> sends the end marker again, closes the
  connection again, closes the result channel again and panics there.
\<close>

theorem iflytek_second_close_panics:
  "fst iflytek_closed = Return None
   \<and> fst iflytek_closed_again = Panic ''close of closed channel''
   \<and> since (snd (snd iflytek_closed)) (snd (snd iflytek_closed_again))
       = [WsWrite (XunfeiFrame 2 []), WsClose, ChanClose]"
  unfolding iflytek_closed_again_def iflytek_closed_def iflytek_created_def
  by code_simp

text \<open>
  Claim C8, at the input where it fails. Of three packets the second does not decode.
  The session ends without error as if the track had gone idle, and the recording holds
  the audio of the first packet only: the third packet, which decodes, never reaches
  the stream.
\<close>

theorem bad_packet_ends_session:
  "fst session_with_bad_packet = Return None
   \<and> audio_of (snd (snd session_with_bad_packet)) ''rec/recording_20250102_030405_001.wav''
       = Some [1, 2]
   \<and> opus_decode quiet_env [3, 4] = Inr [3, 4]"
  unfolding session_with_bad_packet_def recorder_rtc_def audio_of_def
  by code_simp

lemma all_good_packets_written:
  "fst session_all_good = Return None
   \<and> audio_of (snd (snd session_all_good)) ''rec/recording_20250102_030405_001.wav''
       = Some [1, 2, 5, 6, 3, 4]"
  unfolding session_all_good_def recorder_rtc_def audio_of_def
  by code_simp

text \<open>
  Claim C7 as stated fails where \<^verbatim>\<open>Close\<close> returns an error. On the recorder backend
  the track ends at once, the pump loop returns, and in \<^verbatim>\<open>Close\<close> the \<^verbatim>\<open>Stat\<close> of the
  file fails. The session has called \<^verbatim>\<open>Close\<close> and returns nil, and it has made no
  call on the data channel: nothing is relayed and the data channel is not closed.
\<close>

theorem close_failure_skips_drain:
  "fst session_close_fails = Return None
   \<and> FileStat ''rec/recording_20250102_030405_001.wav'' \<in> set (trace (snd (snd session_close_fails)))
   \<and> filter is_dc_event (trace (snd (snd session_close_fails))) = []"
  unfolding session_close_fails_def recorder_rtc_def
  by code_simp

section \<open>Closing a Whisper stream\<close>

lemma transcribeAudio_events:
  assumes "WhisperStream_transcribeAudio en s p w = (r, w')" and "4 \<le> length p"
  shows "\<exists>evs text textFile err. grows w evs w' \<and> r = Return (text, textFile, err)
     \<and> list_all (\<lambda>e. is_file_event e \<or> is_exec e) evs
     \<and> (\<forall>prog args e. Exec prog args (Some e) \<in> set evs \<longrightarrow>
           (\<exists>output. err = Some (''whisper execution failed: '' @ e @ '', output: '' @ output)))"
proof (cases "wt_whisperPath (ws_transcriber s) = []")
  case True
  with assms(1) have "w' = w" "\<exists>text textFile err. r = Return (text, textFile, err)"
    by (auto simp: WhisperStream_transcribeAudio_def)
  then show ?thesis
    by - (rule exI [of _ "[]"], auto)
next
  case False
  let ?lang = "if ws_language s = [] then wt_language (ws_transcriber s) else ws_language s"
  let ?args = "[''--model'', wt_modelPath (ws_transcriber s),
                ''--output_dir'', wt_tempDir (ws_transcriber s),
                ''--output_format'', ''txt'',
                ''--task'', ''transcribe'',
                ''--temperature'', ''0.0'']
               @ (if ?lang \<noteq> [] \<and> ?lang \<noteq> ''auto'' then [''--language'', ?lang] else [])
               @ [p]"
  let ?prog = "wt_whisperPath (ws_transcriber s)"
  obtain x outp fs1 where cmd: "run_exec en ?prog ?args (fs w) = (x, outp, fs1)"
    by (metis prod.exhaust)
  let ?w1 = "(emit (Exec ?prog ?args x) w)\<lparr>fs := fs1\<rparr>"
  have g1: "grows w [Exec ?prog ?args x] ?w1"
    by (simp add: grows_def emit_def)
  show ?thesis
  proof (cases x)
    case (Some e)
    with assms(1) False cmd
    have "r = Return ([], [], Some (''whisper execution failed: '' @ e @ '', output: '' @ outp))"
      and "w' = ?w1"
      by (simp_all add: WhisperStream_transcribeAudio_def Let_def)
    with g1 Some show ?thesis
      by - (rule exI [of _ "[Exec ?prog ?args x]"], auto)
  next
    case None
    let ?out = "take (length p - 4) p @ ''.txt''"
    obtain rd w2 where rf: "os_ReadFile en ?out ?w1 = (rd, w2)"
      by (metis prod.exhaust)
    then have g2: "grows ?w1 [OsReadFile ?out] w2"
      by (auto simp: os_ReadFile_def Let_def grows_def emit_def split: option.splits if_splits)
    show ?thesis
    proof (cases rd)
      case (Inl e)
      with assms False cmd None rf
      have "r = Return ([], [], Some (''failed to read transcription output: '' @ e))" "w' = w2"
        by (simp_all add: WhisperStream_transcribeAudio_def Let_def)
      moreover from g1 g2 have "grows w [Exec ?prog ?args x, OsReadFile ?out] w2"
        by (simp add: grows_def)
      ultimately show ?thesis using None
        by - (rule exI [of _ "[Exec ?prog ?args x, OsReadFile ?out]"], auto)
    next
      case (Inr content)
      let ?w3 = "if \<not> wt_keepTxt (ws_transcriber s) then snd (os_Remove ?out w2) else w2"
      from assms False cmd None rf Inr
      have r: "\<exists>text textFile err. r = Return (text, textFile, err)" and w': "w' = ?w3"
        by (auto simp add: WhisperStream_transcribeAudio_def Let_def split: if_splits)
      have "\<exists>ev. grows w2 ev ?w3 \<and> list_all is_file_event ev"
      proof (cases "wt_keepTxt (ws_transcriber s)")
        case True
        then show ?thesis by - (rule exI [of _ "[]"], simp)
      next
        case False
        obtain re w3 where rm: "os_Remove ?out w2 = (re, w3)" by (metis prod.exhaust)
        from os_Remove_step [OF rm] False rm show ?thesis
          by - (rule exI [of _ "[OsRemove ?out]"], simp)
      qed
      then obtain ev where ev: "grows w2 ev ?w3" "list_all is_file_event ev" by blast
      define E where "E = [Exec ?prog ?args x, OsReadFile ?out] @ ev"
      from g1 g2 ev(1) have a: "grows w E w'"
        unfolding E_def w' by (simp add: grows_def)
      have b: "list_all (\<lambda>e. is_file_event e \<or> is_exec e) E"
        unfolding E_def using ev(2) by (simp add: list_all_iff)
      have c: "\<forall>prog args e. Exec prog args (Some e) \<notin> set E"
        unfolding E_def using ev(2) None by (auto simp: list_all_iff)
      from r obtain tx tf er where r': "r = Return (tx, tf, er)" by blast
      from a b c r' show ?thesis by blast
    qed
  qed
qed

lemma WhisperStream_Close_ready:
  assumes rdy: "batch_ready (Whisper s) w n"
      and cl: "WhisperStream_Close en s w = (out, s', w')"
      and len: "4 \<le> length (ws_filePath s)"
  shows "\<exists>evs. grows w evs w' \<and>
     ((\<exists>e. out = Return (Some e)) \<and> list_all is_file_event evs \<and> fs w' (ws_filePath s) = None
    \<or> out = Return None \<and> chan_closed (ws_results s') \<and>
       (of_nat (44 + n) = (44::32 word)
          \<and> (\<exists>ev1. evs = ev1 @ [ChanClose] \<and> list_all is_file_event ev1)
          \<and> fs w' (ws_filePath s) = None
      \<or> of_nat (44 + n) \<noteq> (44::32 word) \<and> \<not> ws_transcribe s
          \<and> (\<exists>ev1. evs = ev1 @ [ChanSend \<lparr>Text = ''Recording saved (transcription disabled)'',
                                     Confidence = 1, Final = True,
                                     AudioFile = ws_filePath s, TextFile = []\<rparr>, ChanClose]
                  \<and> list_all is_file_event ev1)
          \<and> (\<exists>c. fs w (ws_filePath s) = Some c \<and> length c = 44 + n
                  \<and> fs w' = (fs w)(ws_filePath s \<mapsto> patched (of_nat (44 + n)) c))
      \<or> of_nat (44 + n) \<noteq> (44::32 word) \<and> ws_transcribe s
          \<and> (\<exists>ev1 ev2 ev3 tx tf er.
                evs = ev1 @ ev2 @ [ChanSend (case er of
                     Some e \<Rightarrow> \<lparr>Text = ''Transcription error: '' @ e, Confidence = 0,
                                Final = True, AudioFile = ws_filePath s, TextFile = []\<rparr>
                   | None \<Rightarrow> \<lparr>Text = tx, Confidence = 9 / 10,
                              Final = True, AudioFile = ws_filePath s, TextFile = tf\<rparr>)]
                      @ ev3 @ [ChanClose]
                \<and> list_all is_file_event ev1
                \<and> list_all (\<lambda>e. is_file_event e \<or> is_exec e) ev2
                \<and> list_all is_file_event ev3
                \<and> (\<forall>prog args e. Exec prog args (Some e) \<in> set ev2 \<longrightarrow>
                      (\<exists>output. er = Some (''whisper execution failed: '' @ e
                                            @ '', output: '' @ output))))))"
proof -
  let ?p = "ws_filePath s"
  from rdy have nc: "\<not> ws_isClosed s" and ch: "ws_results s = make_chan 10"
    and wo: "wav_open (ws_file s) ?p w n"
    by simp_all
  from wo have fp: "f_path (ws_file s) = ?p"
    by (simp add: wav_open_def at_end_def)
  obtain r f1 w1 where fin: "finalize_wav en (ws_file s) ?p w = (r, f1, w1)"
    by (metis prod.exhaust)
  show ?thesis
  proof (cases r)
    case (Inl e)
    from cl nc fin Inl have o: "out = Return (Some e)" "w' = w1"
      by (simp_all add: WhisperStream_Close_def)
    from finalize_wav_Inl [OF fin [unfolded Inl] fp]
    obtain evs where a: "grows w evs w1" "list_all is_file_event evs" "fs w1 ?p = None"
      by (auto simp: file_step_def)
    show ?thesis
      by (rule exI [of _ evs], rule conjI, use a o in simp, rule disjI1, use a o in simp)
  next
    case (Inr fsz)
    note F = finalize_wav_Inr [OF wo fin [unfolded Inr]]
    from F have fsz: "fsz = of_nat (44 + n)" by simp
    from F obtain ev1 where ev1: "grows w ev1 w1" "list_all is_file_event ev1"
      by (auto simp: file_step_def)
    from F obtain c where c: "fs w ?p = Some c" "length c = 44 + n"
        "fs w1 = (fs w)(?p \<mapsto> patched fsz c)"
      by (auto simp: patched_def)
    let ?s2 = "s\<lparr>ws_isClosed := True, ws_file := f1\<rparr>"
    show ?thesis
    proof (cases "fsz = 44")
      case True
      obtain re w2 where rm: "os_Remove ?p w1 = (re, w2)" by (metis prod.exhaust)
      note R = os_Remove_step [OF rm]
      from cl nc fin Inr True rm ch
      have o: "out = Return None" "w' = emit ChanClose w2"
        "s' = ?s2\<lparr>ws_results := \<lparr>chan_buf = [], chan_cap = 10, chan_closed = True\<rparr>\<rparr>"
        by (simp_all add: WhisperStream_Close_def close_fresh)
      from ev1(1) R o(2) have g: "grows w ((ev1 @ [OsRemove ?p]) @ [ChanClose]) w'"
        by (simp add: grows_def)
      from ev1(2) have l: "list_all is_file_event (ev1 @ [OsRemove ?p])" by simp
      from R o(2) have n: "fs w' ?p = None" by simp
      from o(3) have cc: "chan_closed (ws_results s')" by simp
      have "\<exists>e1. (ev1 @ [OsRemove ?p]) @ [ChanClose] = e1 @ [ChanClose] \<and> list_all is_file_event e1"
        using l by blast
      with True fsz n have d: "of_nat (44 + n) = (44::32 word)
          \<and> (\<exists>e1. (ev1 @ [OsRemove ?p]) @ [ChanClose] = e1 @ [ChanClose] \<and> list_all is_file_event e1)
          \<and> fs w' ?p = None"
        by simp
      show ?thesis
        by (rule exI [of _ "(ev1 @ [OsRemove ?p]) @ [ChanClose]"], rule conjI [OF g], rule disjI2,
            rule conjI [OF o(1)], rule conjI [OF cc], rule disjI1, rule d)
    next
      case False
      note not44 = False
      show ?thesis
      proof (cases "ws_transcribe s")
        case False
        let ?r = "\<lparr>Text = ''Recording saved (transcription disabled)'', Confidence = 1,
                  Final = True, AudioFile = ?p, TextFile = []\<rparr>"
        from cl nc fin Inr not44 False ch
        have o: "out = Return None" "w' = emit ChanClose (emit (ChanSend ?r) w1)"
          "s' = ?s2\<lparr>ws_results := \<lparr>chan_buf = [?r], chan_cap = 10, chan_closed = True\<rparr>\<rparr>"
          by (simp_all add: WhisperStream_Close_def push_close_fresh)
        from ev1(1) o(2) have g: "grows w (ev1 @ [ChanSend ?r, ChanClose]) w'"
          by (simp add: grows_def)
        from o(2) c have f: "fs w' = (fs w)(?p \<mapsto> patched (of_nat (44 + n)) c)"
          by (simp add: fsz)
        from o(3) have cc: "chan_closed (ws_results s')" by simp
        have "\<exists>e1. ev1 @ [ChanSend ?r, ChanClose] = e1 @ [ChanSend ?r, ChanClose]
                  \<and> list_all is_file_event e1"
          using ev1(2) by blast
        moreover have "\<exists>c. fs w ?p = Some c \<and> length c = 44 + n
                  \<and> fs w' = (fs w)(?p \<mapsto> patched (of_nat (44 + n)) c)"
          using c(1,2) f by blast
        ultimately have d: "of_nat (44 + n) \<noteq> (44::32 word) \<and> \<not> ws_transcribe s
          \<and> (\<exists>e1. ev1 @ [ChanSend ?r, ChanClose] = e1 @ [ChanSend ?r, ChanClose]
                  \<and> list_all is_file_event e1)
          \<and> (\<exists>c. fs w ?p = Some c \<and> length c = 44 + n
                  \<and> fs w' = (fs w)(?p \<mapsto> patched (of_nat (44 + n)) c))"
          using False not44 fsz by simp
        show ?thesis
          by (rule exI [of _ "ev1 @ [ChanSend ?r, ChanClose]"], rule conjI [OF g], rule disjI2,
              rule conjI [OF o(1)], rule conjI [OF cc], rule disjI2, rule disjI1, rule d)
      next
        case True
        obtain tr w2 where ta: "WhisperStream_transcribeAudio en ?s2 ?p w1 = (tr, w2)"
          by (metis prod.exhaust)
        from len have len2: "4 \<le> length ?p" .
        from transcribeAudio_events [OF ta len2]
        obtain ev2 tx tf er where t: "grows w1 ev2 w2" "tr = Return (tx, tf, er)"
            "list_all (\<lambda>e. is_file_event e \<or> is_exec e) ev2"
            "\<forall>prog args e. Exec prog args (Some e) \<in> set ev2 \<longrightarrow>
               (\<exists>output. er = Some (''whisper execution failed: '' @ e @ '', output: '' @ output))"
          by blast
        let ?r = "case er of
                     Some e \<Rightarrow> \<lparr>Text = ''Transcription error: '' @ e, Confidence = 0,
                                Final = True, AudioFile = ?p, TextFile = []\<rparr>
                   | None \<Rightarrow> \<lparr>Text = tx, Confidence = 9 / 10,
                              Final = True, AudioFile = ?p, TextFile = tf\<rparr>"
        let ?w3 = "emit (ChanSend ?r) w2"
        let ?w4 = "if \<not> wt_keepWav (ws_transcriber s) then snd (os_Remove ?p ?w3) else ?w3"
        have "\<exists>ev3. grows ?w3 ev3 ?w4 \<and> list_all is_file_event ev3"
        proof (cases "wt_keepWav (ws_transcriber s)")
          case True
          then show ?thesis by - (rule exI [of _ "[]"], simp)
        next
          case False
          obtain re w4 where rm: "os_Remove ?p ?w3 = (re, w4)" by (metis prod.exhaust)
          from os_Remove_step [OF rm] False rm show ?thesis
            by - (rule exI [of _ "[OsRemove ?p]"], simp)
        qed
        then obtain ev3 where ev3: "grows ?w3 ev3 ?w4" "list_all is_file_event ev3" by blast
        from cl nc fin Inr not44 True ta t(2) ch
        have o: "out = Return None" "w' = emit ChanClose ?w4"
          "chan_closed (ws_results s')"
          by (auto simp add: WhisperStream_Close_def Let_def and_then_def chan_send_def
                chan_close_def make_chan_def split: option.splits)
        from ev1(1) t(1) ev3(1) o(2)
        have g: "grows w (ev1 @ ev2 @ [ChanSend ?r] @ ev3 @ [ChanClose]) w'"
          by (simp add: grows_def)
        have "\<exists>e1 e2 e3 tx tf er.
                ev1 @ ev2 @ [ChanSend ?r] @ ev3 @ [ChanClose]
                  = e1 @ e2 @ [ChanSend (case er of
                     Some e \<Rightarrow> \<lparr>Text = ''Transcription error: '' @ e, Confidence = 0,
                                Final = True, AudioFile = ?p, TextFile = []\<rparr>
                   | None \<Rightarrow> \<lparr>Text = tx, Confidence = 9 / 10,
                              Final = True, AudioFile = ?p, TextFile = tf\<rparr>)]
                      @ e3 @ [ChanClose]
                \<and> list_all is_file_event e1
                \<and> list_all (\<lambda>e. is_file_event e \<or> is_exec e) e2
                \<and> list_all is_file_event e3
                \<and> (\<forall>prog args e. Exec prog args (Some e) \<in> set e2 \<longrightarrow>
                      (\<exists>output. er = Some (''whisper execution failed: '' @ e
                                            @ '', output: '' @ output)))"
          using ev1(2) t(3) t(4) ev3(2) by blast
        with True not44 fsz have d: "of_nat (44 + n) \<noteq> (44::32 word) \<and> ws_transcribe s \<and>
            (\<exists>e1 e2 e3 tx tf er.
                ev1 @ ev2 @ [ChanSend ?r] @ ev3 @ [ChanClose]
                  = e1 @ e2 @ [ChanSend (case er of
                     Some e \<Rightarrow> \<lparr>Text = ''Transcription error: '' @ e, Confidence = 0,
                                Final = True, AudioFile = ?p, TextFile = []\<rparr>
                   | None \<Rightarrow> \<lparr>Text = tx, Confidence = 9 / 10,
                              Final = True, AudioFile = ?p, TextFile = tf\<rparr>)]
                      @ e3 @ [ChanClose]
                \<and> list_all is_file_event e1
                \<and> list_all (\<lambda>e. is_file_event e \<or> is_exec e) e2
                \<and> list_all is_file_event e3
                \<and> (\<forall>prog args e. Exec prog args (Some e) \<in> set e2 \<longrightarrow>
                      (\<exists>output. er = Some (''whisper execution failed: '' @ e
                                            @ '', output: '' @ output))))"
          by simp
        show ?thesis
          by (rule exI [of _ "ev1 @ ev2 @ [ChanSend ?r] @ ev3 @ [ChanClose]"], rule conjI [OF g],
              rule disjI2, rule conjI [OF o(1)], rule conjI [OF o(3)], rule disjI2, rule disjI2,
              rule d)
      qed
    qed
  qed
qed

section \<open>Where nothing fails\<close>

lemma File_Write_quiet:
  assumes "at_end f p w" and "\<forall>k. \<not> io_fails en k"
  shows "\<exists>f' w'. File_Write en f bs w = ((length bs, None), f', w')"
  using assms
  by (auto simp: File_Write_def at_end_def fails_now_def Let_def split: option.splits)

lemma Stream_Write_quiet:
  assumes "batch_ready st w n" and "\<forall>k. \<not> io_fails en k"
  shows "snd (fst (Stream_Write en st b w)) = None"
proof (cases st)
  case (Recorder s)
  with assms(1) have "at_end (rs_file s) (rs_filePath s) w" "\<not> rs_isClosed s"
    by (simp_all add: wav_open_def)
  with File_Write_quiet [OF this(1) assms(2), of b] Recorder show ?thesis
    by (auto simp: RecorderStream_Write_def split: prod.splits)
next
  case (Whisper s)
  with assms(1) have "at_end (ws_file s) (ws_filePath s) w" "\<not> ws_isClosed s"
    by (simp_all add: wav_open_def)
  with File_Write_quiet [OF this(1) assms(2), of b] Whisper show ?thesis
    by (auto simp: WhisperStream_Write_def split: prod.splits)
qed (use assms(1) in simp_all)

lemma finalize_wav_quiet:
  assumes "wav_open f p w n" and "\<forall>k. \<not> io_fails en k"
      and "\<not> (of_nat (44 + n) :: 32 word) < 44"
  shows "\<exists>f' w'. finalize_wav en f p w = (Inr (of_nat (44 + n)), f', w')"
  using assms
  by (auto simp: finalize_wav_def wav_open_def at_end_def file_len_def fails_now_def Let_def
        File_Sync_def File_Stat_def File_Seek_def File_Write_def File_Close_def emit_def
      split: option.splits)


lemma WhisperStream_Close_quiet:
  assumes "batch_ready (Whisper s) w n" and "\<forall>k. \<not> io_fails en k"
      and "\<not> (of_nat (44 + n) :: 32 word) < 44"
      and "\<not> ws_transcribe s \<or> (of_nat (44 + n) :: 32 word) = 44"
  shows "fst (WhisperStream_Close en s w) = Return None"
proof -
  from assms(1) have nc: "\<not> ws_isClosed s" and ch: "ws_results s = make_chan 10"
    and wo: "wav_open (ws_file s) (ws_filePath s) w n"
    by simp_all
  from finalize_wav_quiet [OF wo assms(2,3)] obtain f' w'
    where "finalize_wav en (ws_file s) (ws_filePath s) w = (Inr (of_nat (44 + n)), f', w')"
    by blast
  with nc ch assms(4) show ?thesis
    by (auto simp add: WhisperStream_Close_def Let_def push_close_fresh close_fresh split: prod.splits)
qed

section \<open>A batch stream from its creation to its close\<close>

lemma Join_wav_length: "4 \<le> length (filepath_Join d (x @ ''.wav''))"
  by (simp add: filepath_Join_def)

lemma whisper_lifecycle:
  assumes "WhisperTranscriber_CreateStreamWithOptions en t opts w = (Inr ws, t', w0)"
      and "Stream_WriteAll en (Whisper ws) chunks w0 = (rets, st1, w1)"
  shows "\<exists>s1 evs. st1 = Whisper s1 \<and> batch_ready (Whisper s1) w1 (sum_list (map fst rets))
     \<and> ws_filePath s1 = ws_filePath ws \<and> ws_transcribe s1 = Transcribe opts
     \<and> 4 \<le> length (ws_filePath ws)
     \<and> grows w evs w1 \<and> list_all is_file_event evs
     \<and> ((\<forall>r\<in>set rets. snd r = None) \<longrightarrow> map fst rets = map length chunks)"
proof -
  note C = WhisperTranscriber_CreateStreamWithOptions_ready [OF assms(1)]
  note rdy0 = C [THEN conjunct1]
  note W = Stream_WriteAll_ready [OF rdy0 assms(2)]
  from W obtain s1 where s1: "st1 = Whisper s1" "ws_filePath s1 = ws_filePath ws"
      "ws_transcribe s1 = ws_transcribe ws"
    using forget_sink_Whisper by blast
  from W [THEN conjunct1] s1(1)
  have rdy1: "batch_ready (Whisper s1) w1 (sum_list (map fst rets))"
    by (simp del: batch_ready.simps)
  from C have len: "4 \<le> length (ws_filePath ws)"
    using Join_wav_length
    by (metis append.assoc)
  from C W obtain e0 e1 where "grows w e0 w0" "list_all is_file_event e0"
      "grows w0 e1 w1" "list_all is_file_event e1"
    by (auto simp: file_step_def)
  then have "grows w (e0 @ e1) w1" "list_all is_file_event (e0 @ e1)"
    by (simp_all add: grows_def)
  with s1 rdy1 len C W show ?thesis by blast
qed

lemma recorder_lifecycle:
  assumes "RecorderTranscriber_CreateStream en r w = (Inr rs, r', w0)"
      and "Stream_WriteAll en (Recorder rs) chunks w0 = (rets, st1, w1)"
  shows "\<exists>s1 evs. st1 = Recorder s1 \<and> batch_ready (Recorder s1) w1 (sum_list (map fst rets))
     \<and> rs_filePath s1 = rs_filePath rs \<and> rs_fileName s1 = rs_fileName rs
     \<and> grows w evs w1 \<and> list_all is_file_event evs
     \<and> ((\<forall>r\<in>set rets. snd r = None) \<longrightarrow> map fst rets = map length chunks)"
proof -
  note C = RecorderTranscriber_CreateStream_ready [OF assms(1)]
  note rdy0 = C [THEN conjunct1]
  note W = Stream_WriteAll_ready [OF rdy0 assms(2)]
  from W obtain s1 where s1: "st1 = Recorder s1" "rs_fileName s1 = rs_fileName rs"
      "rs_filePath s1 = rs_filePath rs"
    using forget_sink_Recorder by blast
  from W [THEN conjunct1] s1(1)
  have rdy1: "batch_ready (Recorder s1) w1 (sum_list (map fst rets))"
    by (simp del: batch_ready.simps)
  from C W obtain e0 e1 where "grows w e0 w0" "list_all is_file_event e0"
      "grows w0 e1 w1" "list_all is_file_event e1"
    by (auto simp: file_step_def)
  then have "grows w (e0 @ e1) w1" "list_all is_file_event (e0 @ e1)"
    by (simp_all add: grows_def)
  with s1 rdy1 W show ?thesis by blast
qed

lemma filter_file_exec_events:
  "list_all (\<lambda>e. is_file_event e \<or> is_exec e) evs \<Longrightarrow>
     filter is_chan_event evs = [] \<and> pushed evs = []"
proof (induction evs)
  case Nil then show ?case by simp
next
  case (Cons e evs) then show ?case by (cases e) auto
qed

lemma exec_not_file_event: "list_all is_file_event evs \<Longrightarrow> Exec prog args x \<notin> set evs"
  by (auto simp: list_all_iff)

section \<open>The claims on the batch backends\<close>

text \<open>
  Claim C5. A Whisper stream is created and written to. When the run of the recognizer
  that its \<^verbatim>\<open>Close\<close> makes exits with an error, \<^verbatim>\<open>Close\<close> returns nil, and the calls on
  the result channel since the stream was created are exactly one send followed by the
  close of the channel; the result sent carries the error message as its text, has
  confidence 0 and is final.
\<close>

theorem whisper_failure_is_a_result:
  assumes created: "WhisperTranscriber_CreateStreamWithOptions en t opts w = (Inr ws, t', w0)"
      and written: "Stream_WriteAll en (Whisper ws) chunks w0 = (rets, st1, w1)"
      and closed: "Stream_Close en st1 w1 = (out, st2, w2)"
      and failed: "Exec prog args (Some e) \<in> set (since w1 w2)"
  shows "out = Return None \<and> chan_closed (Stream_Results st2)
     \<and> (\<exists>output. filter is_chan_event (since w w2)
           = [ChanSend \<lparr>Text = ''Transcription error: whisper execution failed: '' @ e
                                 @ '', output: '' @ output,
                        Confidence = 0, Final = True,
                        AudioFile = ws_filePath ws, TextFile = []\<rparr>, ChanClose])"
proof -
  from whisper_lifecycle [OF created written]
  obtain s1 e1 where l: "st1 = Whisper s1" "batch_ready (Whisper s1) w1 (sum_list (map fst rets))"
      "ws_filePath s1 = ws_filePath ws" "4 \<le> length (ws_filePath ws)"
      "grows w e1 w1" "list_all is_file_event e1"
    by blast
  from closed l(1) obtain s2 where cl: "WhisperStream_Close en s1 w1 = (out, s2, w2)"
    and st2: "st2 = Whisper s2"
    by (auto split: prod.splits)
  from l(3,4) have len: "4 \<le> length (ws_filePath s1)" by simp
  from WhisperStream_Close_ready [OF l(2) cl len]
  obtain evs where g: "grows w1 evs w2" and
    cases: "(\<exists>e. out = Return (Some e)) \<and> list_all is_file_event evs \<and> fs w2 (ws_filePath s1) = None
    \<or> out = Return None \<and> chan_closed (ws_results s2) \<and>
       (of_nat (44 + sum_list (map fst rets)) = (44::32 word)
          \<and> (\<exists>ev1. evs = ev1 @ [ChanClose] \<and> list_all is_file_event ev1)
          \<and> fs w2 (ws_filePath s1) = None
      \<or> of_nat (44 + sum_list (map fst rets)) \<noteq> (44::32 word) \<and> \<not> ws_transcribe s1
          \<and> (\<exists>ev1. evs = ev1 @ [ChanSend \<lparr>Text = ''Recording saved (transcription disabled)'',
                                     Confidence = 1, Final = True,
                                     AudioFile = ws_filePath s1, TextFile = []\<rparr>, ChanClose]
                  \<and> list_all is_file_event ev1)
          \<and> (\<exists>c. fs w1 (ws_filePath s1) = Some c \<and> length c = 44 + sum_list (map fst rets)
                  \<and> fs w2 = (fs w1)(ws_filePath s1 \<mapsto>
                        patched (of_nat (44 + sum_list (map fst rets))) c))
      \<or> of_nat (44 + sum_list (map fst rets)) \<noteq> (44::32 word) \<and> ws_transcribe s1
          \<and> (\<exists>ev1 ev2 ev3 tx tf er.
                evs = ev1 @ ev2 @ [ChanSend (case er of
                     Some e \<Rightarrow> \<lparr>Text = ''Transcription error: '' @ e, Confidence = 0,
                                Final = True, AudioFile = ws_filePath s1, TextFile = []\<rparr>
                   | None \<Rightarrow> \<lparr>Text = tx, Confidence = 9 / 10,
                              Final = True, AudioFile = ws_filePath s1, TextFile = tf\<rparr>)]
                      @ ev3 @ [ChanClose]
                \<and> list_all is_file_event ev1
                \<and> list_all (\<lambda>e. is_file_event e \<or> is_exec e) ev2
                \<and> list_all is_file_event ev3
                \<and> (\<forall>prog args e. Exec prog args (Some e) \<in> set ev2 \<longrightarrow>
                      (\<exists>output. er = Some (''whisper execution failed: '' @ e
                                            @ '', output: '' @ output)))))"
    by blast
  from g failed have ex: "Exec prog args (Some e) \<in> set evs"
    by (simp add: grows_since)
  from cases show ?thesis
  proof (elim disjE conjE exE)
    fix e' assume "list_all is_file_event evs"
    with ex show ?thesis using exec_not_file_event by blast
  next
    fix ev1 assume "evs = ev1 @ [ChanClose]" "list_all is_file_event ev1"
    with ex show ?thesis using exec_not_file_event by auto
  next
    fix ev1 c
    assume "evs = ev1 @ [ChanSend \<lparr>Text = ''Recording saved (transcription disabled)'',
                                     Confidence = 1, Final = True,
                                     AudioFile = ws_filePath s1, TextFile = []\<rparr>, ChanClose]"
       "list_all is_file_event ev1"
    with ex show ?thesis using exec_not_file_event by auto
  next
    fix ev1 ev2 ev3 tx tf er
    assume o: "out = Return None" and cc: "chan_closed (ws_results s2)"
      and evs: "evs = ev1 @ ev2 @ [ChanSend (case er of
                     Some e \<Rightarrow> \<lparr>Text = ''Transcription error: '' @ e, Confidence = 0,
                                Final = True, AudioFile = ws_filePath s1, TextFile = []\<rparr>
                   | None \<Rightarrow> \<lparr>Text = tx, Confidence = 9 / 10,
                              Final = True, AudioFile = ws_filePath s1, TextFile = tf\<rparr>)]
                      @ ev3 @ [ChanClose]"
      and f1: "list_all is_file_event ev1"
      and f2: "list_all (\<lambda>e. is_file_event e \<or> is_exec e) ev2"
      and f3: "list_all is_file_event ev3"
      and er: "\<forall>prog args e. Exec prog args (Some e) \<in> set ev2 \<longrightarrow>
                      (\<exists>output. er = Some (''whisper execution failed: '' @ e
                                            @ '', output: '' @ output))"
    from ex evs f1 f3 have "Exec prog args (Some e) \<in> set ev2"
      using exec_not_file_event by auto
    with er obtain outp where er': "er = Some (''whisper execution failed: '' @ e
                                            @ '', output: '' @ outp)"
      by blast
    let ?r = "\<lparr>Text = ''Transcription error: whisper execution failed: '' @ e
                                 @ '', output: '' @ outp,
                        Confidence = 0, Final = True,
                        AudioFile = ws_filePath ws, TextFile = []\<rparr>"
    from l(5) g evs er' l(3)
    have s: "since w w2 = e1 @ ev1 @ ev2 @ [ChanSend ?r] @ ev3 @ [ChanClose]"
      by (simp add: grows_def since_def)
    from filter_file_events [OF l(6)] filter_file_events [OF f1] filter_file_events [OF f3]
      filter_file_exec_events [OF f2]
    have "filter is_chan_event (since w w2) = [ChanSend ?r, ChanClose]"
      unfolding s by simp
    with o cc st2 show ?thesis
      by (auto simp: WhisperStream_Results_def)
  qed
qed

theorem whisper_failure_is_a_result_witness:
  "fst failing_closed = Return None
   \<and> filter is_chan_event (since world0 (snd (snd failing_closed)))
       = [ChanSend \<lparr>Text = ''Transcription error: whisper execution failed: exit status 1, output: boom'',
                    Confidence = 0, Final = True,
                    AudioFile = ''out/whisper_audio_1_20250102_030405.wav'', TextFile = []\<rparr>,
          ChanClose]"
proof -
  have a: "\<not> isl (fst failing_created)"
    unfolding failing_created_def failing_env_def transcribing_def by code_simp
  have x: "Exec ''/usr/bin/whisper''
             [''--model'', ''small'', ''--output_dir'', ''out'', ''--output_format'', ''txt'',
              ''--task'', ''transcribe'', ''--temperature'', ''0.0'', ''--language'', ''en'',
              ''out/whisper_audio_1_20250102_030405.wav''] (Some ''exit status 1'')
           \<in> set (since (snd (snd failing_written)) (snd (snd failing_closed)))"
    unfolding failing_closed_def failing_written_def failing_created_def failing_env_def
      transcribing_def
    by code_simp
  from a have h1: "WhisperTranscriber_CreateStreamWithOptions failing_env whisper0 transcribing world0
      = (Inr (projr (fst failing_created)), fst (snd failing_created), snd (snd failing_created))"
    unfolding failing_created_def by (simp add: prod_eq_iff)
  have h2: "Stream_WriteAll failing_env (Whisper (projr (fst failing_created))) [[1, 2, 3, 4]]
        (snd (snd failing_created))
      = (fst failing_written, fst (snd failing_written), snd (snd failing_written))"
    unfolding failing_written_def by simp
  have h3: "Stream_Close failing_env (fst (snd failing_written)) (snd (snd failing_written))
      = (fst failing_closed, fst (snd failing_closed), snd (snd failing_closed))"
    unfolding failing_closed_def by simp
  from whisper_failure_is_a_result [OF h1 h2 h3 x]
  have o: "fst failing_closed = Return None"
    by blast
  have c: "filter is_chan_event (since world0 (snd (snd failing_closed)))
       = [ChanSend \<lparr>Text = ''Transcription error: whisper execution failed: exit status 1, output: boom'',
                    Confidence = 0, Final = True,
                    AudioFile = ''out/whisper_audio_1_20250102_030405.wav'', TextFile = []\<rparr>,
          ChanClose]"
    unfolding failing_closed_def failing_written_def failing_created_def failing_env_def
      transcribing_def
    by code_simp
  from o c show ?thesis by simp
qed

lemma quiet_no_faults: "\<forall>k. \<not> io_fails quiet_env k"
  by (simp add: quiet_env_def)

lemma pushed_chan_close: "list_all is_file_event ev \<Longrightarrow> pushed (ev @ [ChanClose]) = []"
  by (simp add: pushed_file_events)

text \<open>A Whisper stream whose \<^verbatim>\<open>uint32\<close> file size is 44 when it is closed.\<close>

lemma whisper_header_only:
  assumes created: "WhisperTranscriber_CreateStreamWithOptions en t opts w = (Inr ws, t', w0)"
      and written: "Stream_WriteAll en (Whisper ws) chunks w0 = (rets, st1, w1)"
      and hdr: "of_nat (44 + sum_list (map fst rets)) = (44::32 word)"
      and closed: "Stream_Close en st1 w1 = (out, st2, w2)"
  shows "(\<exists>e. out = Return e) \<and> filter is_exec (since w w2) = [] \<and> pushed (since w w2) = []
     \<and> fs w2 (ws_filePath ws) = None"
proof -
  from whisper_lifecycle [OF created written]
  obtain s1 e1 where l: "st1 = Whisper s1" "batch_ready (Whisper s1) w1 (sum_list (map fst rets))"
      "ws_filePath s1 = ws_filePath ws" "4 \<le> length (ws_filePath ws)"
      "grows w e1 w1" "list_all is_file_event e1"
    by blast
  from closed l(1) obtain s2 where cl: "WhisperStream_Close en s1 w1 = (out, s2, w2)"
    by (auto split: prod.splits)
  from l(3,4) have len: "4 \<le> length (ws_filePath s1)" by simp
  from WhisperStream_Close_ready [OF l(2) cl len] hdr l(3)
  obtain evs where g: "grows w1 evs w2" and
    cases: "(\<exists>e. out = Return (Some e)) \<and> list_all is_file_event evs \<and> fs w2 (ws_filePath ws) = None
      \<or> out = Return None
          \<and> (\<exists>ev1. evs = ev1 @ [ChanClose] \<and> list_all is_file_event ev1)
          \<and> fs w2 (ws_filePath ws) = None"
    by auto
  from l(5) g have s: "since w w2 = e1 @ evs"
    by (simp add: grows_def since_def)
  from cases show ?thesis
  proof (elim disjE conjE exE)
    fix e assume "out = Return (Some e)" "list_all is_file_event evs" "fs w2 (ws_filePath ws) = None"
    with l(6) show ?thesis
      unfolding s using filter_file_events [of "e1 @ evs"] pushed_file_events [of "e1 @ evs"]
      by simp
  next
    fix ev1 assume "out = Return None" "evs = ev1 @ [ChanClose]" "list_all is_file_event ev1"
      "fs w2 (ws_filePath ws) = None"
    with l(6) show ?thesis
      unfolding s using filter_file_events [of "e1 @ ev1"] pushed_file_events [of "e1 @ ev1"]
      by simp
  qed
qed

text \<open>
  Claim C4, amended. A Whisper stream is created and closed after writes that put no
  byte into the file. The \<^verbatim>\<open>Close\<close> returns; since the stream was created the
  recognizer was not run and no result was pushed; the file is gone from the file system.
\<close>

theorem whisper_empty_stream_discarded:
  assumes created: "WhisperTranscriber_CreateStreamWithOptions en t opts w = (Inr ws, t', w0)"
      and written: "Stream_WriteAll en (Whisper ws) chunks w0 = (rets, st1, w1)"
      and zero: "sum_list (map fst rets) = 0"
      and closed: "Stream_Close en st1 w1 = (out, st2, w2)"
  shows "(\<exists>e. out = Return e) \<and> filter is_exec (since w w2) = [] \<and> pushed (since w w2) = []
     \<and> fs w2 (ws_filePath ws) = None"
proof -
  have "of_nat (44 + sum_list (map fst rets)) = (44::32 word)"
    by (simp only: zero) simp
  from whisper_header_only [OF created written this closed] show ?thesis .
qed

lemma whisper_created_ok:
  "WhisperTranscriber_CreateStreamWithOptions quiet_env whisper0 record_only world0
      = (Inr (projr (fst whisper_created)), fst (snd whisper_created), snd (snd whisper_created))"
proof -
  have "\<not> isl (fst whisper_created)"
    unfolding whisper_created_def record_only_def by code_simp
  then show ?thesis
    unfolding whisper_created_def by (simp add: prod_eq_iff)
qed

lemma whisper_created_path:
  "ws_filePath (projr (fst whisper_created)) = ''out/whisper_audio_1_20250102_030405.wav''"
  unfolding whisper_created_def record_only_def by code_simp

theorem whisper_empty_stream_discarded_witness:
  "fst whisper_empty_closed = Return None
   \<and> pushed (since world0 (snd (snd whisper_empty_closed))) = []
   \<and> filter is_exec (since world0 (snd (snd whisper_empty_closed))) = []
   \<and> fs (snd (snd whisper_empty_closed)) ''out/whisper_audio_1_20250102_030405.wav'' = None"
proof -
  have h2: "Stream_WriteAll quiet_env (Whisper (projr (fst whisper_created))) []
        (snd (snd whisper_created))
      = (fst whisper_empty_written, fst (snd whisper_empty_written), snd (snd whisper_empty_written))"
    unfolding whisper_empty_written_def by simp
  have z: "sum_list (map fst (fst whisper_empty_written)) = 0"
    unfolding whisper_empty_written_def by simp
  have h3: "Stream_Close quiet_env (fst (snd whisper_empty_written)) (snd (snd whisper_empty_written))
      = (fst whisper_empty_closed, fst (snd whisper_empty_closed), snd (snd whisper_empty_closed))"
    unfolding whisper_empty_closed_def by simp
  have o: "fst whisper_empty_closed = Return None"
    unfolding whisper_empty_closed_def whisper_empty_written_def whisper_created_def record_only_def
    by code_simp
  from whisper_empty_stream_discarded [OF whisper_created_ok h2 z h3] o whisper_created_path
  show ?thesis by simp
qed

text \<open>
  Claim C4 as stated fails on the recorder backend: a recorder stream closed without a
  write keeps its header-only file of 44 bytes and pushes the result that names it.
\<close>

theorem recorder_keeps_header_only_file:
  "fst sample_closed_empty = Return None
   \<and> file_size (snd (snd sample_closed_empty)) ''rec/recording_20250102_030405_001.wav'' = Some 44
   \<and> pushed (trace (snd (snd sample_closed_empty)))
       = [\<lparr>Text = ''recording_20250102_030405_001.wav'', Confidence = 1, Final = True,
           AudioFile = [], TextFile = []\<rparr>]"
  unfolding sample_closed_empty_def sample_created_def file_size_def
  by code_simp

text \<open>
  Claim C6, amended. A Whisper stream is created with the transcribe flag off, the
  writes put at least one byte into the file, the file stays under \<open>2^32\<close> bytes and
  the first \<^verbatim>\<open>Close\<close> of the stream, made after these writes, returns nil. Then, since the stream was created, the recognizer was not run,
  the calls on the result channel are one send, of the record-only result that names
  the WAV file, followed by the close of the channel, and the file is on disk with all
  the bytes written.
\<close>

theorem whisper_record_only:
  assumes created: "WhisperTranscriber_CreateStreamWithOptions en t opts w = (Inr ws, t', w0)"
      and rec: "\<not> Transcribe opts"
      and written: "Stream_WriteAll en (Whisper ws) chunks w0 = (rets, st1, w1)"
      and nonempty: "0 < sum_list (map fst rets)"
      and small: "44 + sum_list (map fst rets) < 4294967296"
      and closed: "Stream_Close en st1 w1 = (Return None, st2, w2)"
  shows "filter is_exec (since w w2) = []
     \<and> filter is_chan_event (since w w2)
         = [ChanSend \<lparr>Text = ''Recording saved (transcription disabled)'', Confidence = 1,
                      Final = True, AudioFile = ws_filePath ws, TextFile = []\<rparr>, ChanClose]
     \<and> file_size w2 (ws_filePath ws) = Some (44 + sum_list (map fst rets))"
proof -
  let ?n = "sum_list (map fst rets)"
  let ?r = "\<lparr>Text = ''Recording saved (transcription disabled)'', Confidence = 1,
             Final = True, AudioFile = ws_filePath ws, TextFile = []\<rparr>"
  from whisper_lifecycle [OF created written]
  obtain s1 e1 where l: "st1 = Whisper s1" "batch_ready (Whisper s1) w1 ?n"
      "ws_filePath s1 = ws_filePath ws" "4 \<le> length (ws_filePath ws)"
      "grows w e1 w1" "list_all is_file_event e1" "ws_transcribe s1 = Transcribe opts"
    by blast
  from closed l(1) obtain s2 where cl: "WhisperStream_Close en s1 w1 = (Return None, s2, w2)"
    by (auto split: prod.splits)
  from l(3,4) have len: "4 \<le> length (ws_filePath s1)" by simp
  from nonempty have "?n \<noteq> 0" by (rule gr_implies_not0 [OF _, of 0] | blast intro: less_imp_neq [symmetric])
  with small_file_sizes(4) [OF small]
  have ne: "of_nat (44 + ?n) \<noteq> (44::32 word)" by blast
  from WhisperStream_Close_ready [OF l(2) cl len] ne l(3) l(7) rec
  obtain evs ev1 c where g: "grows w1 evs w2"
    and evs: "evs = ev1 @ [ChanSend ?r, ChanClose]" and f1: "list_all is_file_event ev1"
    and c: "fs w1 (ws_filePath ws) = Some c" "length c = 44 + ?n"
       "fs w2 = (fs w1)(ws_filePath ws \<mapsto> patched (of_nat (44 + ?n)) c)"
    by auto
  from l(5) g evs have s: "since w w2 = (e1 @ ev1) @ [ChanSend ?r, ChanClose]"
    by (simp add: grows_def since_def)
  from l(6) f1 have f: "list_all is_file_event (e1 @ ev1)" by simp
  from filter_file_events [OF f]
  have a: "filter is_exec (since w w2) = []"
    and b: "filter is_chan_event (since w w2) = [ChanSend ?r, ChanClose]"
    unfolding s by simp_all
  from c have "file_size w2 (ws_filePath ws) = Some (44 + ?n)"
    by (simp add: file_size_def patched_props(1))
  with a b show ?thesis by simp
qed

lemma whisper_written_ok:
  "Stream_WriteAll quiet_env (Whisper (projr (fst whisper_created))) [[1, 2], [3, 4]]
        (snd (snd whisper_created))
      = (fst whisper_written, fst (snd whisper_written), snd (snd whisper_written))"
  unfolding whisper_written_def by simp

theorem whisper_record_only_witness:
  "filter is_exec (since world0 (snd (snd whisper_closed))) = []
   \<and> filter is_chan_event (since world0 (snd (snd whisper_closed)))
       = [ChanSend \<lparr>Text = ''Recording saved (transcription disabled)'', Confidence = 1,
                    Final = True, AudioFile = ''out/whisper_audio_1_20250102_030405.wav'',
                    TextFile = []\<rparr>, ChanClose]
   \<and> file_size (snd (snd whisper_closed)) ''out/whisper_audio_1_20250102_030405.wav'' = Some 48"
proof -
  have r: "\<not> Transcribe record_only" by (simp add: record_only_def)
  have n: "sum_list (map fst (fst whisper_written)) = 4"
    unfolding whisper_written_def whisper_created_def record_only_def by code_simp
  have o: "fst whisper_closed = Return None"
    unfolding whisper_closed_def whisper_written_def whisper_created_def record_only_def
    by code_simp
  then have h3: "Stream_Close quiet_env (fst (snd whisper_written)) (snd (snd whisper_written))
      = (Return None, fst (snd whisper_closed), snd (snd whisper_closed))"
    unfolding whisper_closed_def by (simp add: prod_eq_iff)
  have ne: "0 < sum_list (map fst (fst whisper_written))" using n by simp
  have sm: "44 + sum_list (map fst (fst whisper_written)) < 4294967296" using n by simp
  from whisper_record_only [OF whisper_created_ok r whisper_written_ok ne sm h3]
    whisper_created_path n
  show ?thesis by simp
qed

text \<open>
  Claim C6 as stated fails where the \<^verbatim>\<open>uint32\<close> file size wraps: a record-only
  Whisper stream that received \<open>2^32\<close> bytes of audio has the file size 44 in \<^verbatim>\<open>Close\<close>,
  which takes the file for empty, removes it and pushes no result.
\<close>

theorem whisper_record_only_wraps:
  "map snd (fst whisper_big_written) = [None]
   \<and> sum_list (map fst (fst whisper_big_written)) = 4294967296
   \<and> fst whisper_big_closed = Return None
   \<and> pushed (since world0 (snd (snd whisper_big_closed))) = []
   \<and> fs (snd (snd whisper_big_closed)) ''out/whisper_audio_1_20250102_030405.wav'' = None"
proof -
  let ?ws = "projr (fst whisper_created)"
  let ?w0 = "snd (snd whisper_created)"
  note C = WhisperTranscriber_CreateStreamWithOptions_ready [OF whisper_created_ok]
  note rdy0 = C [THEN conjunct1]
  obtain k e s1 w1 where wr: "Stream_Write quiet_env (Whisper ?ws) big_chunk ?w0 = ((k, e), s1, w1)"
    by (metis prod.exhaust)
  from Stream_Write_quiet [OF rdy0 quiet_no_faults, of big_chunk] wr have e: "e = None" by simp
  from Stream_Write_ready [OF rdy0 wr] e have k: "k = 4294967296"
    by (simp add: big_chunk_def)
  from wr have bw: "whisper_big_written = ([(k, e)], s1, w1)"
    unfolding whisper_big_written_def by simp
  have h2: "Stream_WriteAll quiet_env (Whisper ?ws) [big_chunk] ?w0
      = (fst whisper_big_written, fst (snd whisper_big_written), snd (snd whisper_big_written))"
    unfolding whisper_big_written_def by simp
  have h3: "Stream_Close quiet_env (fst (snd whisper_big_written)) (snd (snd whisper_big_written))
      = (fst whisper_big_closed, fst (snd whisper_big_closed), snd (snd whisper_big_closed))"
    unfolding whisper_big_closed_def by simp
  have sum: "sum_list (map fst (fst whisper_big_written)) = 4294967296"
    and errs: "map snd (fst whisper_big_written) = [None]"
    unfolding bw using k e by simp_all
  have hdr: "of_nat (44 + sum_list (map fst (fst whisper_big_written))) = (44::32 word)"
    by (simp only: sum) simp
  note H = whisper_header_only [OF whisper_created_ok h2 hdr h3]
  from whisper_lifecycle [OF whisper_created_ok h2]
  obtain s1' where l: "fst (snd whisper_big_written) = Whisper s1'"
      "batch_ready (Whisper s1') (snd (snd whisper_big_written))
         (sum_list (map fst (fst whisper_big_written)))"
      "ws_transcribe s1' = Transcribe record_only"
    by blast
  have nl: "\<not> (of_nat (44 + sum_list (map fst (fst whisper_big_written))) :: 32 word) < 44"
    by (simp only: hdr less_irrefl not_False_eq_True)
  from l(3) have nt: "\<not> ws_transcribe s1' \<or>
      (of_nat (44 + sum_list (map fst (fst whisper_big_written))) :: 32 word) = 44"
    by (simp add: record_only_def)
  from WhisperStream_Close_quiet [OF l(2) quiet_no_faults nl nt] l(1)
  have o: "fst whisper_big_closed = Return None"
    unfolding whisper_big_closed_def by (auto split: prod.splits)
  from H o errs sum whisper_created_path show ?thesis by simp
qed

section \<open>The size fields of the finalized file\<close>





lemma sample_created_ok:
  "RecorderTranscriber_CreateStream quiet_env recorder0 world0
      = (Inr (projr (fst sample_created)), fst (snd sample_created), snd (snd sample_created))"
proof -
  have "\<not> isl (fst sample_created)"
    unfolding sample_created_def by code_simp
  then show ?thesis
    unfolding sample_created_def by (simp add: prod_eq_iff)
qed




section \<open>The end of a session\<close>

lemma Service_CreateStream_open:
  assumes "Service_CreateStream en svc w = (Inr st, svc', w')"
  shows "\<not> closed_flag st"
proof (cases svc)
  case (RecorderService r)
  obtain x r1 w1 where c: "RecorderTranscriber_CreateStream en r w = (x, r1, w1)"
    by (metis prod.exhaust)
  show ?thesis
  proof (cases x)
    case (Inl e)
    with assms RecorderService c show ?thesis by simp
  next
    case (Inr rs)
    with assms RecorderService c have "st = Recorder rs" by auto
    with RecorderTranscriber_CreateStream_ready [OF c [unfolded Inr]] show ?thesis by simp
  qed
next
  case (WhisperService t)
  obtain x t1 w1 where c: "WhisperTranscriber_CreateStreamWithOptions en t
        \<lparr>Language = wt_language t, Transcribe = True\<rparr> w = (x, t1, w1)"
    by (metis prod.exhaust)
  show ?thesis
  proof (cases x)
    case (Inl e)
    with assms WhisperService c show ?thesis
      by (simp add: WhisperTranscriber_CreateStream_def)
  next
    case (Inr ws)
    with assms WhisperService c have "st = Whisper ws"
      by (auto simp: WhisperTranscriber_CreateStream_def)
    with WhisperTranscriber_CreateStreamWithOptions_ready [OF c [unfolded Inr]]
    show ?thesis by simp
  qed
next
  case (IflyTekService t)
  obtain x w1 where c: "IflyTekTranscriber_CreateStream en t w = (x, w1)"
    by (metis prod.exhaust)
  with assms IflyTekService show ?thesis by (cases x) auto
next
  case (AzureService t)
  obtain x w1 where c: "AzureTranscriber_CreateStream en t w = (x, w1)"
    by (metis prod.exhaust)
  with assms AzureService show ?thesis by (cases x) auto
next
  case (BaiduService t)
  obtain x w1 where c: "BaiduTranscriber_CreateStream en t w = (x, w1)"
    by (metis prod.exhaust)
  with assms BaiduService show ?thesis by (cases x) auto
qed

lemma Stream_Write_flag:
  "Stream_Write en st b w = (r, st', w') \<Longrightarrow> closed_flag st' = closed_flag st"
  by (cases st)
     (auto simp: RecorderStream_Write_def WhisperStream_Write_def
           split: prod.splits if_splits option.splits)

lemma pump_loop_flag:
  "pump_loop en reads st w = (ret, st', w') \<Longrightarrow> closed_flag st' = closed_flag st"
proof (induction en reads st w rule: pump_loop.induct)
  case (4 en audioChunk rest trStream w)
  show ?case
  proof (cases "opus_decode en audioChunk")
    case (Inl e)
    with 4(2) show ?thesis by simp
  next
    case (Inr payload)
    obtain n e s1 w1 where wr: "Stream_Write en trStream payload w = ((n, e), s1, w1)"
      by (metis prod.exhaust)
    show ?thesis
    proof (cases e)
      case None
      with 4(2) Inr wr have "pump_loop en rest s1 w1 = (ret, st', w')" by simp
      from 4(1) [OF Inr wr [symmetric] refl None refl this] Stream_Write_flag [OF wr]
      show ?thesis by simp
    next
      case (Some x)
      with 4(2) Inr wr Stream_Write_flag [OF wr] show ?thesis by auto
    qed
  qed
qed auto

lemma and_then_push_close_closed:
  "and_then (chan_send c r w) (\<lambda>c2 w2. and_then (chan_close c2 (g w2)) (\<lambda>c3 w3. (Return x, c3, w3)))
     = (Return y, c', w') \<Longrightarrow> chan_closed c'"
  by (auto simp: and_then_def chan_send_def chan_close_def Let_def split: if_splits)

lemma RecorderStream_Close_closes_chan:
  assumes "\<not> rs_isClosed s" and "RecorderStream_Close en s w = (Return None, s', w')"
  shows "chan_closed (rs_results s')"
proof -
  obtain r f1 w1 where fin: "finalize_wav en (rs_file s) (rs_filePath s) w = (r, f1, w1)"
    by (metis prod.exhaust)
  show ?thesis
  proof (cases r)
    case (Inl e)
    with assms fin show ?thesis by (simp add: RecorderStream_Close_def)
  next
    case (Inr fsz)
    with assms fin show ?thesis
      by (auto simp: RecorderStream_Close_def split: prod.splits
               dest: and_then_push_close_closed [where g = "\<lambda>w. w"])
  qed
qed

lemma WhisperStream_Close_closes_chan:
  assumes "\<not> ws_isClosed s" and "WhisperStream_Close en s w = (Return None, s', w')"
  shows "chan_closed (ws_results s')"
proof -
  obtain r f1 w1 where fin: "finalize_wav en (ws_file s) (ws_filePath s) w = (r, f1, w1)"
    by (metis prod.exhaust)
  show ?thesis
  proof (cases r)
    case (Inl e)
    with assms fin show ?thesis by (simp add: WhisperStream_Close_def)
  next
    case (Inr fsz)
    with assms fin show ?thesis
      by (auto simp: WhisperStream_Close_def Let_def
               split: prod.splits if_splits outcome.splits
               dest: and_then_push_close_closed [where g = "\<lambda>w. w"]
                     and_then_push_close_closed and_then_close_closed)
  qed
qed

lemma Stream_Close_closes_chan:
  assumes "\<not> closed_flag st" and "Stream_Close en st w = (Return None, st', w')"
  shows "chan_closed (Stream_Results st')"
proof (cases st)
  case (Recorder s)
  with assms show ?thesis
    by (auto simp: RecorderStream_Results_def split: prod.splits
             dest: RecorderStream_Close_closes_chan)
next
  case (Whisper s)
  with assms show ?thesis
    by (auto simp: WhisperStream_Results_def split: prod.splits
             dest: WhisperStream_Close_closes_chan)
next
  case (IflyTek s)
  with assms show ?thesis
    by (auto simp: IflyTekStream_Results_def IflyTekStream_Close_def split: prod.splits
             dest: and_then_close_closed)
next
  case (Azure s)
  with assms show ?thesis
    by (auto simp: AzureStream_Results_def split: prod.splits dest: AzureStream_Close_closes)
next
  case (Baidu s)
  with assms show ?thesis
    by (auto simp: BaiduStream_Results_def split: prod.splits dest: BaiduStream_Close_closes)
qed

lemma relay_grows:
  "grows w (map DcSend (List.map_filter (json_Marshal en) results)) (relay en results w)"
proof (induction results arbitrary: w)
  case Nil
  show ?case by (simp add: List.map_filter_simps)
next
  case (Cons r results)
  show ?case
  proof (cases "json_Marshal en r")
    case None
    with Cons [of w] show ?thesis by (simp add: List.map_filter_simps)
  next
    case (Some msg)
    with Cons [of "emit (DcSend msg) w"] show ?thesis
      by (simp add: List.map_filter_simps grows_def)
  qed
qed

text \<open>
  Claim C7, amended. A session whose stream was created runs the pump loop, which ends
  for whatever reason, and then calls \<^verbatim>\<open>Close\<close> on the stream; the session returns
  what the loop returned. When that \<^verbatim>\<open>Close\<close> returns nil, the result channel is
  closed and the calls of the session after the \<^verbatim>\<open>Close\<close> are: one send on the data
  channel for every result in the channel that marshals, in the order of the channel,
  and then the close of the data channel. When that \<^verbatim>\<open>Close\<close> returns an error, the
  session makes no call after it: nothing is relayed and the data channel is not closed.
\<close>

theorem session_closes_then_drains:
  assumes trans: "pi_transcriber rtc = Some svc" and dec: "new_decoder en = None"
      and created: "Service_CreateStream en svc w = (Inr st0, svc', w0)"
      and loop: "pump_loop en reads st0 w0 = (ret, st1, w1)"
      and close: "Stream_Close en st1 w1 = (Return cerr, st2, w2)"
  shows "\<exists>w3. handleAudioTrack en rtc (Some reads) (Some ()) w = (Return ret, Some st2, w3)
     \<and> (case cerr of
           None \<Rightarrow>
             chan_closed (Stream_Results st2)
             \<and> grows w2 (map DcSend (List.map_filter (json_Marshal en)
                                      (chan_buf (Stream_Results st2))) @ [DcClose]) w3
         | Some err \<Rightarrow> w3 = w2)"
proof (cases cerr)
  case (Some err)
  with close have "close_and_drain en st1 w1 = (Return (), st2, w2)"
    by (simp add: close_and_drain_def)
  with trans dec created loop
  have "handleAudioTrack en rtc (Some reads) (Some ()) w = (Return ret, Some st2, w2)"
    by (simp add: handleAudioTrack_def)
  with Some show ?thesis by simp
next
  case None
  from Service_CreateStream_open [OF created] pump_loop_flag [OF loop]
  have "\<not> closed_flag st1" by simp
  from Stream_Close_closes_chan [OF this close [unfolded None]]
  have cc: "chan_closed (Stream_Results st2)" .
  let ?w3 = "emit DcClose (relay en (chan_buf (Stream_Results st2)) w2)"
  from cc close None have cd: "close_and_drain en st1 w1 = (Return (), st2, ?w3)"
    by (simp add: close_and_drain_def Let_def)
  from trans dec created loop cd
  have h: "handleAudioTrack en rtc (Some reads) (Some ()) w = (Return ret, Some st2, ?w3)"
    by (simp add: handleAudioTrack_def)
  from relay_grows [of w2 en "chan_buf (Stream_Results st2)"]
  have "grows w2 (map DcSend (List.map_filter (json_Marshal en) (chan_buf (Stream_Results st2)))
                  @ [DcClose]) ?w3"
    by (simp add: grows_def)
  with h cc None show ?thesis by simp
qed

theorem session_closes_then_drains_witness:
  "fst session_azure = Return None
   \<and> filter is_dc_event (trace (snd (snd session_azure)))
       = [DcSend ''hello'', DcSend ''world'', DcSend ''again'', DcClose]"
proof -
  have t: "pi_transcriber azure_rtc = Some (AzureService azure0)"
    by (simp add: azure_rtc_def)
  have d: "new_decoder azure_env = None" by (simp add: azure_env_def quiet_env_def)
  have "\<not> isl (fst azure_created)"
    unfolding azure_created_def by code_simp
  then have h1: "Service_CreateStream azure_env (AzureService azure0) world0
      = (Inr (projr (fst azure_created)), fst (snd azure_created), snd (snd azure_created))"
    unfolding azure_created_def by (simp add: prod_eq_iff)
  have r: "fst azure_looped = None"
    unfolding azure_looped_def azure_created_def by code_simp
  then have h2: "pump_loop azure_env azure_reads (projr (fst azure_created)) (snd (snd azure_created))
      = (None, fst (snd azure_looped), snd (snd azure_looped))"
    unfolding azure_looped_def by (simp add: prod_eq_iff)
  have "fst azure_closed = Return None"
    unfolding azure_closed_def azure_looped_def azure_created_def by code_simp
  then have h3: "Stream_Close azure_env (fst (snd azure_looped)) (snd (snd azure_looped))
      = (Return None, fst (snd azure_closed), snd (snd azure_closed))"
    unfolding azure_closed_def by (simp add: prod_eq_iff)
  from session_closes_then_drains [OF t d h1 h2 h3]
  have "fst (handleAudioTrack azure_env azure_rtc (Some azure_reads) (Some ()) world0)
      = Return None"
    by auto
  then have a: "fst session_azure = Return None"
    by (simp add: session_azure_def)
  have b: "filter is_dc_event (trace (snd (snd session_azure)))
       = [DcSend ''hello'', DcSend ''world'', DcSend ''again'', DcClose]"
    unfolding session_azure_def by code_simp
  from a b show ?thesis by simp
qed

section \<open>The options of a Whisper stream\<close>

lemma WhisperTranscriber_options_override:
  assumes "WhisperTranscriber_CreateStreamWithOptions en t opts w = (Inr ws, t', w0)"
  shows "ws_transcribe ws = Transcribe opts
     \<and> ws_language ws = (if Language opts = [] then wt_language t else Language opts)"
  using WhisperTranscriber_CreateStreamWithOptions_ready [OF assms] by simp

lemma WhisperTranscriber_CreateStream_defaults:
  "WhisperTranscriber_CreateStream en t w
     = WhisperTranscriber_CreateStreamWithOptions en t
         \<lparr>Language = wt_language t, Transcribe = True\<rparr> w"
  by (simp add: WhisperTranscriber_CreateStream_def)

section \<open>Writing to a closed stream\<close>

lemma IflyTekStream_Close_closes:
  assumes "IflyTekStream_Close en st w = (Return e, st', w')"
  shows "chan_closed (st_results st') \<and> conn_closed (st_conn st')"
  using assms
  by (auto simp: IflyTekStream_Close_def ws_Close_def Let_def
           split: prod.splits if_splits dest: and_then_close_closed)

lemma ws_WriteMessage_closed:
  "conn_closed c \<Longrightarrow>
     ws_WriteMessage en c m w = (Some ''use of closed network connection'', c, emit (WsWrite m) w)"
  by (simp add: ws_WriteMessage_def Let_def)

lemma since_emit: "since w (emit e w) = [e]"
  by (simp add: since_def emit_def)

lemma since_same: "since w w = []"
  by (simp add: since_def)

lemma IflyTekStream_Write_closed:
  assumes "conn_closed (st_conn s)"
  shows "IflyTekStream_Write en s b w
     = ((0, Some ''failed to send audio data: use of closed network connection''), s,
        emit (WsWrite (XunfeiFrame 1 b)) w)"
  using assms by (simp add: IflyTekStream_Write_def ws_WriteMessage_closed)

lemma AzureStream_Write_closed:
  assumes "conn_closed (as_conn s)"
  shows "\<exists>s'. AzureStream_Write en s b w
     = ((0, Some ''failed to send audio data: use of closed network connection''), s',
        emit (WsWrite (AzureAudio b)) w) \<and> as_conn s' = as_conn s"
proof -
  obtain s0 w0 where l: "AzureStream_listenForResults (azure_inbox en (length (trace w))) s w = (s0, w0)"
    by (metis prod.exhaust)
  from AzureStream_listenForResults_closed_conn [OF assms l]
  have k: "w0 = w" "as_conn s0 = as_conn s" by simp_all
  with assms l show ?thesis
    by (simp add: AzureStream_Write_def ws_WriteMessage_closed)
qed

lemma BaiduStream_Write_closed:
  assumes "conn_closed (bs_conn s)"
  shows "\<exists>s'. BaiduStream_Write en s b w
     = ((0, Some ''failed to send audio data: use of closed network connection''), s',
        emit (WsWrite (BaiduAudio b)) w) \<and> bs_conn s' = bs_conn s"
proof -
  obtain s0 w0 where l: "BaiduStream_listenForResults (baidu_inbox en (length (trace w))) s w = (s0, w0)"
    by (metis prod.exhaust)
  from BaiduStream_listenForResults_closed_conn [OF assms l]
  have k: "w0 = w" "bs_conn s0 = bs_conn s" by simp_all
  with assms l show ?thesis
    by (simp add: BaiduStream_Write_def ws_WriteMessage_closed)
qed

text \<open>
  Claim C2. Whatever the backend of a stream and whatever its state, once \<^verbatim>\<open>Close\<close> has
  returned, with or without an error, a \<^verbatim>\<open>Write\<close> of any buffer, at any later moment,
  writes nothing and returns an error that says the stream or its connection is closed:
  on the batch backends the stream's own \<^verbatim>\<open>stream is closed\<close>, on the WebSocket
  backends the failure of the send on the closed connection. No file changes, no call
  is made on a file, and the messages sent on the socket stay as they were.
\<close>

theorem write_after_close_is_refused:
  assumes closed: "Stream_Close en st w = (Return r, st1, w1)"
  shows "\<exists>e st2 w3. Stream_Write en2 st1 b w2 = ((0, Some e), st2, w3)
     \<and> (e = ''stream is closed''
          \<or> e = ''failed to send audio data: use of closed network connection'')
     \<and> fs w3 = fs w2
     \<and> filter is_file_event (since w2 w3) = []
     \<and> socket_sent st2 = socket_sent st1"
proof (cases st)
  case (Recorder s)
  with closed obtain s1 where c: "RecorderStream_Close en s w = (Return r, s1, w1)"
    and st1: "st1 = Recorder s1"
    by (auto split: prod.splits)
  from RecorderStream_Write_after_Close [OF c, of en2 b w2] st1 show ?thesis
    by (simp add: since_same)
next
  case (Whisper s)
  with closed obtain s1 where c: "WhisperStream_Close en s w = (Return r, s1, w1)"
    and st1: "st1 = Whisper s1"
    by (auto split: prod.splits)
  from WhisperStream_Write_after_Close [OF c, of en2 b w2] st1 show ?thesis
    by (simp add: since_same)
next
  case (IflyTek s)
  with closed obtain s1 where c: "IflyTekStream_Close en s w = (Return r, s1, w1)"
    and st1: "st1 = IflyTek s1"
    by (auto split: prod.splits)
  from IflyTekStream_Close_closes [OF c] have "conn_closed (st_conn s1)" ..
  from IflyTekStream_Write_closed [OF this, of en2 b w2] st1 show ?thesis
    by (simp add: since_emit)
next
  case (Azure s)
  with closed obtain s1 where c: "AzureStream_Close en s w = (Return r, s1, w1)"
    and st1: "st1 = Azure s1"
    by (auto split: prod.splits)
  from AzureStream_Close_closes [OF c] have "conn_closed (as_conn s1)" ..
  from AzureStream_Write_closed [OF this, of en2 b w2] st1 show ?thesis
    by (auto simp: since_emit)
next
  case (Baidu s)
  with closed obtain s1 where c: "BaiduStream_Close en s w = (Return r, s1, w1)"
    and st1: "st1 = Baidu s1"
    by (auto split: prod.splits)
  from BaiduStream_Close_closes [OF c] have "conn_closed (bs_conn s1)" ..
  from BaiduStream_Write_closed [OF this, of en2 b w2] st1 show ?thesis
    by (auto simp: since_emit)
qed

theorem write_after_close_is_refused_witness:
  "fst azure_closed = Return None
   \<and> fst azure_written_after
       = (0, Some ''failed to send audio data: use of closed network connection'')
   \<and> socket_sent (fst (snd azure_written_after))
       = [AzureSpeechConfig, AzureAudio [1, 2], AzureAudio [3, 4], AudioEnd]
   \<and> fs (snd (snd azure_written_after)) = fs (snd (snd azure_closed))"
proof -
  have a: "fst azure_closed = Return None"
    unfolding azure_closed_def azure_looped_def azure_created_def by code_simp
  then have h: "Stream_Close azure_env (fst (snd azure_looped)) (snd (snd azure_looped))
      = (Return None, fst (snd azure_closed), snd (snd azure_closed))"
    unfolding azure_closed_def by (simp add: prod_eq_iff)
  from write_after_close_is_refused [OF h, of azure_env "[9]" "snd (snd azure_closed)"]
  have f: "fs (snd (snd azure_written_after)) = fs (snd (snd azure_closed))"
    and s: "socket_sent (fst (snd azure_written_after)) = socket_sent (fst (snd azure_closed))"
    unfolding azure_written_after_def by auto
  have b: "fst azure_written_after
       = (0, Some ''failed to send audio data: use of closed network connection'')"
    unfolding azure_written_after_def azure_closed_def azure_looped_def azure_created_def
    by code_simp
  have c: "socket_sent (fst (snd azure_closed))
       = [AzureSpeechConfig, AzureAudio [1, 2], AzureAudio [3, 4], AudioEnd]"
    unfolding azure_closed_def azure_looped_def azure_created_def by code_simp
  from a b c f s show ?thesis by simp
qed

section \<open>The first close of a recorder stream and the closes after it\<close>

lemma finalize_wav_file_step:
  assumes "finalize_wav en f p w = (r, f', w')"
  shows "file_step w w'"
  using assms
  unfolding finalize_wav_def
  apply (simp add: Let_def split: prod.splits sum.splits option.splits if_splits)
  apply (elim disjE conjE exE)
  apply (auto simp: grows_def file_step_def
      dest!: File_Sync_step File_Stat_step File_Seek_step File_Write_step File_Close_step
            close_and_remove_step os_Remove_step)
  done

lemma and_then_push_close_events:
  "and_then (chan_send c r w)
      (\<lambda>c2 w2. and_then (chan_close c2 w2) (\<lambda>c3 w3. (Return x, c3, w3))) = (Return y, c', w')
   \<Longrightarrow> w' = emit ChanClose (emit (ChanSend r) w) \<and> chan_closed c'
       \<and> chan_buf c' = chan_buf c @ [r]"
  by (auto simp: and_then_def chan_send_def chan_close_def Let_def split: if_splits)

text \<open>
  Where nothing fails, finalizing a file whose \<^verbatim>\<open>uint32\<close> size is below 44 removes the
  file and returns the error that says so.
\<close>

lemma finalize_wav_quiet_small:
  assumes "wav_open f p w n" and "\<forall>k. \<not> io_fails en k"
      and "(of_nat (44 + n) :: 32 word) < 44"
  shows "\<exists>f' w'. finalize_wav en f p w
     = (Inl (''file too small for WAV header: ''
               @ itoa (unat (of_nat (44 + n) :: 32 word)) @ '' bytes''), f', w')"
  using assms
  by (auto simp: finalize_wav_def wav_open_def at_end_def file_len_def fails_now_def Let_def
        File_Sync_def File_Stat_def close_and_remove_def File_Close_def os_Remove_def emit_def
      split: option.splits prod.splits)

lemma RecorderStream_Close_quiet_small:
  assumes rdy: "batch_ready (Recorder s) w n" and q: "\<forall>k. \<not> io_fails en k"
      and small: "(of_nat (44 + n) :: 32 word) < 44"
      and cl: "RecorderStream_Close en s w = (out, s', w')"
  shows "out = Return (Some (''file too small for WAV header: ''
               @ itoa (unat (of_nat (44 + n) :: 32 word)) @ '' bytes''))
     \<and> rs_results s' = rs_results s \<and> file_step w w'"
proof -
  from rdy have nc: "\<not> rs_isClosed s" and wo: "wav_open (rs_file s) (rs_filePath s) w n"
    by simp_all
  from finalize_wav_quiet_small [OF wo q small] obtain f1 w1
    where fin: "finalize_wav en (rs_file s) (rs_filePath s) w
       = (Inl (''file too small for WAV header: ''
               @ itoa (unat (of_nat (44 + n) :: 32 word)) @ '' bytes''), f1, w1)"
    by blast
  from finalize_wav_file_step [OF fin] have "file_step w w1" .
  with nc fin cl show ?thesis
    by (auto simp: RecorderStream_Close_def)
qed

text \<open>
  Claim C10 as stated fails at a \<^verbatim>\<open>Close\<close> that is not the first. A recorder stream
  receives \<open>2^32 - 44\<close> bytes of audio in one write, without error. Its file then has
  \<open>2^32\<close> bytes, which is 0 as a \<^verbatim>\<open>uint32\<close>: the first \<^verbatim>\<open>Close\<close> takes the file for too
  small, removes it and returns that error. The second \<^verbatim>\<open>Close\<close> returns nil. No
  result was ever sent on the result channel, and the channel is still open.
\<close>

theorem recorder_second_close_pushes_nothing:
  "map snd (fst wrapped_written) = [None]
   \<and> fst wrapped_closed = Return (Some ''file too small for WAV header: 0 bytes'')
   \<and> fst wrapped_closed_again = Return None
   \<and> filter is_chan_event (since world0 (snd (snd wrapped_closed_again))) = []
   \<and> \<not> chan_closed (Stream_Results (fst (snd wrapped_closed_again)))"
proof -
  let ?rs = "projr (fst sample_created)"
  let ?w0 = "snd (snd sample_created)"
  have h2: "Stream_WriteAll quiet_env (Recorder ?rs) [short_chunk] ?w0
      = (fst wrapped_written, fst (snd wrapped_written), snd (snd wrapped_written))"
    unfolding wrapped_written_def by simp
  note C = RecorderTranscriber_CreateStream_ready [OF sample_created_ok]
  note rdy0 = C [THEN conjunct1]
  obtain k e s1 w1 where wr: "Stream_Write quiet_env (Recorder ?rs) short_chunk ?w0 = ((k, e), s1, w1)"
    by (metis prod.exhaust)
  from Stream_Write_quiet [OF rdy0 quiet_no_faults, of short_chunk] wr have e: "e = None" by simp
  note SW = Stream_Write_ready [OF rdy0 wr]
  from SW e have k: "k = 4294967252"
    by (simp add: short_chunk_def del: batch_ready.simps)
  from wr have bw: "wrapped_written = ([(k, e)], s1, w1)"
    unfolding wrapped_written_def by simp
  from recorder_lifecycle [OF sample_created_ok h2]
  obtain s1' evs where l: "fst (snd wrapped_written) = Recorder s1'"
      "batch_ready (Recorder s1') (snd (snd wrapped_written))
         (sum_list (map fst (fst wrapped_written)))"
      "grows world0 evs (snd (snd wrapped_written))" "list_all is_file_event evs"
    by blast
  from l(1) have s1: "s1 = Recorder s1'" unfolding bw by simp
  from l(2) k have rdy: "batch_ready (Recorder s1') w1 4294967252"
    unfolding bw by (simp del: batch_ready.simps)
  from l(3) have g1: "grows world0 evs w1"
    unfolding bw by simp
  note g1b = l(4)
  obtain out s2 w2 where cl: "RecorderStream_Close quiet_env s1' w1 = (out, s2, w2)"
    by (metis prod.exhaust)
  have zero: "(of_nat (44 + 4294967252) :: 32 word) = 0" by simp
  have small: "(of_nat (44 + 4294967252) :: 32 word) < 44"
    by (simp only: zero) simp
  have itoa0: "itoa (unat (of_nat (44 + 4294967252) :: 32 word)) = ''0''"
    by (simp only: zero) (subst itoa.simps, simp add: digit_char_def)
  note Q = RecorderStream_Close_quiet_small [OF rdy quiet_no_faults small cl]
  from Q itoa0 have o: "out = Return (Some ''file too small for WAV header: 0 bytes'')"
    by simp
  from Q rdy have ch: "rs_results s2 = make_chan 1" by simp
  from Q obtain ev2 where g2: "grows w1 ev2 w2" "list_all is_file_event ev2"
    by (auto simp: file_step_def)
  have wc: "wrapped_closed = (out, Recorder s2, w2)"
    unfolding wrapped_closed_def bw s1 using cl by simp
  from RecorderStream_Close_again [OF cl, of quiet_env w2]
  have wa: "wrapped_closed_again = (Return None, Recorder s2, w2)"
    unfolding wrapped_closed_again_def wc by simp
  from g1 g2 have "since world0 w2 = evs @ ev2"
    by (simp add: grows_def since_def world0_def)
  with g1b g2 have "filter is_chan_event (since world0 w2) = []"
    using filter_file_events [of "evs @ ev2"] by simp
  moreover have "map snd (fst wrapped_written) = [None]"
    unfolding bw using e by simp
  ultimately show ?thesis
    unfolding wa wc using o ch
    by (simp add: RecorderStream_Results_def make_chan_def)
qed

text \<open>
  Claim C10, amended. A recorder stream, in whatever state, that was not closed before:
  when its \<^verbatim>\<open>Close\<close> returns nil, the calls this \<^verbatim>\<open>Close\<close> made on the result channel
  are exactly one send followed by the close of the channel, the channel is closed, and
  the result sent has the stream's \<^verbatim>\<open>fileName\<close> as its text, confidence 1, final true
  and empty \<^verbatim>\<open>AudioFile\<close> and \<^verbatim>\<open>TextFile\<close>. The \<^verbatim>\<open>fileName\<close> of a stream is the base
  name of the path of its WAV file: \<^verbatim>\<open>CreateStream\<close> makes the path from it and no
  method changes either (lemma \<open>created_recorder_pushes_base_name\<close>).
\<close>

theorem recorder_first_close_pushes_one_result:
  assumes "open": "\<not> rs_isClosed s"
      and closed: "RecorderStream_Close en s w = (Return None, s', w')"
  shows "filter is_chan_event (since w w')
           = [ChanSend \<lparr>Text = rs_fileName s, Confidence = 1, Final = True,
                        AudioFile = [], TextFile = []\<rparr>, ChanClose]
         \<and> chan_closed (rs_results s')
         \<and> rs_fileName s' = rs_fileName s \<and> rs_filePath s' = rs_filePath s"
proof -
  let ?r = "\<lparr>Text = rs_fileName s, Confidence = 1, Final = True, AudioFile = [], TextFile = []\<rparr>"
  obtain x f1 w1 where fin: "finalize_wav en (rs_file s) (rs_filePath s) w = (x, f1, w1)"
    by (metis prod.exhaust)
  from finalize_wav_file_step [OF fin] obtain evs
    where g: "grows w evs w1" "list_all is_file_event evs"
    by (auto simp: file_step_def)
  show ?thesis
  proof (cases x)
    case (Inl e)
    with "open" fin closed show ?thesis by (simp add: RecorderStream_Close_def)
  next
    case (Inr fsz)
    obtain out c w4 where p: "and_then (chan_send (rs_results s) ?r w1)
        (\<lambda>c2 w2. and_then (chan_close c2 w2) (\<lambda>c3 w3. (Return (None :: string option), c3, w3)))
          = (out, c, w4)"
      by (metis prod.exhaust)
    from closed "open" fin Inr
    have "(out, s\<lparr>rs_isClosed := True, rs_file := f1, rs_results := c\<rparr>, w4)
        = (Return None, s', w')"
      by (simp add: RecorderStream_Close_def p)
    then have o: "out = Return None"
      and s': "s' = s\<lparr>rs_isClosed := True, rs_file := f1, rs_results := c\<rparr>"
      and w': "w' = w4"
      by simp_all
    from and_then_push_close_events [OF p [unfolded o]]
    have "w4 = emit ChanClose (emit (ChanSend ?r) w1)" and cc: "chan_closed c"
      by simp_all
    with g w' have "since w w' = evs @ [ChanSend ?r, ChanClose]"
      by (simp add: grows_def since_def)
    with g show ?thesis
      using filter_file_events [of evs] cc s' by simp
  qed
qed

theorem recorder_first_close_pushes_one_result_witness:
  "fst sample_closed = Return None
   \<and> filter is_chan_event (since (snd (snd sample_written)) (snd (snd sample_closed)))
       = [ChanSend \<lparr>Text = ''recording_20250102_030405_001.wav'', Confidence = 1, Final = True,
                    AudioFile = [], TextFile = []\<rparr>, ChanClose]"
proof -
  have h2: "Stream_WriteAll quiet_env (Recorder (projr (fst sample_created))) [[1, 2], [3, 4]]
        (snd (snd sample_created))
      = (fst sample_written, fst (snd sample_written), snd (snd sample_written))"
    unfolding sample_written_def by simp
  from recorder_lifecycle [OF sample_created_ok h2]
  obtain s1 where s1: "fst (snd sample_written) = Recorder s1"
      and rdy: "batch_ready (Recorder s1) (snd (snd sample_written))
                  (sum_list (map fst (fst sample_written)))"
      and nm: "rs_fileName s1 = rs_fileName (projr (fst sample_created))"
    by blast
  from rdy have op: "\<not> rs_isClosed s1" by simp
  have n: "rs_fileName (projr (fst sample_created)) = ''recording_20250102_030405_001.wav''"
    unfolding sample_created_def by code_simp
  have a: "fst sample_closed = Return None"
    unfolding sample_closed_def sample_written_def sample_created_def by code_simp
  obtain out s2 w2 where cl: "RecorderStream_Close quiet_env s1 (snd (snd sample_written)) = (out, s2, w2)"
    by (metis prod.exhaust)
  then have sc: "sample_closed = (out, Recorder s2, w2)"
    unfolding sample_closed_def s1 by simp
  from a [unfolded sc] have o: "out = Return None" by simp
  from recorder_first_close_pushes_one_result [OF op cl [unfolded o]] nm n
  have "filter is_chan_event (since (snd (snd sample_written)) w2)
       = [ChanSend \<lparr>Text = ''recording_20250102_030405_001.wav'', Confidence = 1, Final = True,
                    AudioFile = [], TextFile = []\<rparr>, ChanClose]"
    by simp
  then have "filter is_chan_event (since (snd (snd sample_written)) (snd (snd sample_closed)))
       = [ChanSend \<lparr>Text = ''recording_20250102_030405_001.wav'', Confidence = 1, Final = True,
                    AudioFile = [], TextFile = []\<rparr>, ChanClose]"
    unfolding sc by simp
  with a show ?thesis by blast
qed

end
